theory Spec2Isabelle
  imports Complex_Main "HOL-Library.Sublist" "HOL-Library.Product_Lexorder" "HOL-Library.Char_ord"
    "HOL-Library.List_Lexorder" "HOL-Library.AList" "HOL-Library.Multiset"
begin

section \<open>Text operations of the Python runtime\<close>

text \<open>
  Header names and cell texts are Python \<open>str\<close> values. They are modelled as
  \<open>string\<close> over ASCII: \<open>str.lower\<close> and \<open>str.upper\<close> change the 26 letters and
  leave every other character alone, and the white space of \<open>str.strip\<close>,
  \<open>str.split\<close> and the regular expression class \<open>\s\<close> is the ASCII white space.
\<close>

definition upper_letters :: string where
  "upper_letters = ''ABCDEFGHIJKLMNOPQRSTUVWXYZ''"

definition lower_letters :: string where
  "lower_letters = ''abcdefghijklmnopqrstuvwxyz''"

definition lower_char :: "char \<Rightarrow> char" where
  "lower_char c = (case map_of (zip upper_letters lower_letters) c of Some d \<Rightarrow> d | None \<Rightarrow> c)"

definition upper_char :: "char \<Rightarrow> char" where
  "upper_char c = (case map_of (zip lower_letters upper_letters) c of Some d \<Rightarrow> d | None \<Rightarrow> c)"

definition str_lower :: "string \<Rightarrow> string" where
  \<comment> \<open>\<open>s.lower()\<close>\<close>
  "str_lower s = map lower_char s"

definition str_upper :: "string \<Rightarrow> string" where
  \<comment> \<open>\<open>s.upper()\<close>\<close>
  "str_upper s = map upper_char s"

definition remove_char :: "char \<Rightarrow> string \<Rightarrow> string" where
  \<comment> \<open>\<open>s.replace(c, '')\<close> for a one-character \<open>c\<close>\<close>
  "remove_char c s = filter (\<lambda>d. d \<noteq> c) s"

definition is_space :: "char \<Rightarrow> bool" where
  \<comment> \<open>space, \<open>\t \n \v \f \r\<close> and the separators \<open>0x1c .. 0x1f\<close>\<close>
  "is_space c = (c \<in> set [CHR '' '', CHR 0x09, CHR 0x0A, CHR 0x0B, CHR 0x0C, CHR 0x0D,
                            CHR 0x1C, CHR 0x1D, CHR 0x1E, CHR 0x1F])"

definition str_lstrip :: "string \<Rightarrow> string" where
  "str_lstrip s = dropWhile is_space s"

definition str_rstrip :: "string \<Rightarrow> string" where
  "str_rstrip s = rev (dropWhile is_space (rev s))"

definition str_strip :: "string \<Rightarrow> string" where
  \<comment> \<open>\<open>s.strip()\<close>\<close>
  "str_strip s = str_rstrip (str_lstrip s)"

fun str_contains :: "string \<Rightarrow> string \<Rightarrow> bool" where
  \<comment> \<open>\<open>needle in haystack\<close>\<close>
  "str_contains needle [] = (needle = [])"
| "str_contains needle (c # cs) = (prefix needle (c # cs) \<or> str_contains needle cs)"

definition digit_chars :: string where
  "digit_chars = ''0123456789''"

definition is_digit :: "char \<Rightarrow> bool" where
  "is_digit c = (c \<in> set digit_chars)"

definition digit_val :: "char \<Rightarrow> nat" where
  "digit_val c = (case map_of (zip digit_chars [0, 1, 2, 3, 4, 5, 6, 7, 8, 9]) c of
                    Some d \<Rightarrow> d | None \<Rightarrow> 0)"

definition nat_of_digits :: "string \<Rightarrow> nat" where
  \<comment> \<open>\<open>int(ds)\<close> for a string of decimal digits\<close>
  "nat_of_digits ds = foldl (\<lambda>acc c. 10 * acc + digit_val c) 0 ds"

fun str_nat :: "nat \<Rightarrow> string" where
  "str_nat n = (if n < 10 then [digit_chars ! n]
                else str_nat (n div 10) @ [digit_chars ! (n mod 10)])"

declare str_nat.simps [simp del]

definition str_int :: "int \<Rightarrow> string" where
  \<comment> \<open>\<open>str(i)\<close> for a Python \<open>int\<close>\<close>
  "str_int i = (if i < 0 then CHR ''-'' # str_nat (nat (- i)) else str_nat (nat i))"

fun split_acc :: "string \<Rightarrow> string \<Rightarrow> string list" where
  "split_acc cur [] = (if cur = [] then [] else [cur])"
| "split_acc cur (c # cs) =
     (if is_space c then (if cur = [] then split_acc [] cs else cur # split_acc [] cs)
      else split_acc (cur @ [c]) cs)"

definition str_split :: "string \<Rightarrow> string list" where
  \<comment> \<open>\<open>s.split()\<close>: the maximal runs of characters that are not white space\<close>
  "str_split s = split_acc [] s"

section \<open>Identity resolver: column detection (common.py, merge\_grades.py)\<close>

text \<open>
  A table's header row is the list \<open>df.columns\<close>. Each detector walks it in order and
  returns the first header one of its patterns accepts, or \<open>None\<close>.
\<close>

definition id_patterns :: "string list" where
  "id_patterns = [''student id'', ''studentid'', ''student_id'', ''sid'',
                  ''id'', ''student number'', ''student_number'']"

definition id_clean :: "string \<Rightarrow> string" where
  \<comment> \<open>\<open>.replace(' ', '').replace('_', '')\<close>\<close>
  "id_clean s = remove_char CHR ''_'' (remove_char CHR '' '' s)"

fun find_student_id_column :: "string list \<Rightarrow> string option" where
  "find_student_id_column [] = None"
| "find_student_id_column (col # cols) =
     (let col_lower = id_clean (str_lower col) in
      if list_ex (\<lambda>pattern.
            let pattern_clean = id_clean pattern in
            str_contains pattern_clean col_lower \<or> str_contains col_lower pattern_clean)
          id_patterns
      then Some col
      else find_student_id_column cols)"

definition id_header :: "string \<Rightarrow> bool" where
  \<comment> \<open>the header is taken for the student id column: the test of the inner loop\<close>
  "id_header col =
     list_ex (\<lambda>pattern.
        str_contains (id_clean pattern) (id_clean (str_lower col))
        \<or> str_contains (id_clean (str_lower col)) (id_clean pattern)) id_patterns"

definition email_patterns :: "string list" where
  "email_patterns = [''school email'', ''schoolemail'', ''school_email'']"

definition email_clean :: "string \<Rightarrow> string" where
  \<comment> \<open>\<open>.replace(' ', '').replace('_', '').replace('-', '')\<close>\<close>
  "email_clean s = remove_char CHR ''-'' (remove_char CHR ''_'' (remove_char CHR '' '' s))"

fun find_email_column :: "string list \<Rightarrow> string option" where
  "find_email_column [] = None"
| "find_email_column (col # cols) =
     (let col_lower = email_clean (str_lower col) in
      if list_ex (\<lambda>pattern. email_clean pattern = col_lower) email_patterns
      then Some col
      else find_email_column cols)"

definition username_patterns :: "string list" where
  "username_patterns = [''username'', ''user name'', ''user_name'']"

fun find_username_column :: "string list \<Rightarrow> string option" where
  "find_username_column [] = None"
| "find_username_column (col # cols) =
     (let col_lower = email_clean (str_lower col) in
      if list_ex (\<lambda>pattern. email_clean pattern = col_lower) username_patterns
      then Some col
      else find_username_column cols)"

section \<open>Cells and optional texts\<close>

text \<open>
  A cell of a table is a missing value (\<open>NaN\<close>, for which \<open>pd.isna\<close> holds), a text,
  an integer or a float. The code reads a float only through \<open>pd.isna\<close>, \<open>str\<close> and
  its truth value, so a float other than \<open>NaN\<close> is carried as the text \<open>str\<close> gives
  for it (\<open>14788528.0\<close> is \<open>CFloat ''14788528.0''\<close>).
\<close>

datatype cell = CNull | CStr string | CInt int | CFloat string

fun pd_isna :: "cell \<Rightarrow> bool" where
  "pd_isna CNull = True"
| "pd_isna _ = False"

fun py_str :: "cell \<Rightarrow> string" where
  "py_str CNull = ''nan''"
| "py_str (CStr s) = s"
| "py_str (CInt i) = str_int i"
| "py_str (CFloat r) = r"

fun py_truthy :: "cell \<Rightarrow> bool" where
  \<comment> \<open>\<open>bool(x)\<close>: \<open>NaN\<close> is true, the empty text and zero are false\<close>
  "py_truthy CNull = True"
| "py_truthy (CStr s) = (s \<noteq> [])"
| "py_truthy (CInt i) = (i \<noteq> 0)"
| "py_truthy (CFloat r) = (r \<noteq> ''0.0'' \<and> r \<noteq> ''-0.0'')"

text \<open>
  A Python value that is a \<open>str\<close> or \<open>None\<close> is a \<open>string option\<close>. It is true when
  it is a text that is not empty, and \<open>a or b\<close> is \<open>a\<close> when \<open>a\<close> is true, else \<open>b\<close>.
\<close>

fun truthy :: "string option \<Rightarrow> bool" where
  "truthy None = False"
| "truthy (Some s) = (s \<noteq> [])"

definition py_or :: "string option \<Rightarrow> string option \<Rightarrow> string option" where
  "py_or a b = (if truthy a then a else b)"

section \<open>Identity resolver: normalisation (common.py, merge\_grades.py)\<close>

text \<open>
  \<open>normalize_student_id\<close> calls \<open>float(id_str)\<close>, compares the float with
  \<open>int(id_float)\<close> and returns \<open>str(int(id_float))\<close> when they are equal; a
  \<open>ValueError\<close> or \<open>OverflowError\<close> is swallowed. This conversion of the Python
  runtime is the parameter \<open>to_whole\<close>: \<open>to_whole s = Some n\<close> when \<open>float(s)\<close>
  is a finite whole number and \<open>int\<close> of it is \<open>n\<close>, and \<open>None\<close> when \<open>float(s)\<close>
  raises, is infinite or \<open>NaN\<close>, or is not whole.
\<close>

definition normalize_student_id :: "(string \<Rightarrow> int option) \<Rightarrow> cell \<Rightarrow> string option" where
  "normalize_student_id to_whole student_id =
     (if pd_isna student_id then None
      else let id_str = str_strip (py_str student_id) in
        if CHR ''.'' \<in> set id_str then
          (case to_whole id_str of
             Some i \<Rightarrow> Some (str_int i)
           | None \<Rightarrow> Some id_str)
        else Some id_str)"

text \<open>
  \<open>decimal_whole\<close> is the conversion for decimal literals
  \<open>[sign] digits [. digits] [e [sign] digits]\<close>, with the exact decimal value. Python
  rounds the value to the nearest double first, which is the same value whenever the
  literal has at most 15 significant digits. An underscore is accepted between two
  digits, as \<open>float\<close> does.
\<close>

fun digits_around :: "bool \<Rightarrow> string \<Rightarrow> bool" where
  \<comment> \<open>every underscore stands between two digits; the flag: the character before is a digit\<close>
  "digits_around p [] = True"
| "digits_around p (c # r) =
     (if c = CHR ''_'' then p \<and> (case r of [] \<Rightarrow> False | d # _ \<Rightarrow> is_digit d) \<and> digits_around False r
      else digits_around (is_digit c) r)"

definition underscores_ok :: "string \<Rightarrow> bool" where
  "underscores_ok s = digits_around False s"

definition is_digits :: "string \<Rightarrow> bool" where
  "is_digits ds = (ds \<noteq> [] \<and> list_all is_digit ds)"

definition split_sign :: "string \<Rightarrow> bool \<times> string" where
  \<comment> \<open>(negative, the rest) of a text with an optional sign\<close>
  "split_sign s = (case s of
       [] \<Rightarrow> (False, [])
     | c # r \<Rightarrow> if c = CHR ''-'' then (True, r) else if c = CHR ''+'' then (False, r)
                else (False, s))"

definition parse_exponent :: "string \<Rightarrow> int option" where
  \<comment> \<open>the text from the \<open>e\<close> on: empty, or \<open>e [sign] digits\<close>\<close>
  "parse_exponent s = (case s of
       [] \<Rightarrow> Some 0
     | _ # r \<Rightarrow> let (neg, ds) = split_sign r in
         if is_digits ds then Some (if neg then - int (nat_of_digits ds) else int (nat_of_digits ds))
         else None)"

definition decimal_whole :: "string \<Rightarrow> int option" where
  "decimal_whole s =
     (if \<not> underscores_ok (str_strip s) then None
      else
        let (neg, body) = split_sign (remove_char CHR ''_'' (str_strip s));
            mant = takeWhile (\<lambda>c. c \<noteq> CHR ''e'' \<and> c \<noteq> CHR ''E'') body;
            ip = takeWhile (\<lambda>c. c \<noteq> CHR ''.'') mant;
            fp = drop 1 (dropWhile (\<lambda>c. c \<noteq> CHR ''.'') mant)
        in
          if list_all is_digit ip \<and> list_all is_digit fp \<and> ip @ fp \<noteq> [] then
            (case parse_exponent (dropWhile (\<lambda>c. c \<noteq> CHR ''e'' \<and> c \<noteq> CHR ''E'') body) of
               None \<Rightarrow> None
             | Some e \<Rightarrow>
                 let m = int (nat_of_digits (ip @ fp));
                     k = e - int (length fp);
                     v = (if 0 \<le> k then m * 10 ^ nat k else m div 10 ^ nat (- k))
                 in
                   if k < 0 \<and> m mod 10 ^ nat (- k) \<noteq> 0 then None
                   else Some (if neg then - v else v))
          else None)"

definition extract_username_from_email :: "cell \<Rightarrow> string" where
  "extract_username_from_email email =
     (if pd_isna email \<or> \<not> py_truthy email \<or> CHR ''@'' \<notin> set (py_str email) then []
      else str_lower (str_strip (takeWhile (\<lambda>c. c \<noteq> CHR ''@'') (py_str email))))"

section \<open>Column ordering (merge.py, merge\_grades.py)\<close>

text \<open>
  \<open>re.match(r'W(\d+)\s+(PA|CA|IL|OL)', col.strip(), re.IGNORECASE)\<close>: the letter W, a
  maximal run of digits, a maximal run of white space and two letters that spell one of the
  four types in either case. Both runs are not empty. The result is
  \<open>(int(group(1)), group(2))\<close>.
\<close>

definition type_names :: "string list" where
  "type_names = [''PA'', ''CA'', ''IL'', ''OL'']"

definition match_assignment_col :: "string \<Rightarrow> (nat \<times> string) option" where
  "match_assignment_col col =
     (case str_strip col of
        [] \<Rightarrow> None
      | w # rest \<Rightarrow>
          let ds = takeWhile is_digit rest;
              ws = takeWhile is_space (dropWhile is_digit rest);
              ty = take 2 (dropWhile is_space (dropWhile is_digit rest))
          in
            if lower_char w = CHR ''w'' \<and> ds \<noteq> [] \<and> ws \<noteq> [] \<and> str_upper ty \<in> set type_names
            then Some (nat_of_digits ds, ty)
            else None)"

definition assignment_type_order :: "(string \<times> nat) list" where
  "assignment_type_order = [(''PA'', 0), (''CA'', 1), (''IL'', 2), (''OL'', 3)]"

definition type_order :: "string \<Rightarrow> nat" where
  \<comment> \<open>\<open>assignment_type_order.get(assignment_type, 99)\<close>\<close>
  "type_order assignment_type =
     (case map_of assignment_type_order assignment_type of Some r \<Rightarrow> r | None \<Rightarrow> 99)"

definition classify_col ::
  "string \<Rightarrow> (string \<times> nat \<times> nat) list \<times> string list \<Rightarrow> (string \<times> nat \<times> nat) list \<times> string list" where
  \<comment> \<open>one round of the loop over \<open>df.columns\<close>\<close>
  "classify_col col acc =
     (case acc of (assignment_cols, non_assignment_cols) \<Rightarrow>
        (case match_assignment_col col of
           Some (week_num, ty) \<Rightarrow>
             (assignment_cols @ [(col, week_num, type_order (str_upper ty))], non_assignment_cols)
         | None \<Rightarrow> (assignment_cols, non_assignment_cols @ [col])))"

definition sort_assignment_columns :: "string list \<Rightarrow> string list" where
  \<comment> \<open>the new column order; \<open>list.sort\<close> is stable, as \<open>sort_key\<close> is\<close>
  "sort_assignment_columns cols =
     (case fold classify_col cols ([], []) of (assignment_cols, non_assignment_cols) \<Rightarrow>
        non_assignment_cols
          @ map fst (sort_key (\<lambda>x. (fst (snd x), snd (snd x))) assignment_cols))"

text \<open>
  The two notions the ordering is stated with: a header is an assignment column when the
  pattern matches it, and its sort key is \<open>(week, type rank)\<close>.
\<close>

definition is_assignment_col :: "string \<Rightarrow> bool" where
  "is_assignment_col col = (match_assignment_col col \<noteq> None)"

definition order_key :: "string \<Rightarrow> nat \<times> nat" where
  "order_key col =
     (case match_assignment_col col of
        Some (week_num, ty) \<Rightarrow> (week_num, type_order (str_upper ty))
      | None \<Rightarrow> (0, 0))"

section \<open>Tables\<close>

text \<open>
  A table is a pandas \<open>DataFrame\<close> with the default index \<open>0, 1, ...\<close>: its header
  names in order, and its rows, each a dictionary from header name to cell in header order
  (\<open>row.to_dict()\<close>). Header names are distinct and every row has every column, as
  \<open>read_csv\<close> delivers them.
\<close>

type_synonym row = "(string \<times> cell) list"

record table =
  columns :: "string list"
  rows :: "row list"

definition row_get :: "row \<Rightarrow> string \<Rightarrow> cell" where
  \<comment> \<open>\<open>row[col]\<close>, for a column of the table\<close>
  "row_get r col = (case map_of r col of Some v \<Rightarrow> v | None \<Rightarrow> CNull)"

definition table_at :: "table \<Rightarrow> nat \<Rightarrow> string \<Rightarrow> cell" where
  \<comment> \<open>\<open>df.at[idx, col]\<close>\<close>
  "table_at df idx col = (if idx < length (rows df) then row_get (rows df ! idx) col else CNull)"

definition table_set_at :: "table \<Rightarrow> nat \<Rightarrow> string \<Rightarrow> cell \<Rightarrow> table" where
  \<comment> \<open>\<open>df.at[idx, col] = v\<close>, for a row and a column of the table\<close>
  "table_set_at df idx col v =
     (if idx < length (rows df)
      then df\<lparr>rows := (rows df)[idx := AList.update col v (rows df ! idx)]\<rparr>
      else df)"

definition add_column :: "string \<Rightarrow> table \<Rightarrow> table" where
  \<comment> \<open>\<open>df[col] = ''\<close>: a new last column, or an old one overwritten\<close>
  "add_column col df =
     \<lparr>columns = (if col \<in> set (columns df) then columns df else columns df @ [col]),
      rows = map (AList.update col (CStr [])) (rows df)\<rparr>"

definition select_columns :: "string list \<Rightarrow> table \<Rightarrow> table" where
  \<comment> \<open>\<open>df[new_column_order]\<close>\<close>
  "select_columns order df =
     \<lparr>columns = order, rows = map (\<lambda>r. map (\<lambda>c. (c, row_get r c)) order) (rows df)\<rparr>"

definition sorted_table :: "table \<Rightarrow> table" where
  \<comment> \<open>\<open>sort_assignment_columns(df)\<close> as a table\<close>
  "sorted_table df = select_columns (sort_assignment_columns (columns df)) df"

section \<open>Merge engine: looking a source row up in a destination table\<close>

text \<open>
  Both merges index a destination table by normalised id and by user name, each key bound
  to the last row that carries it, and look every source row up with the same chain:
  \<open>if sid and sid in student_map: ... elif uname and uname in username_map: ...\<close>.
\<close>

datatype match_kind = ById | ByEmail

definition find_lecture_row ::
  "(string \<rightharpoonup> nat) \<Rightarrow> (string \<rightharpoonup> nat) \<Rightarrow> string option \<Rightarrow> string option
    \<Rightarrow> (nat \<times> match_kind) option" where
  "find_lecture_row student_map username_map sid uname =
     (if truthy sid \<and> student_map (the sid) \<noteq> None
      then Some (the (student_map (the sid)), ById)
      else if truthy uname \<and> username_map (the uname) \<noteq> None
      then Some (the (username_map (the uname)), ByEmail)
      else None)"

definition column_cell :: "string option \<Rightarrow> row \<Rightarrow> cell option" where
  \<comment> \<open>\<open>row[col] if col else None\<close>\<close>
  "column_cell col r = (if truthy col then Some (row_get r (the col)) else None)"

section \<open>Merge engine: per-assignment files into lecture sections (merge.py)\<close>

definition map_lecture_row ::
  "(string \<Rightarrow> int option) \<Rightarrow> string option \<Rightarrow> string option \<Rightarrow> string option \<Rightarrow> nat \<times> row
    \<Rightarrow> (string \<rightharpoonup> nat) \<times> (string \<rightharpoonup> nat) \<Rightarrow> (string \<rightharpoonup> nat) \<times> (string \<rightharpoonup> nat)" where
  \<comment> \<open>one round of \<open>for idx, row in lecture_df.iterrows()\<close>\<close>
  "map_lecture_row to_whole lec_id_col lec_email_col lec_username_col ir maps =
     (case (ir, maps) of ((idx, r), (student_map, username_map)) \<Rightarrow>
        let student_id = (if truthy lec_id_col
                          then normalize_student_id to_whole (row_get r (the lec_id_col))
                          else None);
            username =
              (if truthy lec_username_col \<and> \<not> pd_isna (row_get r (the lec_username_col))
               then Some (str_lower (str_strip (py_str (row_get r (the lec_username_col)))))
               else if truthy lec_email_col
               then Some (extract_username_from_email (row_get r (the lec_email_col)))
               else None)
        in
          (if truthy student_id then student_map(the student_id \<mapsto> idx) else student_map,
           if truthy username then username_map(the username \<mapsto> idx) else username_map))"

definition lecture_maps ::
  "(string \<Rightarrow> int option) \<Rightarrow> table \<Rightarrow> (string \<rightharpoonup> nat) \<times> (string \<rightharpoonup> nat)" where
  "lecture_maps to_whole df =
     fold (map_lecture_row to_whole (find_student_id_column (columns df))
             (find_email_column (columns df)) (find_username_column (columns df)))
       (zip [0..<length (rows df)] (rows df)) (Map.empty, Map.empty)"

record lecture_stats =
  st_grades_updated :: nat
  st_matched_by_id :: nat
  st_matched_by_email :: nat
  st_columns_added :: nat

text \<open>
  The state of a run: the \<open>results\<close> dictionary, the lecture tables, the two sets kept per
  assignment file, and the variables of the pass over one lecture section.
\<close>

record merge_state =
  lecture_dfs :: "(string \<times> table) list"
  stats :: "(string \<times> lecture_stats) list"
  matched_students :: "string option set"
  students_not_found :: "string option set"
  new_columns :: "string list"
  by_id :: nat
  by_email :: nat
  orphaned_rows :: "row list"
  failed_id_match_rows :: "row list"
  all_assignment_students :: "string option set"
  students_matched_this_assignment :: "string option set"
  lecture_df :: table
  grades_updated :: nat
  matched_by_id :: nat
  matched_by_email :: nat
  failed_id_matches :: "row list"

definition assign_ids ::
  "(string \<Rightarrow> int option) \<Rightarrow> string \<Rightarrow> string option \<Rightarrow> row \<Rightarrow> string option \<times> string option" where
  \<comment> \<open>\<open>(assign_student_id, assign_username)\<close> of a row of the assignment file\<close>
  "assign_ids to_whole assign_id_col assign_email_col assign_row =
     (normalize_student_id to_whole (row_get assign_row assign_id_col),
      if truthy assign_email_col
      then Some (extract_username_from_email (row_get assign_row (the assign_email_col)))
      else None)"

definition student_key_of ::
  "(string \<Rightarrow> int option) \<Rightarrow> string \<Rightarrow> string option \<Rightarrow> row \<Rightarrow> string option" where
  \<comment> \<open>\<open>assign_student_id or assign_username\<close>\<close>
  "student_key_of to_whole assign_id_col assign_email_col assign_row =
     (case assign_ids to_whole assign_id_col assign_email_col assign_row of
        (assign_student_id, assign_username) \<Rightarrow> py_or assign_student_id assign_username)"

definition note_id_mismatch ::
  "(string \<Rightarrow> int option) \<Rightarrow> string option \<Rightarrow> string option \<Rightarrow> nat \<Rightarrow> row \<Rightarrow> merge_state
    \<Rightarrow> merge_state" where
  \<comment> \<open>the check under \<open>match_method = 'email'\<close>\<close>
  "note_id_mismatch to_whole lec_id_col assign_student_id lecture_row_idx assign_row st =
     (if truthy assign_student_id \<and> truthy lec_id_col then
        let lec_student_id =
              normalize_student_id to_whole (table_at (lecture_df st) lecture_row_idx (the lec_id_col))
        in if truthy lec_student_id \<and> assign_student_id \<noteq> lec_student_id
           then st\<lparr>failed_id_matches := failed_id_matches st @ [assign_row]\<rparr>
           else st
      else st)"

definition merge_assign_row ::
  "(string \<Rightarrow> int option) \<Rightarrow> string \<Rightarrow> string \<Rightarrow> string option \<Rightarrow> string \<Rightarrow> string option
    \<Rightarrow> (string \<rightharpoonup> nat) \<times> (string \<rightharpoonup> nat) \<Rightarrow> row \<Rightarrow> merge_state \<Rightarrow> merge_state" where
  \<comment> \<open>one round of \<open>for _, assign_row in assignment_df.iterrows()\<close>\<close>
  "merge_assign_row to_whole abbrev_name assign_id_col assign_email_col grade_col lec_id_col maps
       assign_row st =
     (case assign_ids to_whole assign_id_col assign_email_col assign_row of
        (assign_student_id, assign_username) \<Rightarrow>
        let student_key = py_or assign_student_id assign_username;
            st1 = (if truthy student_key
                   then st\<lparr>all_assignment_students := insert student_key (all_assignment_students st)\<rparr>
                   else st)
        in
          case find_lecture_row (fst maps) (snd maps) assign_student_id assign_username of
            None \<Rightarrow> st1
          | Some (lecture_row_idx, match_method) \<Rightarrow>
              let st2 = (case match_method of
                           ById \<Rightarrow> st1\<lparr>matched_by_id := matched_by_id st1 + 1\<rparr>
                         | ByEmail \<Rightarrow>
                             note_id_mismatch to_whole lec_id_col assign_student_id lecture_row_idx
                               assign_row (st1\<lparr>matched_by_email := matched_by_email st1 + 1\<rparr>));
                  st3 = st2\<lparr>students_matched_this_assignment :=
                               insert student_key (students_matched_this_assignment st2),
                             matched_students := insert student_key (matched_students st2)\<rparr>;
                  st4 = (case match_method of
                           ById \<Rightarrow> st3\<lparr>by_id := by_id st3 + 1\<rparr>
                         | ByEmail \<Rightarrow> st3\<lparr>by_email := by_email st3 + 1\<rparr>);
                  base_grade = row_get assign_row grade_col
              in
                if pd_isna base_grade \<or> base_grade = CStr [] then st4
                else st4\<lparr>lecture_df := table_set_at (lecture_df st4) lecture_row_idx abbrev_name base_grade,
                         grades_updated := grades_updated st4 + 1\<rparr>)"

definition bump_stats :: "string \<Rightarrow> merge_state \<Rightarrow> (string \<times> lecture_stats) list" where
  \<comment> \<open>\<open>results['stats'][lecture_name][...] += ...\<close>, the entry made first when missing\<close>
  "bump_stats lecture_name st =
     (let old = (case map_of (stats st) lecture_name of
                   Some x \<Rightarrow> x
                 | None \<Rightarrow> \<lparr>st_grades_updated = 0, st_matched_by_id = 0,
                             st_matched_by_email = 0, st_columns_added = 0\<rparr>)
      in AList.update lecture_name
           (old\<lparr>st_grades_updated := st_grades_updated old + grades_updated st,
                 st_matched_by_id := st_matched_by_id old + matched_by_id st,
                 st_matched_by_email := st_matched_by_email old + matched_by_email st\<rparr>)
           (stats st))"

definition usable_lecture :: "table \<Rightarrow> bool" where
  \<comment> \<open>the lecture section is not skipped: one of the three columns is found\<close>
  "usable_lecture df =
     (truthy (find_student_id_column (columns df)) \<or> truthy (find_email_column (columns df))
      \<or> truthy (find_username_column (columns df)))"

definition merge_into_lecture ::
  "(string \<Rightarrow> int option) \<Rightarrow> string \<Rightarrow> table \<Rightarrow> string \<Rightarrow> string option \<Rightarrow> string
    \<Rightarrow> string \<Rightarrow> merge_state \<Rightarrow> merge_state" where
  \<comment> \<open>one round of \<open>for lecture_name, lecture_df in lecture_dfs.items()\<close>\<close>
  "merge_into_lecture to_whole abbrev_name assignment_df assign_id_col assign_email_col grade_col
       lecture_name st =
     (case map_of (lecture_dfs st) lecture_name of
        None \<Rightarrow> st
      | Some df \<Rightarrow>
          if \<not> usable_lecture df then st
          else
            let maps = lecture_maps to_whole df;
                is_new = (abbrev_name \<notin> set (columns df));
                st0 = st\<lparr>lecture_df := (if is_new then add_column abbrev_name df else df),
                         new_columns := (if is_new \<and> abbrev_name \<notin> set (new_columns st)
                                         then new_columns st @ [abbrev_name] else new_columns st),
                         grades_updated := 0, matched_by_id := 0, matched_by_email := 0,
                         failed_id_matches := []\<rparr>;
                st1 = fold (merge_assign_row to_whole abbrev_name assign_id_col assign_email_col
                              grade_col (find_student_id_column (columns df)) maps)
                        (rows assignment_df) st0
            in st1\<lparr>lecture_dfs := AList.update lecture_name (lecture_df st1) (lecture_dfs st1),
                    stats := bump_stats lecture_name st1,
                    failed_id_match_rows := failed_id_match_rows st1 @ failed_id_matches st1\<rparr>)"

definition find_grade_col :: "string list \<Rightarrow> string option" where
  \<comment> \<open>the first header with \<open>'percent score' in col.lower()\<close>\<close>
  "find_grade_col cols = List.find (\<lambda>col. str_contains ''percent score'' (str_lower col)) cols"

definition orphaned_students :: "merge_state \<Rightarrow> string option set" where
  \<comment> \<open>\<open>all_assignment_students - students_matched_this_assignment\<close>\<close>
  "orphaned_students st = all_assignment_students st - students_matched_this_assignment st"

definition collect_orphans ::
  "(string \<Rightarrow> int option) \<Rightarrow> string \<Rightarrow> string option \<Rightarrow> table \<Rightarrow> merge_state \<Rightarrow> merge_state" where
  \<comment> \<open>the second loop over the assignment file, after every lecture section\<close>
  "collect_orphans to_whole assign_id_col assign_email_col assignment_df st =
     st\<lparr>orphaned_rows := orphaned_rows st @
          filter (\<lambda>assign_row.
                    let student_key = student_key_of to_whole assign_id_col assign_email_col assign_row
                    in truthy student_key \<and> student_key \<in> orphaned_students st)
            (rows assignment_df)\<rparr>"

text \<open>
  An assignment file comes as the short name \<open>parse_assignment_filename\<close> reads from its
  file name (\<open>None\<close> when the name does not parse) and the table read from it.
\<close>

definition merge_assignment ::
  "(string \<Rightarrow> int option) \<Rightarrow> string option \<times> table \<Rightarrow> merge_state \<Rightarrow> merge_state" where
  \<comment> \<open>one round of \<open>for assignment_file in assignment_files\<close>\<close>
  "merge_assignment to_whole af st =
     (case af of (abbrev_name, assignment_df) \<Rightarrow>
        let assign_id_col = find_student_id_column (columns assignment_df);
            assign_email_col = find_email_column (columns assignment_df);
            grade_col = find_grade_col (columns assignment_df)
        in
          if \<not> truthy abbrev_name \<or> \<not> truthy assign_id_col \<or> \<not> truthy grade_col then st
          else
            let st0 = st\<lparr>all_assignment_students := {}, students_matched_this_assignment := {}\<rparr>;
                st1 = fold (merge_into_lecture to_whole (the abbrev_name) assignment_df
                              (the assign_id_col) assign_email_col (the grade_col))
                        (map fst (lecture_dfs st0)) st0
            in collect_orphans to_whole (the assign_id_col) assign_email_col assignment_df st1)"

definition lecture_data :: "(string \<times> table) list \<Rightarrow> (string \<times> table) list" where
  \<comment> \<open>the dictionary from file name to table, filled in the order of the files\<close>
  "lecture_data lecture_files =
     fold (\<lambda>(lecture_name, df). AList.update lecture_name df) lecture_files []"

definition empty_table :: table where
  "empty_table = \<lparr>columns = [], rows = []\<rparr>"

definition initial_state :: "(string \<times> table) list \<Rightarrow> merge_state" where
  "initial_state lecture_files =
     \<lparr>lecture_dfs = lecture_data lecture_files,
      stats = [], matched_students = {}, students_not_found = {}, new_columns = [],
      by_id = 0, by_email = 0, orphaned_rows = [], failed_id_match_rows = [],
      all_assignment_students = {}, students_matched_this_assignment = {},
      lecture_df = empty_table, grades_updated = 0, matched_by_id = 0, matched_by_email = 0,
      failed_id_matches = []\<rparr>"

definition merge_grades_from_assignments ::
  "(string \<Rightarrow> int option) \<Rightarrow> (string \<times> table) list \<Rightarrow> (string option \<times> table) list
    \<Rightarrow> merge_state" where
  \<comment> \<open>the results are the first nine fields; \<open>lecture_dfs\<close> is \<open>results['updated_dataframes']\<close>\<close>
  "merge_grades_from_assignments to_whole lecture_files assignment_files =
     (let st = fold (merge_assignment to_whole) assignment_files (initial_state lecture_files)
      in st\<lparr>lecture_dfs := map (\<lambda>(lecture_name, df). (lecture_name, sorted_table df))
                               (lecture_dfs st)\<rparr>)"

text \<open>
  The lookup of a row of an assignment file in a lecture table, as \<open>merge_assign_row\<close>
  does it, the key under which the row is kept, and the keys of a file.
\<close>

definition assign_lookup ::
  "(string \<Rightarrow> int option) \<Rightarrow> table \<Rightarrow> table \<Rightarrow> row \<Rightarrow> (nat \<times> match_kind) option" where
  "assign_lookup to_whole assignment_df df assign_row =
     (case assign_ids to_whole (the (find_student_id_column (columns assignment_df)))
             (find_email_column (columns assignment_df)) assign_row of
        (assign_student_id, assign_username) \<Rightarrow>
          find_lecture_row (fst (lecture_maps to_whole df)) (snd (lecture_maps to_whole df))
            assign_student_id assign_username)"

definition assign_key :: "(string \<Rightarrow> int option) \<Rightarrow> table \<Rightarrow> row \<Rightarrow> string option" where
  "assign_key to_whole assignment_df assign_row =
     student_key_of to_whole (the (find_student_id_column (columns assignment_df)))
       (find_email_column (columns assignment_df)) assign_row"

definition assign_keys :: "(string \<Rightarrow> int option) \<Rightarrow> table \<Rightarrow> string option set" where
  "assign_keys to_whole assignment_df =
     {k \<in> assign_key to_whole assignment_df ` set (rows assignment_df). truthy k}"

definition usable_at :: "merge_state \<Rightarrow> string \<Rightarrow> table \<Rightarrow> bool" where
  \<comment> \<open>the table kept under the name is a lecture section that is not skipped\<close>
  "usable_at st lecture_name df = (map_of (lecture_dfs st) lecture_name = Some df \<and> usable_lecture df)"

definition accepted_file :: "string option \<times> table \<Rightarrow> bool" where
  \<comment> \<open>the assignment file is not skipped: its name parses and it has an id and a grade column\<close>
  "accepted_file af =
     (truthy (fst af) \<and> truthy (find_student_id_column (columns (snd af)))
      \<and> truthy (find_grade_col (columns (snd af))))"

section \<open>Late-penalty evaluator (score.py)\<close>

text \<open>
  An adjustment is a dictionary read from YAML. A key that may be missing is an option:
  \<open>None\<close> for \<open>student\<close> and \<open>assignment\<close> is the key not being there, and for
  \<open>penalty\<close> the value \<open>adj.get('penalty', None)\<close>. Scores, days and deductions are
  rational numbers, so the arithmetic is exact. Reading a missing key raises \<open>KeyError\<close>,
  and \<open>assignment.split()[1]\<close> raises \<open>IndexError\<close> on a name of fewer than two words.
\<close>

datatype py_error = KeyError string | IndexError | ValueError string

record penalty_entry =
  days_late :: "rat option"
  frac_deduction :: "rat option"

record adjustment =
  week :: "int option"
  student :: "string option"
  assignment :: "string option"
  penalty :: "penalty_entry list option"

record late_row =
  Assignment :: string
  First_Name :: string
  Last_Name :: string
  After_Score :: rat
  Days_Late :: rat

text \<open>The text of a rule is an f-string: literal pieces and interpolated numbers.\<close>

datatype piece = Txt string | Num rat

record adj_info =
  matched :: bool
  rule :: "piece list option"
  info_frac_deduction :: rat

definition no_adj :: adj_info where
  "no_adj = \<lparr>matched = False, rule = None, info_frac_deduction = 0\<rparr>"

definition waived :: "piece list \<Rightarrow> adj_info" where
  "waived who = \<lparr>matched = True, rule = Some (who @ [Txt '': penalty waived'']),
                  info_frac_deduction = 0\<rparr>"

definition not_penalty :: "penalty_entry list option \<Rightarrow> bool" where
  \<comment> \<open>\<open>not penalty\<close>: \<open>None\<close> or the empty list\<close>
  "not_penalty p = (case p of None \<Rightarrow> True | Some ps \<Rightarrow> ps = [])"

fun scan_penalty ::
  "piece list \<Rightarrow> rat \<Rightarrow> rat \<Rightarrow> penalty_entry list \<Rightarrow> (py_error + rat \<times> adj_info) option" where
  \<comment> \<open>\<open>for p in penalty\<close>: \<open>None\<close> when the loop ends without a \<open>return\<close>\<close>
  "scan_penalty who unpenalized_score dl [] = None"
| "scan_penalty who unpenalized_score dl (p # ps) =
     (case days_late p of
        None \<Rightarrow> scan_penalty who unpenalized_score dl ps
      | Some d \<Rightarrow>
          if dl \<le> d then
            (case frac_deduction p of
               None \<Rightarrow> Some (Inl (KeyError ''frac-deduction''))
             | Some frac_d \<Rightarrow>
                 Some (Inr ((1 - frac_d) * unpenalized_score,
                   \<lparr>matched = True,
                    rule = Some (who @ [Txt '': '', Num frac_d, Txt '' deduction (days late <= '',
                                        Num d, Txt '')'']),
                    info_frac_deduction = frac_d\<rparr>)))
          else scan_penalty who unpenalized_score dl ps)"

definition apply_penalty ::
  "piece list \<Rightarrow> rat \<Rightarrow> rat \<Rightarrow> penalty_entry list option \<Rightarrow> (py_error + rat \<times> adj_info) option" where
  \<comment> \<open>\<open>if not penalty: return ... else: for p in penalty: ...\<close>\<close>
  "apply_penalty who unpenalized_score dl p =
     (if not_penalty p then Some (Inr (unpenalized_score, waived who))
      else scan_penalty who unpenalized_score dl (the p))"

fun late_score_loop ::
  "string \<Rightarrow> string \<Rightarrow> string \<Rightarrow> rat \<Rightarrow> rat \<Rightarrow> adjustment list \<Rightarrow> py_error + rat \<times> adj_info" where
  "late_score_loop wk assn student_name unpenalized_score dl [] = Inr (unpenalized_score, no_adj)"
| "late_score_loop wk assn student_name unpenalized_score dl (adj # adjustments) =
     (let all_students = (student adj = None);
          all_assn = (assignment adj = None);
          continue = late_score_loop wk assn student_name unpenalized_score dl adjustments;
          returning = (\<lambda>r. case r of Some res \<Rightarrow> res | None \<Rightarrow> continue)
      in
        case week adj of
          None \<Rightarrow> Inl (KeyError ''week'')
        | Some n \<Rightarrow>
            if wk \<noteq> CHR ''W'' # str_int n then continue
            else if all_students \<and> all_assn then
              (if not_penalty (penalty adj) then
                 Inr (unpenalized_score, waived [Txt wk, Txt '' all students, all assignments''])
               else continue)
            else if all_students \<and> \<not> all_assn then
              (if assignment adj = Some assn then
                 returning (apply_penalty [Txt wk, Txt '' all students, '', Txt assn]
                              unpenalized_score dl (penalty adj))
               else continue)
            else if \<not> all_students \<and> all_assn then
              (if student adj = Some student_name then
                 returning (apply_penalty [Txt wk, Txt '' '', Txt student_name, Txt '', all assignments'']
                              unpenalized_score dl (penalty adj))
               else continue)
            else
              (if student adj = Some student_name \<and> assignment adj = Some assn then
                 returning (apply_penalty [Txt wk, Txt '' '', Txt student_name, Txt '', '', Txt assn]
                              unpenalized_score dl (penalty adj))
               else continue))"

declare late_score_loop.simps [simp del]

definition applies_to :: "adjustment \<Rightarrow> string \<Rightarrow> string \<Rightarrow> string \<Rightarrow> bool" where
  \<comment> \<open>the rule is for the record's week, and the fields it has are the record's\<close>
  "applies_to adj wk student_name assn =
     ((case week adj of Some n \<Rightarrow> wk = CHR ''W'' # str_int n | None \<Rightarrow> False)
      \<and> (student adj = None \<or> student adj = Some student_name)
      \<and> (assignment adj = None \<or> assignment adj = Some assn))"

definition late_score :: "late_row \<Rightarrow> adjustment list \<Rightarrow> py_error + rat \<times> adj_info" where
  "late_score row adjustments =
     (case str_split (Assignment row) of
        wk # assn # _ \<Rightarrow>
          late_score_loop wk assn (First_Name row @ '' '' @ Last_Name row)
            (After_Score row) (Days_Late row) adjustments
      | _ \<Rightarrow> Inl IndexError)"

section \<open>Column classifier and table matcher (merge\_grades.py)\<close>

definition week_prefix :: "string \<Rightarrow> (string \<times> string) option" where
  \<comment> \<open>\<open>\s+(\d+)\s+\<close> after the word: the digits and the text after the white space\<close>
  "week_prefix r =
     (let ds = takeWhile is_digit (dropWhile is_space r);
          r2 = dropWhile is_digit (dropWhile is_space r)
      in if takeWhile is_space r \<noteq> [] \<and> ds \<noteq> [] \<and> takeWhile is_space r2 \<noteq> []
         then Some (ds, dropWhile is_space r2)
         else None)"

definition is_gradeable_assignment :: "string \<Rightarrow> bool" where
  \<comment> \<open>\<open>Week\s+\d+\s+\<close> or \<open>W\d+\s+(PA|IL|CA|OL)\<close> at the start of \<open>col_name.strip()\<close>, in either case\<close>
  "is_gradeable_assignment col_name =
     ((str_lower (take 4 (str_strip col_name)) = ''week''
        \<and> week_prefix (drop 4 (str_strip col_name)) \<noteq> None)
      \<or> match_assignment_col col_name \<noteq> None)"

definition point_suffix :: "string \<Rightarrow> bool" where
  \<comment> \<open>the whole text is \<open>\s*\([\d.]+\)\<close>\<close>
  "point_suffix t =
     (case dropWhile is_space t of
        [] \<Rightarrow> False
      | c # u \<Rightarrow> c = CHR ''(''
          \<and> takeWhile (\<lambda>d. is_digit d \<or> d = CHR ''.'') u \<noteq> []
          \<and> dropWhile (\<lambda>d. is_digit d \<or> d = CHR ''.'') u = '')'')"

fun lazy_group :: "string \<Rightarrow> string \<Rightarrow> string option" where
  \<comment> \<open>\<open>(.+?)(?:\s*\([\d.]+\))?$\<close>: the shortest text of one character or more, without a
      line feed, that the end of the text or a point value follows\<close>
  "lazy_group acc [] = (if acc = [] then None else Some acc)"
| "lazy_group acc (c # r) =
     (if acc \<noteq> [] \<and> point_suffix (c # r) then Some acc
      else if c = CHR 0x0A then None
      else lazy_group (acc @ [c]) r)"

definition type_map :: "(string \<times> string) list" where
  "type_map = [(''Participation Activities'', ''PA''), (''In-Lab Labs'', ''IL''),
               (''Challenge Activities'', ''CA''), (''Out-of-Lab Labs'', ''OL'')]"

definition translate_assignment_name :: "string \<Rightarrow> string" where
  \<comment> \<open>\<open>re.match(r'Week\s+(\d+)\s+(.+?)(?:\s*\([\d.]+\))?$', col_name.strip())\<close>\<close>
  "translate_assignment_name col_name =
     (if take 4 (str_strip col_name) \<noteq> ''Week'' then col_name
      else
        case week_prefix (drop 4 (str_strip col_name)) of
          None \<Rightarrow> col_name
        | Some (week_num, r) \<Rightarrow>
            (case lazy_group [] r of
               None \<Rightarrow> col_name
             | Some assignment_type \<Rightarrow>
                 (case List.find (\<lambda>(full_name, abbrev).
                          str_lower full_name = str_lower (str_strip assignment_type)) type_map of
                    Some (full_name, abbrev) \<Rightarrow> ''W'' @ week_num @ '' '' @ abbrev
                  | None \<Rightarrow> col_name)))"

definition clean_assignment_name :: "string \<Rightarrow> string" where
  "clean_assignment_name col_name =
     str_rstrip (if CHR ''['' \<in> set col_name then takeWhile (\<lambda>c. c \<noteq> CHR ''['') col_name
                 else col_name)"

definition replace_char :: "char \<Rightarrow> char \<Rightarrow> string \<Rightarrow> string" where
  \<comment> \<open>\<open>s.replace(a, b)\<close> for one-character \<open>a\<close> and \<open>b\<close>\<close>
  "replace_char a b s = map (\<lambda>c. if c = a then b else c) s"

definition normalize_column_name :: "string \<Rightarrow> string" where
  "normalize_column_name name =
     str_strip (replace_char CHR ''-'' CHR '' '' (replace_char CHR ''_'' CHR '' '' (str_lower name)))"

definition find_matching_column :: "string \<Rightarrow> string list \<Rightarrow> string option" where
  "find_matching_column lab_col lecture_cols =
     (let normalized_lab = normalize_column_name (clean_assignment_name lab_col) in
        case List.find (\<lambda>lec_col.
               normalize_column_name (clean_assignment_name lec_col) = normalized_lab) lecture_cols of
          Some lec_col \<Rightarrow> Some lec_col
        | None \<Rightarrow>
            List.find (\<lambda>lec_col.
                let normalized_lec = normalize_column_name (clean_assignment_name lec_col) in
                str_contains normalized_lab normalized_lec \<or> str_contains normalized_lec normalized_lab)
              lecture_cols)"

section \<open>Merge engine: master gradebook into lecture sections (merge\_grades.py)\<close>

definition map_master_lecture_row ::
  "(string \<Rightarrow> int option) \<Rightarrow> string option \<Rightarrow> string option \<Rightarrow> nat \<times> row
    \<Rightarrow> (string \<rightharpoonup> nat) \<times> (string \<rightharpoonup> nat) \<Rightarrow> (string \<rightharpoonup> nat) \<times> (string \<rightharpoonup> nat)" where
  \<comment> \<open>one round of \<open>for idx, row in lecture_df.iterrows()\<close>\<close>
  "map_master_lecture_row to_whole lecture_id_col lecture_username_col ir maps =
     (case (ir, maps) of ((idx, r), (student_id_map, student_username_map)) \<Rightarrow>
        let student_id_str = (if truthy lecture_id_col
                              then normalize_student_id to_whole (row_get r (the lecture_id_col))
                              else None)
        in
          (if truthy student_id_str then student_id_map(the student_id_str \<mapsto> idx)
           else student_id_map,
           if truthy lecture_username_col \<and> \<not> pd_isna (row_get r (the lecture_username_col))
           then student_username_map
                  (str_lower (str_strip (py_str (row_get r (the lecture_username_col)))) \<mapsto> idx)
           else student_username_map))"

definition master_lecture_maps ::
  "(string \<Rightarrow> int option) \<Rightarrow> table \<Rightarrow> (string \<rightharpoonup> nat) \<times> (string \<rightharpoonup> nat)" where
  "master_lecture_maps to_whole df =
     fold (map_master_lecture_row to_whole (find_student_id_column (columns df))
             (find_username_column (columns df)))
       (zip [0..<length (rows df)] (rows df)) (Map.empty, Map.empty)"

text \<open>
  The state of a run over the master gradebook: the \<open>results\<close> dictionary, the three
  collections kept beside it, and the variables of the pass over one lecture section.
\<close>

record master_state =
  m_updated_dataframes :: "(string \<times> table) list"
  m_stats :: "(string \<times> lecture_stats) list"
  m_students_not_found :: "string list"
  m_orphaned_rows :: "row list"
  m_failed_id_match_rows :: "row list"
  m_new_columns :: "string list"
  m_matched_students :: "string set"
  m_by_id :: nat
  m_by_email :: nat
  all_master_students :: "string set"
  matched_master_indices :: "nat set"
  failed_id_match_details :: "(nat \<times> row) list"
  m_lecture_df :: table
  m_grades_updated :: nat
  m_columns_added :: nat
  m_matched_by_id :: nat
  m_matched_by_email :: nat

definition transfer_col ::
  "string option \<Rightarrow> string option \<Rightarrow> row \<Rightarrow> nat \<Rightarrow> string \<Rightarrow> master_state \<Rightarrow> master_state" where
  \<comment> \<open>one round of \<open>for master_col in master_df.columns\<close>\<close>
  "transfer_col master_id_col master_email_col master_row lecture_row_idx master_col st =
     (if Some master_col = master_id_col \<or> Some master_col = master_email_col
         \<or> str_contains ''name'' (str_lower master_col)
         \<or> str_contains ''email'' (str_lower master_col)
         \<or> str_contains ''section'' (str_lower master_col)
         \<or> str_contains ''class'' (str_lower master_col)
      then st
      else if \<not> is_gradeable_assignment master_col then st
      else
        let grade = row_get master_row master_col in
          if pd_isna grade \<or> grade = CStr [] then st
          else
            let abbreviated_col = translate_assignment_name master_col in
              case find_matching_column abbreviated_col (columns (m_lecture_df st)) of
                Some lecture_col \<Rightarrow>
                  st\<lparr>m_lecture_df := table_set_at (m_lecture_df st) lecture_row_idx lecture_col grade,
                      m_grades_updated := m_grades_updated st + 1\<rparr>
              | None \<Rightarrow>
                  st\<lparr>m_lecture_df := table_set_at (add_column abbreviated_col (m_lecture_df st))
                                        lecture_row_idx abbreviated_col grade,
                      m_columns_added := m_columns_added st + 1,
                      m_new_columns := (if abbreviated_col \<in> set (m_new_columns st)
                                        then m_new_columns st
                                        else m_new_columns st @ [abbreviated_col]),
                      m_grades_updated := m_grades_updated st + 1\<rparr>)"

definition master_ids ::
  "(string \<Rightarrow> int option) \<Rightarrow> string option \<Rightarrow> string option \<Rightarrow> row
    \<Rightarrow> string option \<times> cell option \<times> string option" where
  \<comment> \<open>\<open>(master_student_id, master_email, master_username)\<close> of a row of the master gradebook\<close>
  "master_ids to_whole master_id_col master_email_col master_row =
     (if truthy master_id_col
      then normalize_student_id to_whole (row_get master_row (the master_id_col)) else None,
      column_cell master_email_col master_row,
      if truthy master_email_col
      then Some (extract_username_from_email (row_get master_row (the master_email_col)))
      else None)"

definition identifier_of :: "string option \<Rightarrow> string option \<Rightarrow> string" where
  \<comment> \<open>\<open>master_student_id or master_username or "unknown"\<close>\<close>
  "identifier_of master_student_id master_username =
     (if truthy master_student_id then the master_student_id
      else if truthy master_username then the master_username
      else ''unknown'')"

definition master_identifier ::
  "(string \<Rightarrow> int option) \<Rightarrow> string option \<Rightarrow> string option \<Rightarrow> row \<Rightarrow> string" where
  "master_identifier to_whole master_id_col master_email_col master_row =
     (case master_ids to_whole master_id_col master_email_col master_row of
        (master_student_id, master_email, master_username) \<Rightarrow>
          identifier_of master_student_id master_username)"

definition name_cell :: "row \<Rightarrow> string \<Rightarrow> string" where
  \<comment> \<open>\<open>master_row[col] if pd.notna(master_row[col]) else ""\<close>, as the f-string prints it\<close>
  "name_cell r col = (if pd_isna (row_get r col) then [] else py_str (row_get r col))"

definition name_fields :: "string list \<Rightarrow> row \<Rightarrow> string \<times> string" where
  \<comment> \<open>\<open>(last_name, first_name)\<close> after the loop over \<open>master_df.columns\<close>\<close>
  "name_fields cols r =
     fold (\<lambda>col (last_name, first_name).
             (if str_contains ''last'' (str_lower col) \<and> str_contains ''name'' (str_lower col)
              then name_cell r col else last_name,
              if str_contains ''first'' (str_lower col) \<and> str_contains ''name'' (str_lower col)
              then name_cell r col else first_name))
       cols ([], [])"

definition strip_chars :: "string \<Rightarrow> string \<Rightarrow> string" where
  \<comment> \<open>\<open>s.strip(chars)\<close>\<close>
  "strip_chars chars s =
     rev (dropWhile (\<lambda>c. c \<in> set chars) (rev (dropWhile (\<lambda>c. c \<in> set chars) s)))"

definition opt_cell :: "string option \<Rightarrow> cell" where
  \<comment> \<open>a text or \<open>None\<close> as a cell of a report\<close>
  "opt_cell v = (case v of Some s \<Rightarrow> CStr s | None \<Rightarrow> CNull)"

definition matched_lecture_id ::
  "(string \<Rightarrow> int option) \<Rightarrow> string option \<Rightarrow> table \<Rightarrow> nat \<Rightarrow> string option" where
  \<comment> \<open>the id of the matched lecture row, normalised, or \<open>"N/A"\<close>\<close>
  "matched_lecture_id to_whole lecture_id_col df lecture_row_idx =
     (if truthy lecture_id_col \<and> py_truthy (table_at df lecture_row_idx (the lecture_id_col))
      then normalize_student_id to_whole (table_at df lecture_row_idx (the lecture_id_col))
      else Some ''N/A'')"

definition id_mismatch_details ::
  "(string \<Rightarrow> int option) \<Rightarrow> string list \<Rightarrow> string option \<Rightarrow> table \<Rightarrow> nat \<Rightarrow> row
    \<Rightarrow> string option \<Rightarrow> cell option \<Rightarrow> row" where
  \<comment> \<open>the dictionary stored in \<open>failed_id_match_details[master_idx]\<close>\<close>
  "id_mismatch_details to_whole master_cols lecture_id_col df lecture_row_idx master_row
       master_student_id master_email =
     (case name_fields master_cols master_row of (last_name, first_name) \<Rightarrow>
        [(''Student Name'', CStr (strip_chars '', '' (last_name @ '', '' @ first_name))),
         (''Email'', (case master_email of Some c \<Rightarrow> c | None \<Rightarrow> CNull)),
         (''Apparent ID (Master)'', opt_cell master_student_id),
         (''Matched ID (Lecture)'',
            opt_cell (matched_lecture_id to_whole lecture_id_col df lecture_row_idx))])"

definition merge_master_row ::
  "(string \<Rightarrow> int option) \<Rightarrow> string list \<Rightarrow> string option \<Rightarrow> string option \<Rightarrow> string option
    \<Rightarrow> (string \<rightharpoonup> nat) \<times> (string \<rightharpoonup> nat) \<Rightarrow> nat \<times> row \<Rightarrow> master_state \<Rightarrow> master_state" where
  \<comment> \<open>one round of \<open>for master_idx, master_row in master_df.iterrows()\<close>\<close>
  "merge_master_row to_whole master_cols master_id_col master_email_col lecture_id_col maps ir st =
     (case ir of (master_idx, master_row) \<Rightarrow>
      case master_ids to_whole master_id_col master_email_col master_row of
        (master_student_id, master_email, master_username) \<Rightarrow>
        let identifier = identifier_of master_student_id master_username;
            st1 = st\<lparr>all_master_students := insert identifier (all_master_students st)\<rparr>
        in
          case find_lecture_row (fst maps) (snd maps) master_student_id master_username of
            None \<Rightarrow> st1
          | Some (lecture_row_idx, match_method) \<Rightarrow>
              let st2 = (case match_method of
                           ById \<Rightarrow> st1\<lparr>m_matched_by_id := m_matched_by_id st1 + 1\<rparr>
                         | ByEmail \<Rightarrow>
                             st1\<lparr>m_matched_by_email := m_matched_by_email st1 + 1,
                                 failed_id_match_details :=
                                   (if truthy master_student_id
                                    then AList.update master_idx
                                           (id_mismatch_details to_whole master_cols lecture_id_col
                                              (m_lecture_df st1) lecture_row_idx master_row
                                              master_student_id master_email)
                                           (failed_id_match_details st1)
                                    else failed_id_match_details st1)\<rparr>);
                  st3 = st2\<lparr>matched_master_indices := insert master_idx (matched_master_indices st2),
                             m_matched_students := insert identifier (m_matched_students st2)\<rparr>;
                  st4 = (case match_method of
                           ById \<Rightarrow> st3\<lparr>m_by_id := m_by_id st3 + 1\<rparr>
                         | ByEmail \<Rightarrow> st3\<lparr>m_by_email := m_by_email st3 + 1\<rparr>)
              in fold (transfer_col master_id_col master_email_col master_row lecture_row_idx)
                   master_cols st4)"

definition usable_master_lecture :: "table \<Rightarrow> bool" where
  \<comment> \<open>the lecture section is not skipped: an id or a user name column is found\<close>
  "usable_master_lecture df =
     (truthy (find_student_id_column (columns df)) \<or> truthy (find_username_column (columns df)))"

definition merge_master_lecture ::
  "(string \<Rightarrow> int option) \<Rightarrow> table \<Rightarrow> string \<times> table \<Rightarrow> master_state \<Rightarrow> master_state" where
  \<comment> \<open>one round of \<open>for lecture_name, lecture_df in lecture_data.items()\<close>\<close>
  "merge_master_lecture to_whole master_df lec st =
     (case lec of (lecture_name, df) \<Rightarrow>
        if \<not> usable_master_lecture df then st
        else
          let st0 = st\<lparr>m_lecture_df := df, m_grades_updated := 0, m_columns_added := 0,
                       m_matched_by_id := 0, m_matched_by_email := 0\<rparr>;
              st1 = fold (merge_master_row to_whole (columns master_df)
                            (find_student_id_column (columns master_df))
                            (find_email_column (columns master_df))
                            (find_student_id_column (columns df))
                            (master_lecture_maps to_whole df))
                      (zip [0..<length (rows master_df)] (rows master_df)) st0
          in st1\<lparr>m_updated_dataframes :=
                    AList.update lecture_name (sorted_table (m_lecture_df st1)) (m_updated_dataframes st1),
                  m_stats :=
                    AList.update lecture_name
                      \<lparr>st_grades_updated = m_grades_updated st1,
                       st_matched_by_id = m_matched_by_id st1,
                       st_matched_by_email = m_matched_by_email st1,
                       st_columns_added = m_columns_added st1\<rparr>
                      (m_stats st1)\<rparr>)"

definition initial_master_state :: master_state where
  "initial_master_state =
     \<lparr>m_updated_dataframes = [], m_stats = [], m_students_not_found = [], m_orphaned_rows = [],
      m_failed_id_match_rows = [], m_new_columns = [], m_matched_students = {}, m_by_id = 0,
      m_by_email = 0, all_master_students = {}, matched_master_indices = {},
      failed_id_match_details = [], m_lecture_df = empty_table, m_grades_updated = 0,
      m_columns_added = 0, m_matched_by_id = 0, m_matched_by_email = 0\<rparr>"

definition finish_master :: "table \<Rightarrow> master_state \<Rightarrow> master_state" where
  \<comment> \<open>the reports made after the loop over the lecture sections\<close>
  "finish_master master_df st =
     st\<lparr>m_students_not_found :=
          sorted_list_of_set (all_master_students st - m_matched_students st),
        m_orphaned_rows :=
          map snd (filter (\<lambda>(master_idx, master_row). master_idx \<notin> matched_master_indices st)
                     (zip [0..<length (rows master_df)] (rows master_df))),
        m_failed_id_match_rows := map snd (failed_id_match_details st)\<rparr>"

definition master_run ::
  "(string \<Rightarrow> int option) \<Rightarrow> (string \<times> table) list \<Rightarrow> table \<Rightarrow> master_state" where
  \<comment> \<open>the run once the master gradebook has an id or an email column\<close>
  "master_run to_whole lecture_files master_df =
     finish_master master_df
       (fold (merge_master_lecture to_whole master_df) (lecture_data lecture_files)
          initial_master_state)"

definition merge_grades_from_master ::
  "(string \<Rightarrow> int option) \<Rightarrow> (string \<times> table) list \<Rightarrow> table \<Rightarrow> py_error + master_state" where
  \<comment> \<open>the results are the first nine fields of the state\<close>
  "merge_grades_from_master to_whole lecture_files master_df =
     (if \<not> truthy (find_student_id_column (columns master_df))
         \<and> \<not> truthy (find_email_column (columns master_df))
      then Inl (ValueError ''Could not find Student ID or Email column in master gradebook'')
      else Inr (master_run to_whole lecture_files master_df))"

text \<open>
  The lookup of a row of the master gradebook in a lecture table, as
  \<open>merge_master_row\<close> does it, and the key under which the row is kept.
\<close>

definition master_lookup ::
  "(string \<Rightarrow> int option) \<Rightarrow> table \<Rightarrow> table \<Rightarrow> row \<Rightarrow> (nat \<times> match_kind) option" where
  "master_lookup to_whole master_df df master_row =
     (case master_ids to_whole (find_student_id_column (columns master_df))
             (find_email_column (columns master_df)) master_row of
        (master_student_id, master_email, master_username) \<Rightarrow>
          find_lecture_row (fst (master_lecture_maps to_whole df))
            (snd (master_lecture_maps to_whole df)) master_student_id master_username)"

definition master_key :: "(string \<Rightarrow> int option) \<Rightarrow> table \<Rightarrow> row \<Rightarrow> string" where
  "master_key to_whole master_df master_row =
     master_identifier to_whole (find_student_id_column (columns master_df))
       (find_email_column (columns master_df)) master_row"


section \<open>Tables of the examples\<close>

text \<open>
  A lecture section with row A (id 111, user name alice) and row B (id 222, user name
  alice2), and a lecture section without any identity column.
\<close>

definition lecture_ab :: table where
  "lecture_ab =
     \<lparr>columns = [''Student ID'', ''Username''],
      rows = [[(''Student ID'', CStr ''111''), (''Username'', CStr ''alice'')],
              [(''Student ID'', CStr ''222''), (''Username'', CStr ''alice2'')]]\<rparr>"

definition lecture_no_identity :: table where
  "lecture_no_identity = \<lparr>columns = [''Name''], rows = [[(''Name'', CStr ''Alice'')]]\<rparr>"

text \<open>
  Assignment files: a row with the id of A and the email of B; a row with an id no row of
  the lecture section has and the email of A; and a file with a row found by id and a row
  found by nothing.
\<close>

definition row_id_wins :: row where
  "row_id_wins = [(''Student ID'', CStr ''111''), (''School email'', CStr ''alice2@x.edu''),
                  (''Percent score'', CInt 95)]"

definition row_stale_id :: row where
  "row_stale_id = [(''Student ID'', CStr ''999''), (''School email'', CStr ''alice@x.edu''),
                   (''Percent score'', CInt 95)]"

definition row_stranger :: row where
  "row_stranger = [(''Student ID'', CStr ''333''), (''School email'', CStr ''bo@x.edu''),
                   (''Percent score'', CInt 70)]"

definition assignment_cols :: "string list" where
  "assignment_cols = [''Student ID'', ''School email'', ''Percent score'']"

definition assignment_id_wins :: table where
  "assignment_id_wins = \<lparr>columns = assignment_cols, rows = [row_id_wins]\<rparr>"

definition assignment_stale_id :: table where
  "assignment_stale_id = \<lparr>columns = assignment_cols, rows = [row_stale_id]\<rparr>"

definition assignment_two :: table where
  "assignment_two = \<lparr>columns = assignment_cols, rows = [row_id_wins, row_stranger]\<rparr>"

text \<open>Master gradebooks with the same students and one assignment column.\<close>

definition master_cols :: "string list" where
  "master_cols = [''Last name'', ''First name'', ''Student ID'', ''School email'',
                  ''Week 1 Participation Activities (10)'']"

definition master_row_id_wins :: row where
  "master_row_id_wins =
     [(''Last name'', CStr ''Doe''), (''First name'', CStr ''Al''), (''Student ID'', CStr ''111''),
      (''School email'', CStr ''alice2@x.edu''), (''Week 1 Participation Activities (10)'', CInt 9)]"

definition master_row_stale_id :: row where
  "master_row_stale_id =
     [(''Last name'', CStr ''Doe''), (''First name'', CStr ''Al''), (''Student ID'', CStr ''999''),
      (''School email'', CStr ''alice@x.edu''), (''Week 1 Participation Activities (10)'', CInt 9)]"

definition master_row_stranger :: row where
  "master_row_stranger =
     [(''Last name'', CStr ''Roe''), (''First name'', CStr ''Bo''), (''Student ID'', CStr ''333''),
      (''School email'', CStr ''bo@x.edu''), (''Week 1 Participation Activities (10)'', CInt 7)]"

definition master_id_wins :: table where
  "master_id_wins = \<lparr>columns = master_cols, rows = [master_row_id_wins]\<rparr>"

definition master_stale_id :: table where
  "master_stale_id = \<lparr>columns = master_cols, rows = [master_row_stale_id]\<rparr>"

definition master_two :: table where
  "master_two = \<lparr>columns = master_cols, rows = [master_row_id_wins, master_row_stranger]\<rparr>"

section \<open>Properties of the text operations\<close>

lemmas strip_defs = str_strip_def str_lstrip_def str_rstrip_def is_space_def

lemmas lower_defs = str_lower_def lower_char_def upper_letters_def lower_letters_def

lemmas number_defs = str_int_def str_nat.simps digit_chars_def

lemma str_contains_sublist: "str_contains n h \<longleftrightarrow> sublist n h"
  by (induction h) (auto simp: sublist_Cons_right)

lemma rstrip_prefix: "\<exists>w. t = str_rstrip t @ w"
proof -
  have "rev (rev (dropWhile is_space (rev t)) @ rev (takeWhile is_space (rev t))) = rev t"
    by (simp flip: rev_append)
  then show ?thesis unfolding str_rstrip_def by (metis rev_is_rev_conv rev_rev_ident)
qed

lemma str_strip_idem: "str_strip (str_strip s) = str_strip s"
proof -
  define t where "t = dropWhile is_space s"
  define u where "u = str_rstrip t"
  have r: "str_rstrip u = u"
    by (simp add: u_def str_rstrip_def)
  have l: "dropWhile is_space u = u"
  proof (cases u)
    case Nil
    then show ?thesis by simp
  next
    case (Cons a us)
    obtain w where w: "t = u @ w" using rstrip_prefix[of t] by (auto simp: u_def)
    with Cons have "t \<noteq> []" and "hd t = a" by auto
    then have "\<not> is_space a" using hd_dropWhile[of is_space s] by (simp add: t_def)
    with Cons show ?thesis by simp
  qed
  show ?thesis
    using r l by (simp add: str_strip_def str_lstrip_def t_def u_def)
qed

lemma str_strip_no_space:
  assumes "list_all (\<lambda>c. \<not> is_space c) s"
  shows "str_strip s = s"
proof -
  have 1: "dropWhile is_space s = s" using assms by (cases s) auto
  have "list_all (\<lambda>c. \<not> is_space c) (rev s)" using assms by (simp add: list_all_iff)
  then have 2: "dropWhile is_space (rev s) = rev s" by (cases "rev s") auto
  show ?thesis by (simp add: str_strip_def str_lstrip_def str_rstrip_def 1 2)
qed

lemma digit_nth: "m < 10 \<Longrightarrow> digit_chars ! m \<in> set digit_chars"
  using nth_mem[of m digit_chars] by (simp add: digit_chars_def del: set_simps)

lemma str_nat_digits: "set (str_nat n) \<subseteq> set digit_chars"
proof (induction n rule: str_nat.induct)
  case (1 n)
  show ?case
  proof (cases "n < 10")
    case True
    have "str_nat n = [digit_chars ! n]" using True by (subst str_nat.simps) simp
    then show ?thesis using digit_nth[OF True] by simp
  next
    case False
    have e: "str_nat n = str_nat (n div 10) @ [digit_chars ! (n mod 10)]"
      using False by (subst str_nat.simps) simp
    have "n mod 10 < 10" by simp
    from digit_nth[OF this] 1[OF False] show ?thesis unfolding e by simp
  qed
qed

lemma str_int_chars: "set (str_int i) \<subseteq> set (CHR ''-'' # digit_chars)"
  using str_nat_digits by (auto simp: str_int_def)

lemma str_int_no_dot: "CHR ''.'' \<notin> set (str_int i)"
  using str_int_chars[of i] by (auto simp: digit_chars_def)

lemma str_int_strip: "str_strip (str_int i) = str_int i"
proof (rule str_strip_no_space)
  have "\<not> is_space c" if "c \<in> set (CHR ''-'' # digit_chars)" for c
    using that by (auto simp: digit_chars_def is_space_def)
  then show "list_all (\<lambda>c. \<not> is_space c) (str_int i)"
    using str_int_chars[of i] by (auto simp: list_all_iff)
qed

section \<open>Properties of the identity resolver\<close>

lemma email_clean_patterns:
  "map email_clean email_patterns = [''schoolemail'', ''schoolemail'', ''schoolemail'']"
  by (simp add: email_patterns_def email_clean_def remove_char_def)

lemma find_email_column_find:
  "find_email_column cols = List.find (\<lambda>c. email_clean (str_lower c) = ''schoolemail'') cols"
  by (induction cols)
     (simp_all add: email_patterns_def
        email_clean_patterns[unfolded email_patterns_def, simplified] eq_commute)

text \<open>
  Claim C7. \<open>find_email_column\<close> returns a header only if the header, in lower case and
  with spaces, underscores and hyphens removed, is equal to an alias of the school email
  (each of the three aliases folds to \<open>schoolemail\<close>); it returns \<open>None\<close> exactly when no
  header folds to it. A table whose email-like headers are \<open>Email\<close> and \<open>Primary email\<close>
  has no email column.
\<close>

theorem find_email_column_school_only:
  "(find_email_column cols = Some c \<longrightarrow>
      c \<in> set cols \<and> email_clean (str_lower c) \<in> set (map email_clean email_patterns)
      \<and> email_clean (str_lower c) = ''schoolemail'')
   \<and> (find_email_column cols = None \<longleftrightarrow>
        (\<forall>c. c \<in> set cols \<longrightarrow> email_clean (str_lower c) \<noteq> ''schoolemail''))
   \<and> find_email_column [''Email'', ''Primary email''] = None"
proof (intro conjI impI)
  show "find_email_column cols = None \<longleftrightarrow>
        (\<forall>c. c \<in> set cols \<longrightarrow> email_clean (str_lower c) \<noteq> ''schoolemail'')"
    by (simp add: find_email_column_find find_None_iff)
  show "find_email_column [''Email'', ''Primary email''] = None"
    by code_simp
  assume a: "find_email_column cols = Some c"
  then show "c \<in> set cols"
    by (auto simp: find_email_column_find find_Some_iff)
  from a show e: "email_clean (str_lower c) = ''schoolemail''"
    by (auto simp: find_email_column_find find_Some_iff)
  show "email_clean (str_lower c) \<in> set (map email_clean email_patterns)"
    by (simp add: e email_clean_patterns)
qed

theorem find_email_column_school_only_witness:
  "find_email_column [''Name'', ''Email'', ''School-Email''] = Some ''School-Email''
   \<and> ''School-Email'' \<in> set [''Name'', ''Email'', ''School-Email'']
   \<and> email_clean (str_lower ''School-Email'') = ''schoolemail''"
proof -
  have h: "find_email_column [''Name'', ''Email'', ''School-Email''] = Some ''School-Email''"
    by code_simp
  show ?thesis
    using h find_email_column_school_only
      [of "[''Name'', ''Email'', ''School-Email'']" "''School-Email''"]
    by simp
qed

lemma find_student_id_column_find: "find_student_id_column cols = List.find id_header cols"
  by (induction cols) (simp_all add: id_header_def Let_def)

lemma id_header_sublist:
  "id_header c \<longleftrightarrow>
     (\<exists>p \<in> set id_patterns.
        sublist (id_clean p) (id_clean (str_lower c)) \<or> sublist (id_clean (str_lower c)) (id_clean p))"
  by (simp add: id_header_def list_ex_iff str_contains_sublist)

text \<open>
  Claim C10. The student id detector returns the first header, in header order, that one
  of its patterns accepts, and a pattern accepts a header when either of the two folded
  texts is a substring of the other. So a header whose folded text contains \<open>id\<close>
  (\<open>Paid\<close>, \<open>Section ID\<close>) or is a substring of \<open>studentid\<close> (\<open>S\<close>) is accepted, and
  \<open>Paid\<close> standing before \<open>Student ID\<close> wins. The email detector accepts none of these: it
  compares for equality.
\<close>

theorem find_student_id_column_substring:
  "find_student_id_column cols = List.find id_header cols
   \<and> (id_header c \<longleftrightarrow>
        (\<exists>p \<in> set id_patterns.
           sublist (id_clean p) (id_clean (str_lower c))
           \<or> sublist (id_clean (str_lower c)) (id_clean p)))
   \<and> (sublist ''id'' (id_clean (str_lower c)) \<longrightarrow> id_header c)
   \<and> (sublist (id_clean (str_lower c)) ''studentid'' \<longrightarrow> id_header c)
   \<and> find_student_id_column [''Name'', ''Paid'', ''Student ID''] = Some ''Paid''
   \<and> find_student_id_column [''Name'', ''Section ID''] = Some ''Section ID''
   \<and> find_student_id_column [''S''] = Some ''S''
   \<and> find_email_column [''Paid'', ''Section ID'', ''S'', ''School email address''] = None"
proof (intro conjI impI)
  show "find_student_id_column cols = List.find id_header cols"
    by (rule find_student_id_column_find)
  show "id_header c \<longleftrightarrow>
        (\<exists>p \<in> set id_patterns.
           sublist (id_clean p) (id_clean (str_lower c))
           \<or> sublist (id_clean (str_lower c)) (id_clean p))"
    by (rule id_header_sublist)
  have id: "''id'' \<in> set id_patterns" "id_clean ''id'' = ''id''"
    by (simp_all add: id_patterns_def id_clean_def remove_char_def)
  have sid: "''student id'' \<in> set id_patterns" "id_clean ''student id'' = ''studentid''"
    by (simp_all add: id_patterns_def id_clean_def remove_char_def)
  show "id_header c" if "sublist ''id'' (id_clean (str_lower c))"
    unfolding id_header_sublist using that id by metis
  show "id_header c" if "sublist (id_clean (str_lower c)) ''studentid''"
    unfolding id_header_sublist using that sid by metis
  show "find_student_id_column [''Name'', ''Paid'', ''Student ID''] = Some ''Paid''"
    by code_simp
  show "find_student_id_column [''Name'', ''Section ID''] = Some ''Section ID''"
    by code_simp
  show "find_student_id_column [''S''] = Some ''S''"
    by code_simp
  show "find_email_column [''Paid'', ''Section ID'', ''S'', ''School email address''] = None"
    by code_simp
qed

theorem find_student_id_column_substring_witness:
  "sublist ''id'' (id_clean (str_lower ''Paid'')) \<and> id_header ''Paid''
   \<and> sublist (id_clean (str_lower ''S'')) ''studentid'' \<and> id_header ''S''
   \<and> find_student_id_column [''Name'', ''Paid'', ''Student ID''] = Some ''Paid''"
proof -
  have 1: "sublist ''id'' (id_clean (str_lower ''Paid''))"
    unfolding str_contains_sublist[symmetric] by code_simp
  have 2: "sublist (id_clean (str_lower ''S'')) ''studentid''"
    unfolding str_contains_sublist[symmetric] by code_simp
  from 1 find_student_id_column_substring [of "[''Name'', ''Paid'', ''Student ID'']" "''Paid''"]
  have a: "id_header ''Paid''"
    and c: "find_student_id_column [''Name'', ''Paid'', ''Student ID''] = Some ''Paid''"
    by blast+
  from 2 find_student_id_column_substring [of "[]" "''S''"]
  have b: "id_header ''S''"
    by blast
  from 1 2 a b c show ?thesis
    by blast
qed

lemma normalize_student_id_again:
  "normalize_student_id to_whole (opt_cell (normalize_student_id to_whole x))
     = normalize_student_id to_whole x"
proof (cases "pd_isna x")
  case True
  then show ?thesis by (simp add: normalize_student_id_def opt_cell_def)
next
  case False
  define s where "s = str_strip (py_str x)"
  have ss: "str_strip s = s" by (simp add: s_def str_strip_idem)
  show ?thesis
  proof (cases "CHR ''.'' \<in> set s")
    case dot: True
    show ?thesis
    proof (cases "to_whole s")
      case None
      with False dot ss show ?thesis
        by (simp add: normalize_student_id_def opt_cell_def s_def[symmetric])
    next
      case (Some i)
      with False dot show ?thesis
        by (simp add: normalize_student_id_def opt_cell_def s_def[symmetric]
              str_int_strip str_int_no_dot)
    qed
  next
    case nodot: False
    with False ss show ?thesis
      by (simp add: normalize_student_id_def opt_cell_def s_def[symmetric])
  qed
qed

lemma decimal_whole_example: "decimal_whole ''14788528.0'' = Some 14788528"
  by (simp add: decimal_whole_def underscores_ok_def strip_defs is_digit_def digit_chars_def
        remove_char_def split_sign_def parse_exponent_def nat_of_digits_def digit_val_def Let_def)

text \<open>
  Claim C6. \<open>normalize_student_id\<close> is idempotent: normalising its own result (a text, or
  \<open>None\<close>, which is a missing value) gives the result again, for every cell and every
  behaviour of the float conversion. The text \<open>14788528.0\<close>, the text \<open>14788528\<close>, the
  integer \<open>14788528\<close> and the float \<open>14788528.0\<close> all normalise to \<open>14788528\<close>, and a
  missing value normalises to \<open>None\<close>.
\<close>

theorem normalize_student_id_idempotent:
  "normalize_student_id to_whole (opt_cell (normalize_student_id to_whole x))
     = normalize_student_id to_whole x
   \<and> normalize_student_id decimal_whole (CStr ''14788528.0'') = Some ''14788528''
   \<and> normalize_student_id to_whole (CStr ''14788528'') = Some ''14788528''
   \<and> normalize_student_id to_whole (CInt 14788528) = Some ''14788528''
   \<and> normalize_student_id decimal_whole (CFloat ''14788528.0'') = Some ''14788528''
   \<and> normalize_student_id to_whole CNull = None"
proof (intro conjI)
  show "normalize_student_id to_whole (opt_cell (normalize_student_id to_whole x))
          = normalize_student_id to_whole x"
    by (rule normalize_student_id_again)
  have s: "str_strip ''14788528.0'' = ''14788528.0''" "str_strip ''14788528'' = ''14788528''"
    by (simp_all add: strip_defs)
  show "normalize_student_id decimal_whole (CStr ''14788528.0'') = Some ''14788528''"
    by (simp add: normalize_student_id_def s decimal_whole_example number_defs)
  show "normalize_student_id to_whole (CStr ''14788528'') = Some ''14788528''"
    by (simp add: normalize_student_id_def s)
  show "normalize_student_id to_whole (CInt 14788528) = Some ''14788528''"
    by (simp add: normalize_student_id_def s number_defs)
  show "normalize_student_id decimal_whole (CFloat ''14788528.0'') = Some ''14788528''"
    by (simp add: normalize_student_id_def s decimal_whole_example number_defs)
  show "normalize_student_id to_whole CNull = None"
    by (simp add: normalize_student_id_def)
qed

section \<open>Properties of the column ordering\<close>

lemma classify_col_step:
  "classify_col c (a, n) =
     (if is_assignment_col c then (a @ [(c, order_key c)], n) else (a, n @ [c]))"
  by (auto simp: classify_col_def is_assignment_col_def order_key_def split: option.splits)

lemma fold_classify_col:
  "fold classify_col cols (a, n) =
     (a @ map (\<lambda>c. (c, order_key c)) (filter is_assignment_col cols),
      n @ filter (\<lambda>c. \<not> is_assignment_col c) cols)"
  by (induction cols arbitrary: a n) (simp_all add: classify_col_step)

lemma sort_key_map_pair:
  "map fst (sort_key (\<lambda>x. g (snd x)) (map (\<lambda>c. (c, k c)) xs)) = sort_key (\<lambda>c. g (k c)) xs"
proof (induction xs)
  case Nil
  then show ?case by simp
next
  case (Cons x xs)
  have ins: "map fst (insort_key (\<lambda>x. g (snd x)) (x, k x) ys)
               = insort_key (\<lambda>c. g (k c)) x (map fst ys)"
    if "\<forall>y \<in> set ys. snd y = k (fst y)" for ys
    using that by (induction ys) auto
  have inv: "\<forall>y \<in> set (sort_key (\<lambda>x. g (snd x)) (map (\<lambda>c. (c, k c)) xs)). snd y = k (fst y)"
    by auto
  show ?case using ins[OF inv] Cons by simp
qed

lemma sort_assignment_columns_eq:
  "sort_assignment_columns cols =
     filter (\<lambda>c. \<not> is_assignment_col c) cols @ sort_key order_key (filter is_assignment_col cols)"
proof -
  have "(\<lambda>x::string \<times> nat \<times> nat. (fst (snd x), snd (snd x))) = (\<lambda>x. id (snd x))"
    by (simp add: fun_eq_iff)
  then show ?thesis
    using sort_key_map_pair[of id order_key "filter is_assignment_col cols"]
    by (simp add: sort_assignment_columns_def fold_classify_col)
qed

lemma type_order_eq:
  "type_order t = (if t = ''PA'' then 0 else if t = ''CA'' then 1 else if t = ''IL'' then 2
                   else if t = ''OL'' then 3 else 99)"
  by (simp add: type_order_def assignment_type_order_def)

lemma sort_assignment_columns_again:
  "sort_assignment_columns (sort_assignment_columns cols) = sort_assignment_columns cols"
proof -
  define N where "N = filter (\<lambda>c. \<not> is_assignment_col c) cols"
  define A where "A = sort_key order_key (filter is_assignment_col cols)"
  have fa: "filter is_assignment_col A = A" "filter (\<lambda>c. \<not> is_assignment_col c) A = []"
    by (auto simp: A_def filter_empty_conv)
  have fn: "filter is_assignment_col N = []" "filter (\<lambda>c. \<not> is_assignment_col c) N = N"
    by (auto simp: N_def filter_empty_conv)
  have "sorted (map order_key A)" by (simp add: A_def)
  then have sa: "sort_key order_key A = A" by (rule sort_key_id_if_sorted)
  show ?thesis
    by (simp add: sort_assignment_columns_eq N_def[symmetric] A_def[symmetric] fa fn sa)
qed

lemmas match_defs = match_assignment_col_def strip_defs is_digit_def digit_chars_def lower_char_def
  upper_letters_def lower_letters_def str_upper_def upper_char_def type_names_def nat_of_digits_def
  digit_val_def

lemma match_examples:
  "match_assignment_col ''W2 PA'' = Some (2, ''PA'')"
  "match_assignment_col ''Name'' = None"
  "match_assignment_col ''w1 il'' = Some (1, ''il'')"
  "match_assignment_col ''W1 CA'' = Some (1, ''CA'')"
  "match_assignment_col ''W1 XX'' = None"
  "match_assignment_col ''W10 OL'' = Some (10, ''OL'')"
  by (simp_all add: match_defs)

lemma key_examples:
  "order_key ''W2 PA'' = (2, 0)" "order_key ''w1 il'' = (1, 2)" "order_key ''W1 CA'' = (1, 1)"
  "order_key ''W10 OL'' = (10, 3)"
  "is_assignment_col ''W2 PA''" "\<not> is_assignment_col ''Name''" "is_assignment_col ''w1 il''"
  "is_assignment_col ''W1 CA''" "\<not> is_assignment_col ''W1 XX''" "is_assignment_col ''W10 OL''"
  by (simp_all add: is_assignment_col_def order_key_def match_examples type_order_eq str_upper_def
        upper_char_def upper_letters_def lower_letters_def)

lemma sort_example:
  "sort_assignment_columns [''W2 PA'', ''Name'', ''w1 il'', ''W1 CA'', ''W1 XX'', ''W10 OL'']
     = [''Name'', ''W1 XX'', ''W1 CA'', ''w1 il'', ''W2 PA'', ''W10 OL'']"
  by (simp add: sort_assignment_columns_eq key_examples)

lemma matched_type_known:
  "match_assignment_col c = Some (w, t) \<Longrightarrow> str_upper t \<in> set type_names"
  by (auto simp: match_assignment_col_def Let_def split: list.splits if_splits)

lemma type_order_known: "u \<in> set type_names \<Longrightarrow> type_order u < 4"
  by (auto simp: type_names_def type_order_eq)

lemma order_key_rank: "is_assignment_col c \<Longrightarrow> snd (order_key c) < 4"
proof -
  assume "is_assignment_col c"
  then obtain w t where m: "match_assignment_col c = Some (w, t)"
    by (auto simp: is_assignment_col_def)
  from matched_type_known[OF m] have "type_order (str_upper t) < 4"
    by (rule type_order_known)
  then show ?thesis
    by (simp add: order_key_def m)
qed

text \<open>
  Claim C5, as the code has it. The new column order is the headers the pattern does not
  match, in their original order, followed by the headers it matches, sorted by
  \<open>(week, type rank)\<close> in the lexicographic order: the sorted part is a permutation of the
  matched headers, its keys ascend, and headers with equal keys keep their original order.
  The lookup of the type rank answers 0, 1, 2, 3 for PA, CA, IL, OL and 99 for any other
  text, but the pattern matches the four types only: the rank of a matched header is below
  4, so 99 is never given, and a header with another type, such as \<open>W1 XX\<close>, is one of the
  unmatched headers and stays among them.
\<close>

theorem sort_assignment_columns_order:
  "sort_assignment_columns cols
     = filter (\<lambda>c. \<not> is_assignment_col c) cols @ sort_key order_key (filter is_assignment_col cols)
   \<and> mset (sort_key order_key (filter is_assignment_col cols)) = mset (filter is_assignment_col cols)
   \<and> sorted (map order_key (sort_key order_key (filter is_assignment_col cols)))
   \<and> filter (\<lambda>c. order_key c = k) (sort_key order_key (filter is_assignment_col cols))
       = filter (\<lambda>c. order_key c = k) (filter is_assignment_col cols)
   \<and> type_order t = (if t = ''PA'' then 0 else if t = ''CA'' then 1 else if t = ''IL'' then 2
                      else if t = ''OL'' then 3 else 99)
   \<and> (match_assignment_col c = Some (w, ty) \<longrightarrow> str_upper ty \<in> set type_names)
   \<and> (is_assignment_col c \<longrightarrow> snd (order_key c) < 4)
   \<and> sort_assignment_columns [''W2 PA'', ''Name'', ''w1 il'', ''W1 CA'', ''W1 XX'', ''W10 OL'']
       = [''Name'', ''W1 XX'', ''W1 CA'', ''w1 il'', ''W2 PA'', ''W10 OL'']"
proof (intro conjI impI)
  show "sort_assignment_columns cols
     = filter (\<lambda>c. \<not> is_assignment_col c) cols @ sort_key order_key (filter is_assignment_col cols)"
    by (rule sort_assignment_columns_eq)
  show "mset (sort_key order_key (filter is_assignment_col cols)) = mset (filter is_assignment_col cols)"
    by simp
  show "sorted (map order_key (sort_key order_key (filter is_assignment_col cols)))"
    by simp
  show "filter (\<lambda>c. order_key c = k) (sort_key order_key (filter is_assignment_col cols))
       = filter (\<lambda>c. order_key c = k) (filter is_assignment_col cols)"
    by (rule sort_key_stable)
  show "type_order t = (if t = ''PA'' then 0 else if t = ''CA'' then 1 else if t = ''IL'' then 2
                      else if t = ''OL'' then 3 else 99)"
    by (rule type_order_eq)
  show "str_upper ty \<in> set type_names" if "match_assignment_col c = Some (w, ty)"
    using that by (rule matched_type_known)
  show "snd (order_key c) < 4" if "is_assignment_col c"
    using that by (rule order_key_rank)
  show "sort_assignment_columns [''W2 PA'', ''Name'', ''w1 il'', ''W1 CA'', ''W1 XX'', ''W10 OL'']
       = [''Name'', ''W1 XX'', ''W1 CA'', ''w1 il'', ''W2 PA'', ''W10 OL'']"
    by (rule sort_example)
qed

text \<open>
  The theorem at the header \<open>w1 il\<close>: the pattern matches it with the type \<open>il\<close>, which is
  one of the four in upper case, and its rank is 2.
\<close>

theorem sort_assignment_columns_order_witness:
  "match_assignment_col ''w1 il'' = Some (1, ''il'')
   \<and> str_upper ''il'' \<in> set type_names
   \<and> is_assignment_col ''w1 il''
   \<and> snd (order_key ''w1 il'') < 4
   \<and> order_key ''w1 il'' = (1, 2)"
proof -
  note t = sort_assignment_columns_order[where cols = "[''W2 PA'', ''Name'']" and k = "(2, 0)"
      and t = "''PA''" and c = "''w1 il''" and w = 1 and ty = "''il''"]
  have m: "match_assignment_col ''w1 il'' = Some (1, ''il'')"
    by (rule match_examples)
  have a: "is_assignment_col ''w1 il''"
    by (rule key_examples)
  have k: "order_key ''w1 il'' = (1, 2)"
    by (rule key_examples)
  from t m have u: "str_upper ''il'' \<in> set type_names" by blast
  from t a have r: "snd (order_key ''w1 il'') < 4" by blast
  from m u a r k show ?thesis by blast
qed

text \<open>
  Claim C5 as stated fails for a header with an unknown type. \<open>W1 XX\<close> has the shape of an
  assignment header, and the pattern does not match it: it is not ranked 99 and put last,
  it is kept with the unmatched headers, ahead of \<open>W1 PA\<close>.
\<close>

theorem unknown_type_is_not_ranked_last:
  "match_assignment_col ''W1 XX'' = None
   \<and> \<not> is_assignment_col ''W1 XX''
   \<and> is_assignment_col ''W1 PA''
   \<and> sort_assignment_columns [''W1 PA'', ''W1 XX''] = [''W1 XX'', ''W1 PA'']"
proof -
  have 1: "match_assignment_col ''W1 XX'' = None"
    by (rule match_examples)
  have 2: "\<not> is_assignment_col ''W1 XX''"
    by (rule key_examples)
  have m: "match_assignment_col ''W1 PA'' = Some (1, ''PA'')"
    by (simp add: match_defs)
  then have 3: "is_assignment_col ''W1 PA''"
    by (simp add: is_assignment_col_def)
  have 4: "sort_assignment_columns [''W1 PA'', ''W1 XX''] = [''W1 XX'', ''W1 PA'']"
    by (simp add: sort_assignment_columns_eq 2 3)
  from 1 2 3 4 show ?thesis by blast
qed

text \<open>
  Claim C9. Column ordering is idempotent: ordering an ordered header list changes
  nothing, and so the columns of a table ordered twice are the columns of the table ordered
  once.
\<close>

theorem sort_assignment_columns_idempotent:
  "sort_assignment_columns (sort_assignment_columns cols) = sort_assignment_columns cols
   \<and> columns (sorted_table (sorted_table df)) = columns (sorted_table df)"
  by (simp add: sort_assignment_columns_again sorted_table_def select_columns_def)

section \<open>Properties of the late-penalty evaluator\<close>

lemma late_score_loop_Cons:
  "late_score_loop wk assn student_name sc dl (adj # adjustments) =
     (case week adj of
        None \<Rightarrow> Inl (KeyError ''week'')
      | Some n \<Rightarrow>
          if wk \<noteq> CHR ''W'' # str_int n then late_score_loop wk assn student_name sc dl adjustments
          else if student adj = None \<and> assignment adj = None then
            (if not_penalty (penalty adj) then
               Inr (sc, waived [Txt wk, Txt '' all students, all assignments''])
             else late_score_loop wk assn student_name sc dl adjustments)
          else if (student adj = None \<or> student adj = Some student_name)
                  \<and> (assignment adj = None \<or> assignment adj = Some assn) then
            (case apply_penalty
                    (if student adj = None then [Txt wk, Txt '' all students, '', Txt assn]
                     else if assignment adj = None
                     then [Txt wk, Txt '' '', Txt student_name, Txt '', all assignments'']
                     else [Txt wk, Txt '' '', Txt student_name, Txt '', '', Txt assn])
                    sc dl (penalty adj) of
               Some res \<Rightarrow> res
             | None \<Rightarrow> late_score_loop wk assn student_name sc dl adjustments)
          else late_score_loop wk assn student_name sc dl adjustments)"
  by (cases "week adj"; cases "student adj"; cases "assignment adj")
     (simp_all add: late_score_loop.simps Let_def)

text \<open>
  What holds of a rule that applies to the record. A rule without a penalty waives it,
  whatever its shape, and no later rule is read.
\<close>

lemma late_score_loop_waived:
  assumes "applies_to adj wk name assn" "not_penalty (penalty adj)"
  shows "\<exists>who. late_score_loop wk assn name sc dl (adj # rest) = Inr (sc, waived who)"
  using assms
  by (auto simp: late_score_loop_Cons applies_to_def apply_penalty_def split: option.splits)

text \<open>
  A rule with a penalty list that names a student or an assignment has its list scanned;
  when no entry of the list is reached, the later rules are read.
\<close>

lemma late_score_loop_scanned:
  assumes "applies_to adj wk name assn" "penalty adj = Some ps" "ps \<noteq> []"
    "student adj \<noteq> None \<or> assignment adj \<noteq> None"
  shows "\<exists>who. late_score_loop wk assn name sc dl (adj # rest) =
           (case scan_penalty who sc dl ps of Some r \<Rightarrow> r
            | None \<Rightarrow> late_score_loop wk assn name sc dl rest)"
proof -
  from assms(1) obtain n where n: "week adj = Some n" "wk = CHR ''W'' # str_int n"
    by (auto simp: applies_to_def split: option.splits)
  have np: "\<not> not_penalty (Some ps)"
    using assms(3) by (simp add: not_penalty_def)
  from assms(1,4) consider
      (a) "student adj = None" "assignment adj = Some assn"
    | (b) "student adj = Some name" "assignment adj = None"
    | (c) "student adj = Some name" "assignment adj = Some assn"
    by (auto simp: applies_to_def)
  then show ?thesis
  proof cases
    case a
    show ?thesis
      unfolding n(2)
      by (rule exI[of _ "[Txt (CHR ''W'' # str_int n), Txt '' all students, '', Txt assn]"])
         (simp add: late_score_loop_Cons n(1) a np apply_penalty_def assms(2))
  next
    case b
    show ?thesis
      unfolding n(2)
      by (rule exI[of _ "[Txt (CHR ''W'' # str_int n), Txt '' '', Txt name, Txt '', all assignments'']"])
         (simp add: late_score_loop_Cons n(1) b np apply_penalty_def assms(2))
  next
    case c
    show ?thesis
      unfolding n(2)
      by (rule exI[of _ "[Txt (CHR ''W'' # str_int n), Txt '' '', Txt name, Txt '', '', Txt assn]"])
         (simp add: late_score_loop_Cons n(1) c np apply_penalty_def assms(2))
  qed
qed

text \<open>
  The scan returns at the first entry that has a \<open>days-late\<close> key with
  \<open>days_late <= p['days-late']\<close>.
\<close>

lemma scan_penalty_first:
  assumes "days_late p = Some d" "dl \<le> d" "frac_deduction p = Some f"
    "list_all (\<lambda>q. case days_late q of None \<Rightarrow> True | Some d' \<Rightarrow> \<not> dl \<le> d') pre"
  shows "\<exists>info. scan_penalty who sc dl (pre @ p # post) = Some (Inr ((1 - f) * sc, info))
           \<and> matched info \<and> info_frac_deduction info = f"
  using assms by (induction pre) (auto split: option.splits)

text \<open>
  A rule with a penalty list and neither a student nor an assignment is passed over: the
  branch for this shape has no \<open>else\<close>.
\<close>

lemma late_score_loop_week_rule_passed_over:
  assumes "week adj = Some n" "student adj = None" "assignment adj = None"
    "\<not> not_penalty (penalty adj)"
  shows "late_score_loop wk assn name sc dl (adj # rest) = late_score_loop wk assn name sc dl rest"
  using assms by (simp add: late_score_loop_Cons)

lemmas late_score_eval = late_score_def str_split_def is_space_def number_defs late_score_loop_Cons
  late_score_loop.simps(1) apply_penalty_def not_penalty_def no_adj_def

text \<open>
  Claim C8. Under the single rule \<open>{week: 1, assignment: PA, penalty: [{days-late: 2,
  frac-deduction: 0.1}]}\<close>, a record of \<open>W1 PA\<close> with score 80 that is 1.5 days late gets
  \<open>80 * 0.9 = 72\<close> with the rule matched, and the same record 5 days late keeps 80 with
  no rule matched. The student's names are arbitrary.
\<close>

theorem late_score_single_rule:
  "late_score
     \<lparr>Assignment = ''W1 PA'', First_Name = fnm, Last_Name = lnm, After_Score = 80, Days_Late = 3 / 2\<rparr>
     [\<lparr>week = Some 1, student = None, assignment = Some ''PA'',
       penalty = Some [\<lparr>days_late = Some 2, frac_deduction = Some (1 / 10)\<rparr>]\<rparr>]
     = Inr (72, \<lparr>matched = True,
                 rule = Some [Txt ''W1'', Txt '' all students, '', Txt ''PA'', Txt '': '',
                              Num (1 / 10), Txt '' deduction (days late <= '', Num 2, Txt '')''],
                 info_frac_deduction = 1 / 10\<rparr>)
   \<and> late_score
     \<lparr>Assignment = ''W1 PA'', First_Name = fnm, Last_Name = lnm, After_Score = 80, Days_Late = 5\<rparr>
     [\<lparr>week = Some 1, student = None, assignment = Some ''PA'',
       penalty = Some [\<lparr>days_late = Some 2, frac_deduction = Some (1 / 10)\<rparr>]\<rparr>]
     = Inr (80, \<lparr>matched = False, rule = None, info_frac_deduction = 0\<rparr>)"
  by (simp add: late_score_eval)

text \<open>
  Claim C2, at the input where the code departs from it. The only rule is for week 1, has
  neither a student nor an assignment, and carries the penalty list \<open>[{days-late: 2,
  frac-deduction: 0.1}]\<close>. The record is one day late, so the first entry of the list
  covers it, yet the score stays 80 and no rule is reported as matched. The same list on a
  rule that names the assignment gives 72.
\<close>

theorem late_score_week_rule_penalty_not_applied:
  "late_score
     \<lparr>Assignment = ''W1 PA'', First_Name = fnm, Last_Name = lnm, After_Score = 80, Days_Late = 1\<rparr>
     [\<lparr>week = Some 1, student = None, assignment = None,
       penalty = Some [\<lparr>days_late = Some 2, frac_deduction = Some (1 / 10)\<rparr>]\<rparr>]
     = Inr (80, \<lparr>matched = False, rule = None, info_frac_deduction = 0\<rparr>)
   \<and> late_score
     \<lparr>Assignment = ''W1 PA'', First_Name = fnm, Last_Name = lnm, After_Score = 80, Days_Late = 1\<rparr>
     [\<lparr>week = Some 1, student = None, assignment = Some ''PA'',
       penalty = Some [\<lparr>days_late = Some 2, frac_deduction = Some (1 / 10)\<rparr>]\<rparr>]
     = Inr (72, \<lparr>matched = True,
                 rule = Some [Txt ''W1'', Txt '' all students, '', Txt ''PA'', Txt '': '',
                              Num (1 / 10), Txt '' deduction (days late <= '', Num 2, Txt '')''],
                 info_frac_deduction = 1 / 10\<rparr>)"
  by (simp add: late_score_eval)

section \<open>Properties of the merge engine\<close>

subsection \<open>The lookup and one source row\<close>

lemma find_lecture_row_ById:
  "truthy sid \<Longrightarrow> student_map (the sid) = Some i
     \<Longrightarrow> find_lecture_row student_map username_map sid uname = Some (i, ById)"
  by (simp add: find_lecture_row_def)

lemma find_lecture_row_ByEmail_iff:
  "find_lecture_row student_map username_map sid uname = Some (j, ByEmail) \<longleftrightarrow>
     \<not> (truthy sid \<and> student_map (the sid) \<noteq> None) \<and> truthy uname \<and> username_map (the uname) = Some j"
  by (auto simp: find_lecture_row_def)

lemma find_lecture_row_ById_iff:
  "find_lecture_row student_map username_map sid uname = Some (i, ById) \<longleftrightarrow>
     truthy sid \<and> student_map (the sid) = Some i"
  by (auto simp: find_lecture_row_def)

lemma find_lecture_row_None_iff:
  "find_lecture_row student_map username_map sid uname = None \<longleftrightarrow>
     \<not> (truthy sid \<and> student_map (the sid) \<noteq> None) \<and> \<not> (truthy uname \<and> username_map (the uname) \<noteq> None)"
  by (auto simp: find_lecture_row_def)

lemma merge_assign_row_None:
  assumes "assign_ids to_whole assign_id_col assign_email_col assign_row = (sid, un)"
    "find_lecture_row (fst maps) (snd maps) sid un = None"
  shows "merge_assign_row to_whole abbrev_name assign_id_col assign_email_col grade_col lec_id_col maps
           assign_row st
         = (if truthy (py_or sid un)
            then st\<lparr>all_assignment_students := insert (py_or sid un) (all_assignment_students st)\<rparr>
            else st)"
  using assms by (simp add: merge_assign_row_def Let_def)

lemma merge_assign_row_ById:
  assumes "assign_ids to_whole assign_id_col assign_email_col assign_row = (sid, un)"
    "find_lecture_row (fst maps) (snd maps) sid un = Some (i, ById)"
  shows "merge_assign_row to_whole abbrev_name assign_id_col assign_email_col grade_col lec_id_col maps
           assign_row st
         = (let g = row_get assign_row grade_col; w = (\<not> pd_isna g \<and> g \<noteq> CStr []) in
            st\<lparr>all_assignment_students := insert sid (all_assignment_students st),
               students_matched_this_assignment := insert sid (students_matched_this_assignment st),
               matched_students := insert sid (matched_students st),
               matched_by_id := matched_by_id st + 1,
               by_id := by_id st + 1,
               lecture_df := (if w then table_set_at (lecture_df st) i abbrev_name g else lecture_df st),
               grades_updated := (if w then grades_updated st + 1 else grades_updated st)\<rparr>)"
proof -
  from assms(2) have t: "truthy sid" by (simp add: find_lecture_row_ById_iff)
  show ?thesis
    using assms t by (simp add: merge_assign_row_def Let_def py_or_def)
qed

lemma merge_assign_row_ByEmail:
  assumes "assign_ids to_whole assign_id_col assign_email_col assign_row = (sid, un)"
    "find_lecture_row (fst maps) (snd maps) sid un = Some (j, ByEmail)"
  shows "merge_assign_row to_whole abbrev_name assign_id_col assign_email_col grade_col lec_id_col maps
           assign_row st
         = (let key = py_or sid un;
                g = row_get assign_row grade_col; w = (\<not> pd_isna g \<and> g \<noteq> CStr []);
                lec_student_id = normalize_student_id to_whole (table_at (lecture_df st) j (the lec_id_col));
                mismatch = (truthy sid \<and> truthy lec_id_col \<and> truthy lec_student_id \<and> sid \<noteq> lec_student_id) in
            st\<lparr>all_assignment_students := insert key (all_assignment_students st),
               students_matched_this_assignment := insert key (students_matched_this_assignment st),
               matched_students := insert key (matched_students st),
               matched_by_email := matched_by_email st + 1,
               by_email := by_email st + 1,
               failed_id_matches := (if mismatch then failed_id_matches st @ [assign_row] else failed_id_matches st),
               lecture_df := (if w then table_set_at (lecture_df st) j abbrev_name g else lecture_df st),
               grades_updated := (if w then grades_updated st + 1 else grades_updated st)\<rparr>)"
proof -
  from assms(2) have t: "truthy un" by (simp add: find_lecture_row_ByEmail_iff)
  then have k: "truthy (py_or sid un)" by (simp add: py_or_def)
  show ?thesis
    using assms k by (simp add: merge_assign_row_def Let_def note_id_mismatch_def)
qed

subsection \<open>Bookkeeping of the master merge\<close>

lemma transfer_col_keeps:
  "all_master_students (transfer_col ic ec r i c st) = all_master_students st
   \<and> m_matched_students (transfer_col ic ec r i c st) = m_matched_students st
   \<and> matched_master_indices (transfer_col ic ec r i c st) = matched_master_indices st
   \<and> failed_id_match_details (transfer_col ic ec r i c st) = failed_id_match_details st
   \<and> m_by_id (transfer_col ic ec r i c st) = m_by_id st
   \<and> m_by_email (transfer_col ic ec r i c st) = m_by_email st
   \<and> m_matched_by_id (transfer_col ic ec r i c st) = m_matched_by_id st
   \<and> m_matched_by_email (transfer_col ic ec r i c st) = m_matched_by_email st"
  by (simp add: transfer_col_def Let_def split: option.splits)

lemma fold_transfer_col_keeps:
  "all_master_students (fold (transfer_col ic ec r i) cols st) = all_master_students st
   \<and> m_matched_students (fold (transfer_col ic ec r i) cols st) = m_matched_students st
   \<and> matched_master_indices (fold (transfer_col ic ec r i) cols st) = matched_master_indices st
   \<and> failed_id_match_details (fold (transfer_col ic ec r i) cols st) = failed_id_match_details st
   \<and> m_by_id (fold (transfer_col ic ec r i) cols st) = m_by_id st
   \<and> m_by_email (fold (transfer_col ic ec r i) cols st) = m_by_email st
   \<and> m_matched_by_id (fold (transfer_col ic ec r i) cols st) = m_matched_by_id st
   \<and> m_matched_by_email (fold (transfer_col ic ec r i) cols st) = m_matched_by_email st"
proof (induction cols arbitrary: st)
  case Nil
  then show ?case by simp
next
  case (Cons c cols)
  show ?case using Cons[of "transfer_col ic ec r i c st"] transfer_col_keeps[of ic ec r i c st]
    by simp
qed

lemma merge_master_row_sets:
  assumes "master_ids to_whole ic ec r = (sid, email, un)"
  shows "all_master_students (merge_master_row to_whole cols ic ec lic maps (idx, r) st)
           = insert (identifier_of sid un) (all_master_students st)"
    and "m_matched_students (merge_master_row to_whole cols ic ec lic maps (idx, r) st)
           = (if find_lecture_row (fst maps) (snd maps) sid un = None then m_matched_students st
              else insert (identifier_of sid un) (m_matched_students st))"
    and "matched_master_indices (merge_master_row to_whole cols ic ec lic maps (idx, r) st)
           = (if find_lecture_row (fst maps) (snd maps) sid un = None then matched_master_indices st
              else insert idx (matched_master_indices st))"
  using assms
  by (auto simp: merge_master_row_def Let_def fold_transfer_col_keeps split: option.splits match_kind.splits)


lemma fold_merge_master_row_sets:
  fixes master_df df :: table and to_whole :: "string \<Rightarrow> int option"
  defines "ic \<equiv> find_student_id_column (columns master_df)"
    and "ec \<equiv> find_email_column (columns master_df)"
  defines "step \<equiv> merge_master_row to_whole (columns master_df) ic ec
                    (find_student_id_column (columns df)) (master_lecture_maps to_whole df)"
  shows "all_master_students (fold step irs st)
           = all_master_students st \<union> master_key to_whole master_df ` snd ` set irs"
    and "m_matched_students (fold step irs st)
           = m_matched_students st
             \<union> master_key to_whole master_df `
                 {r \<in> snd ` set irs. master_lookup to_whole master_df df r \<noteq> None}"
proof (induction irs arbitrary: st)
  case Nil
  { case 1 show ?case by simp }
  { case 2 show ?case by simp }
next
  case (Cons ir irs)
  obtain idx r where ir: "ir = (idx, r)" by (cases ir)
  obtain sid email un where ids: "master_ids to_whole ic ec r = (sid, email, un)"
    by (cases "master_ids to_whole ic ec r")
  have key: "master_key to_whole master_df r = identifier_of sid un"
    using ids by (simp add: master_key_def master_identifier_def ic_def ec_def)
  have look: "master_lookup to_whole master_df df r
                = find_lecture_row (fst (master_lecture_maps to_whole df))
                    (snd (master_lecture_maps to_whole df)) sid un"
    using ids by (simp add: master_lookup_def ic_def ec_def)
  note sets = merge_master_row_sets[OF ids, of "columns master_df" "find_student_id_column (columns df)"
      "master_lecture_maps to_whole df" idx]
  { case 1
    show ?case
      by (simp add: ir Cons.IH(1) key) (simp add: step_def sets(1)) }
  have split: "{x \<in> snd ` set ((idx, r) # irs). P x}
                 = (if P r then {r} else {}) \<union> {x \<in> snd ` set irs. P x}" for P
    by auto
  { case 2
    show ?case
      unfolding ir split
      by (simp add: Cons.IH(2) image_Un) (auto simp: step_def sets(2) key look) }
qed


lemma snd_zip_upt: "snd ` set (zip [0..<length xs] xs) = set xs"
  by (metis length_upt map_snd_zip minus_nat.diff_0 set_map)

lemma merge_master_lecture_sets:
  "all_master_students (merge_master_lecture to_whole master_df (n, df) st)
     = (if usable_master_lecture df
        then all_master_students st \<union> master_key to_whole master_df ` set (rows master_df)
        else all_master_students st)"
  "m_matched_students (merge_master_lecture to_whole master_df (n, df) st)
     = (if usable_master_lecture df
        then m_matched_students st
             \<union> master_key to_whole master_df `
                 {r \<in> set (rows master_df). master_lookup to_whole master_df df r \<noteq> None}
        else m_matched_students st)"
  by (simp_all add: merge_master_lecture_def Let_def fold_merge_master_row_sets snd_zip_upt)

lemma fold_merge_master_lecture_sets:
  "all_master_students (fold (merge_master_lecture to_whole master_df) lects st)
     = all_master_students st
       \<union> (if list_ex (\<lambda>(n, df). usable_master_lecture df) lects
          then master_key to_whole master_df ` set (rows master_df) else {})"
  "m_matched_students (fold (merge_master_lecture to_whole master_df) lects st)
     = m_matched_students st
       \<union> master_key to_whole master_df `
           {r \<in> set (rows master_df).
              list_ex (\<lambda>(n, df). usable_master_lecture df
                                 \<and> master_lookup to_whole master_df df r \<noteq> None) lects}"
proof (induction lects arbitrary: st)
  case Nil
  { case 1 show ?case by simp }
  { case 2 show ?case by simp }
next
  case (Cons l lects)
  obtain n df where l: "l = (n, df)" by (cases l)
  { case 1
    show ?case
      by (auto simp: l Cons.IH(1) merge_master_lecture_sets(1)) }
  { case 2
    show ?case
      by (auto simp: l Cons.IH(2) merge_master_lecture_sets(2)) }
qed


lemma master_run_sets:
  "m_matched_students (master_run to_whole lecture_files master_df)
     = master_key to_whole master_df `
         {r \<in> set (rows master_df).
            list_ex (\<lambda>(n, df). usable_master_lecture df
                               \<and> master_lookup to_whole master_df df r \<noteq> None)
              (lecture_data lecture_files)}"
  "set (m_students_not_found (master_run to_whole lecture_files master_df))
     = (if list_ex (\<lambda>(n, df). usable_master_lecture df) (lecture_data lecture_files)
        then master_key to_whole master_df ` set (rows master_df) else {})
       - m_matched_students (master_run to_whole lecture_files master_df)"
proof -
  define st where "st = fold (merge_master_lecture to_whole master_df) (lecture_data lecture_files)
                          initial_master_state"
  have res: "master_run to_whole lecture_files master_df = finish_master master_df st"
    by (simp add: master_run_def st_def)
  have a: "all_master_students st
             = (if list_ex (\<lambda>(n, df). usable_master_lecture df) (lecture_data lecture_files)
                then master_key to_whole master_df ` set (rows master_df) else {})"
    by (simp add: st_def fold_merge_master_lecture_sets(1) initial_master_state_def)
  have m: "m_matched_students st
             = master_key to_whole master_df `
               {r \<in> set (rows master_df).
                  list_ex (\<lambda>(n, df). usable_master_lecture df
                                     \<and> master_lookup to_whole master_df df r \<noteq> None)
                    (lecture_data lecture_files)}"
    by (simp add: st_def fold_merge_master_lecture_sets(2) initial_master_state_def)
  have fin: "finite (all_master_students st)"
    by (simp add: a)
  show "m_matched_students (master_run to_whole lecture_files master_df)
     = master_key to_whole master_df `
         {r \<in> set (rows master_df).
            list_ex (\<lambda>(n, df). usable_master_lecture df
                               \<and> master_lookup to_whole master_df df r \<noteq> None)
              (lecture_data lecture_files)}"
    by (simp add: res finish_master_def m)
  show "set (m_students_not_found (master_run to_whole lecture_files master_df))
     = (if list_ex (\<lambda>(n, df). usable_master_lecture df) (lecture_data lecture_files)
        then master_key to_whole master_df ` set (rows master_df) else {})
       - m_matched_students (master_run to_whole lecture_files master_df)"
    using fin by (simp add: res finish_master_def a)
qed

subsection \<open>Bookkeeping of the assignment merge\<close>

lemma find_lecture_row_truthy:
  "find_lecture_row sm um sid un \<noteq> None \<Longrightarrow> truthy (py_or sid un)"
  by (auto simp: find_lecture_row_def py_or_def split: if_splits)

lemma merge_assign_row_sets:
  assumes "assign_ids to_whole ic ec r = (sid, un)"
  shows "all_assignment_students (merge_assign_row to_whole ab ic ec gc lic maps r st)
           = (if truthy (py_or sid un) then insert (py_or sid un) (all_assignment_students st)
              else all_assignment_students st)"
    and "students_matched_this_assignment (merge_assign_row to_whole ab ic ec gc lic maps r st)
           = (if find_lecture_row (fst maps) (snd maps) sid un = None
              then students_matched_this_assignment st
              else insert (py_or sid un) (students_matched_this_assignment st))"
    and "matched_students (merge_assign_row to_whole ab ic ec gc lic maps r st)
           = (if find_lecture_row (fst maps) (snd maps) sid un = None
              then matched_students st
              else insert (py_or sid un) (matched_students st))"
    and "lecture_dfs (merge_assign_row to_whole ab ic ec gc lic maps r st) = lecture_dfs st"
    and "orphaned_rows (merge_assign_row to_whole ab ic ec gc lic maps r st) = orphaned_rows st"
  using assms
  by (auto simp: merge_assign_row_def Let_def note_id_mismatch_def
      split: option.splits match_kind.splits)


lemma fold_merge_assign_row_sets:
  fixes assignment_df df :: table and to_whole :: "string \<Rightarrow> int option" and ab gc :: string
  defines "step \<equiv> merge_assign_row to_whole ab (the (find_student_id_column (columns assignment_df)))
                    (find_email_column (columns assignment_df)) gc
                    (find_student_id_column (columns df)) (lecture_maps to_whole df)"
  shows "all_assignment_students (fold step rs st)
           = all_assignment_students st
             \<union> {k \<in> assign_key to_whole assignment_df ` set rs. truthy k}"
    and "students_matched_this_assignment (fold step rs st)
           = students_matched_this_assignment st
             \<union> assign_key to_whole assignment_df `
                 {r \<in> set rs. assign_lookup to_whole assignment_df df r \<noteq> None}"
    and "lecture_dfs (fold step rs st) = lecture_dfs st"
    and "orphaned_rows (fold step rs st) = orphaned_rows st"
proof (induction rs arbitrary: st)
  case Nil
  { case 1 show ?case by simp }
  { case 2 show ?case by simp }
  { case 3 show ?case by simp }
  { case 4 show ?case by simp }
next
  case (Cons r rs)
  obtain sid un where ids:
    "assign_ids to_whole (the (find_student_id_column (columns assignment_df)))
       (find_email_column (columns assignment_df)) r = (sid, un)"
    by (cases "assign_ids to_whole (the (find_student_id_column (columns assignment_df)))
       (find_email_column (columns assignment_df)) r")
  have key: "assign_key to_whole assignment_df r = py_or sid un"
    using ids by (simp add: assign_key_def student_key_of_def)
  have look: "assign_lookup to_whole assignment_df df r
                = find_lecture_row (fst (lecture_maps to_whole df)) (snd (lecture_maps to_whole df)) sid un"
    using ids by (simp add: assign_lookup_def)
  note sets = merge_assign_row_sets[OF ids, of ab gc "find_student_id_column (columns df)"
      "lecture_maps to_whole df"]
  have split: "{x \<in> set (r # rs). P x} = (if P r then {r} else {}) \<union> {x \<in> set rs. P x}" for P
    by auto
  { case 1
    show ?case
      by (simp add: Cons.IH(1)) (auto simp: step_def sets(1) key) }
  { case 2
    show ?case
      unfolding split
      by (simp add: Cons.IH(2) image_Un) (auto simp: step_def sets(2) key look) }
  { case 3
    show ?case
      by (simp add: Cons.IH(3)) (simp add: step_def sets(4)) }
  { case 4
    show ?case
      by (simp add: Cons.IH(4)) (simp add: step_def sets(5)) }
qed

lemma merge_into_lecture_skip:
  assumes "map_of (lecture_dfs st) n = None \<or> (\<exists>df. map_of (lecture_dfs st) n = Some df \<and> \<not> usable_lecture df)"
  shows "merge_into_lecture to_whole ab assignment_df ic ec gc n st = st"
  using assms by (auto simp: merge_into_lecture_def)

lemma merge_into_lecture_sets:
  assumes "map_of (lecture_dfs st) n = Some df" "usable_lecture df"
    "ic = the (find_student_id_column (columns assignment_df))"
    "ec = find_email_column (columns assignment_df)"
  shows "all_assignment_students (merge_into_lecture to_whole ab assignment_df ic ec gc n st)
           = all_assignment_students st \<union> assign_keys to_whole assignment_df"
    and "students_matched_this_assignment (merge_into_lecture to_whole ab assignment_df ic ec gc n st)
           = students_matched_this_assignment st
             \<union> assign_key to_whole assignment_df `
                 {r \<in> set (rows assignment_df). assign_lookup to_whole assignment_df df r \<noteq> None}"
    and "orphaned_rows (merge_into_lecture to_whole ab assignment_df ic ec gc n st) = orphaned_rows st"
    and "map fst (lecture_dfs (merge_into_lecture to_whole ab assignment_df ic ec gc n st))
           = map fst (lecture_dfs st)"
    and "n' \<noteq> n \<Longrightarrow> map_of (lecture_dfs (merge_into_lecture to_whole ab assignment_df ic ec gc n st)) n'
           = map_of (lecture_dfs st) n'"
proof -
  have "n \<in> fst ` set (lecture_dfs st)"
    using assms(1) by (metis map_of_eq_None_iff option.distinct(1))
  then have k: "map fst (AList.update n x (lecture_dfs st)) = map fst (lecture_dfs st)" for x
    by (simp add: update_keys)
  show "all_assignment_students (merge_into_lecture to_whole ab assignment_df ic ec gc n st)
           = all_assignment_students st \<union> assign_keys to_whole assignment_df"
    using assms
    by (simp add: merge_into_lecture_def Let_def fold_merge_assign_row_sets assign_keys_def)
  show "students_matched_this_assignment (merge_into_lecture to_whole ab assignment_df ic ec gc n st)
           = students_matched_this_assignment st
             \<union> assign_key to_whole assignment_df `
                 {r \<in> set (rows assignment_df). assign_lookup to_whole assignment_df df r \<noteq> None}"
    using assms
    by (simp add: merge_into_lecture_def Let_def fold_merge_assign_row_sets)
  show "orphaned_rows (merge_into_lecture to_whole ab assignment_df ic ec gc n st) = orphaned_rows st"
    using assms
    by (simp add: merge_into_lecture_def Let_def fold_merge_assign_row_sets)
  show "map fst (lecture_dfs (merge_into_lecture to_whole ab assignment_df ic ec gc n st))
           = map fst (lecture_dfs st)"
    using assms
    by (simp add: merge_into_lecture_def Let_def fold_merge_assign_row_sets k)
  show "map_of (lecture_dfs (merge_into_lecture to_whole ab assignment_df ic ec gc n st)) n'
           = map_of (lecture_dfs st) n'" if "n' \<noteq> n"
    using assms that
    by (simp add: merge_into_lecture_def Let_def fold_merge_assign_row_sets update_conv')
qed


lemma fold_merge_into_lecture_sets:
  fixes assignment_df :: table and to_whole :: "string \<Rightarrow> int option" and ab gc :: string
  defines "step \<equiv> merge_into_lecture to_whole ab assignment_df
                    (the (find_student_id_column (columns assignment_df)))
                    (find_email_column (columns assignment_df)) gc"
  assumes "distinct ns"
  shows "all_assignment_students (fold step ns st)
           = all_assignment_students st
             \<union> (if \<exists>n \<in> set ns. \<exists>df. usable_at st n df then assign_keys to_whole assignment_df else {})
    \<and> students_matched_this_assignment (fold step ns st)
           = students_matched_this_assignment st
             \<union> assign_key to_whole assignment_df `
                 {r \<in> set (rows assignment_df).
                    \<exists>n \<in> set ns. \<exists>df. usable_at st n df
                        \<and> assign_lookup to_whole assignment_df df r \<noteq> None}
    \<and> orphaned_rows (fold step ns st) = orphaned_rows st"
  using assms(2)
proof (induction ns arbitrary: st)
  case Nil
  show ?case by simp
next
  case (Cons n ns)
  have frame: "usable_at (step n st) n' df = usable_at st n' df" if "n' \<in> set ns" for n' df st
  proof (cases "\<exists>d. usable_at st n d")
    case True
    then obtain d where d: "map_of (lecture_dfs st) n = Some d" "usable_lecture d"
      by (auto simp: usable_at_def)
    have "n' \<noteq> n" using that Cons.prems by auto
    then show ?thesis
      using merge_into_lecture_sets(5)[OF d refl refl, where n' = n' and to_whole = to_whole and ab = ab and gc = gc and assignment_df = assignment_df]
      by (simp add: usable_at_def step_def)
  next
    case False
    then have "step n st = st"
      unfolding step_def
      by (intro merge_into_lecture_skip) (auto simp: usable_at_def)
    then show ?thesis by simp
  qed
  have head: "all_assignment_students (step n st)
                = all_assignment_students st
                  \<union> (if \<exists>df. usable_at st n df then assign_keys to_whole assignment_df else {})"
       "students_matched_this_assignment (step n st)
                = students_matched_this_assignment st
                  \<union> assign_key to_whole assignment_df `
                      {r \<in> set (rows assignment_df).
                         \<exists>df. usable_at st n df \<and> assign_lookup to_whole assignment_df df r \<noteq> None}"
       "orphaned_rows (step n st) = orphaned_rows st" for st
  proof -
    show "all_assignment_students (step n st)
                = all_assignment_students st
                  \<union> (if \<exists>df. usable_at st n df then assign_keys to_whole assignment_df else {})"
    proof (cases "\<exists>d. usable_at st n d")
      case True
      then obtain d where d: "map_of (lecture_dfs st) n = Some d" "usable_lecture d"
        by (auto simp: usable_at_def)
      show ?thesis
        using True merge_into_lecture_sets(1)[OF d refl refl, where to_whole = to_whole and ab = ab and gc = gc and assignment_df = assignment_df]
        by (simp add: step_def)
    next
      case False
      then have "step n st = st"
        unfolding step_def
        by (intro merge_into_lecture_skip) (auto simp: usable_at_def)
      with False show ?thesis by simp
    qed
    show "students_matched_this_assignment (step n st)
                = students_matched_this_assignment st
                  \<union> assign_key to_whole assignment_df `
                      {r \<in> set (rows assignment_df).
                         \<exists>df. usable_at st n df \<and> assign_lookup to_whole assignment_df df r \<noteq> None}"
    proof (cases "\<exists>d. usable_at st n d")
      case True
      then obtain d where d: "map_of (lecture_dfs st) n = Some d" "usable_lecture d"
        by (auto simp: usable_at_def)
      have "(\<exists>df. usable_at st n df \<and> P df) = P d" for P
        using d by (auto simp: usable_at_def)
      then show ?thesis
        using merge_into_lecture_sets(2)[OF d refl refl, where to_whole = to_whole and ab = ab and gc = gc and assignment_df = assignment_df]
        by (simp add: step_def)
    next
      case False
      then have "step n st = st"
        unfolding step_def
        by (intro merge_into_lecture_skip) (auto simp: usable_at_def)
      with False show ?thesis by simp
    qed
    show "orphaned_rows (step n st) = orphaned_rows st"
    proof (cases "\<exists>d. usable_at st n d")
      case True
      then obtain d where d: "map_of (lecture_dfs st) n = Some d" "usable_lecture d"
        by (auto simp: usable_at_def)
      show ?thesis
        using merge_into_lecture_sets(3)[OF d refl refl, where to_whole = to_whole and ab = ab and gc = gc and assignment_df = assignment_df]
        by (simp add: step_def)
    next
      case False
      then have "step n st = st"
        unfolding step_def
        by (intro merge_into_lecture_skip) (auto simp: usable_at_def)
      then show ?thesis by simp
    qed
  qed
  from Cons.prems have dns: "distinct ns" by simp
  note IH = Cons.IH[OF dns, of "step n st"]
  have e: "(\<exists>m \<in> set (n # ns). X m) = (X n \<or> (\<exists>m \<in> set ns. X m))" for X
    by simp
  have d: "f ` {r \<in> R. P r \<or> Q r} = f ` {r \<in> R. P r} \<union> f ` {r \<in> R. Q r}"
    for f :: "row \<Rightarrow> string option" and R P Q
    by blast
  have 1: "all_assignment_students (fold step (n # ns) st)
           = all_assignment_students st
             \<union> (if \<exists>n \<in> set (n # ns). \<exists>df. usable_at st n df
                then assign_keys to_whole assignment_df else {})"
  proof -
    have a: "all_assignment_students (fold step (n # ns) st)
               = all_assignment_students (step n st)
                 \<union> (if \<exists>m \<in> set ns. \<exists>df. usable_at st m df
                    then assign_keys to_whole assignment_df else {})"
      using IH by (simp add: frame)
    show ?thesis
      unfolding a head(1) e by auto
  qed
  have 2: "students_matched_this_assignment (fold step (n # ns) st)
           = students_matched_this_assignment st
             \<union> assign_key to_whole assignment_df `
                 {r \<in> set (rows assignment_df).
                    \<exists>n \<in> set (n # ns). \<exists>df. usable_at st n df
                        \<and> assign_lookup to_whole assignment_df df r \<noteq> None}"
  proof -
    have a: "students_matched_this_assignment (fold step (n # ns) st)
               = students_matched_this_assignment (step n st)
                 \<union> assign_key to_whole assignment_df `
                     {r \<in> set (rows assignment_df).
                        \<exists>m \<in> set ns. \<exists>df. usable_at st m df
                            \<and> assign_lookup to_whole assignment_df df r \<noteq> None}"
      using IH by (simp add: frame)
    show ?thesis
      unfolding a head(2) e d by (simp only: Un_assoc)
  qed
  have 3: "orphaned_rows (fold step (n # ns) st) = orphaned_rows st"
    using IH by (simp add: head(3))
  from 1 2 3 show ?case by blast
qed

lemma fold_grows:
  fixes f :: "'a \<Rightarrow> merge_state \<Rightarrow> merge_state"
  assumes "\<And>x st. \<exists>X. matched_students (f x st) = matched_students st \<union> X
             \<and> students_matched_this_assignment (f x st) = students_matched_this_assignment st \<union> X
             \<and> map fst (lecture_dfs (f x st)) = map fst (lecture_dfs st)"
  shows "\<exists>X. matched_students (fold f xs st) = matched_students st \<union> X
             \<and> students_matched_this_assignment (fold f xs st) = students_matched_this_assignment st \<union> X
             \<and> map fst (lecture_dfs (fold f xs st)) = map fst (lecture_dfs st)"
proof (induction xs arbitrary: st)
  case Nil
  show ?case by auto
next
  case (Cons x xs)
  obtain X where X: "matched_students (f x st) = matched_students st \<union> X"
    "students_matched_this_assignment (f x st) = students_matched_this_assignment st \<union> X"
    "map fst (lecture_dfs (f x st)) = map fst (lecture_dfs st)"
    using assms[of x st] by blast
  obtain Y where Y: "matched_students (fold f xs (f x st)) = matched_students (f x st) \<union> Y"
    "students_matched_this_assignment (fold f xs (f x st)) = students_matched_this_assignment (f x st) \<union> Y"
    "map fst (lecture_dfs (fold f xs (f x st))) = map fst (lecture_dfs (f x st))"
    using Cons.IH[of "f x st"] by blast
  have "matched_students (fold f (x # xs) st) = matched_students st \<union> (X \<union> Y)"
    "students_matched_this_assignment (fold f (x # xs) st) = students_matched_this_assignment st \<union> (X \<union> Y)"
    "map fst (lecture_dfs (fold f (x # xs) st)) = map fst (lecture_dfs st)"
    by (simp_all add: X Y Un_assoc)
  then show ?case by blast
qed

lemma merge_assign_row_grows:
  "\<exists>X. matched_students (merge_assign_row to_whole ab ic ec gc lic maps r st) = matched_students st \<union> X
     \<and> students_matched_this_assignment (merge_assign_row to_whole ab ic ec gc lic maps r st)
         = students_matched_this_assignment st \<union> X
     \<and> lecture_dfs (merge_assign_row to_whole ab ic ec gc lic maps r st) = lecture_dfs st"
proof -
  obtain sid un where ids: "assign_ids to_whole ic ec r = (sid, un)"
    by (cases "assign_ids to_whole ic ec r")
  note s = merge_assign_row_sets[OF ids, of ab gc lic maps st]
  show ?thesis
  proof (cases "find_lecture_row (fst maps) (snd maps) sid un = None")
    case True
    have "matched_students (merge_assign_row to_whole ab ic ec gc lic maps r st) = matched_students st \<union> {}"
      "students_matched_this_assignment (merge_assign_row to_whole ab ic ec gc lic maps r st)
         = students_matched_this_assignment st \<union> {}"
      by (simp_all add: s True)
    then show ?thesis using s(4) by blast
  next
    case False
    have "matched_students (merge_assign_row to_whole ab ic ec gc lic maps r st) = matched_students st \<union> {py_or sid un}"
      "students_matched_this_assignment (merge_assign_row to_whole ab ic ec gc lic maps r st)
         = students_matched_this_assignment st \<union> {py_or sid un}"
      by (simp_all add: s False)
    then show ?thesis using s(4) by blast
  qed
qed

lemma fold_merge_assign_row_grows:
  "\<exists>X. matched_students (fold (merge_assign_row to_whole ab ic ec gc lic maps) rs st) = matched_students st \<union> X
     \<and> students_matched_this_assignment (fold (merge_assign_row to_whole ab ic ec gc lic maps) rs st)
         = students_matched_this_assignment st \<union> X
     \<and> lecture_dfs (fold (merge_assign_row to_whole ab ic ec gc lic maps) rs st) = lecture_dfs st"
proof (induction rs arbitrary: st)
  case Nil
  show ?case by auto
next
  case (Cons r rs)
  let ?f = "merge_assign_row to_whole ab ic ec gc lic maps"
  obtain X where X: "matched_students (?f r st) = matched_students st \<union> X"
    "students_matched_this_assignment (?f r st) = students_matched_this_assignment st \<union> X"
    "lecture_dfs (?f r st) = lecture_dfs st"
    using merge_assign_row_grows[of to_whole ab ic ec gc lic maps r st] by blast
  obtain Y where Y: "matched_students (fold ?f rs (?f r st)) = matched_students (?f r st) \<union> Y"
    "students_matched_this_assignment (fold ?f rs (?f r st)) = students_matched_this_assignment (?f r st) \<union> Y"
    "lecture_dfs (fold ?f rs (?f r st)) = lecture_dfs (?f r st)"
    using Cons.IH[of "?f r st"] by blast
  have "matched_students (fold ?f (r # rs) st) = matched_students st \<union> (X \<union> Y)"
    "students_matched_this_assignment (fold ?f (r # rs) st) = students_matched_this_assignment st \<union> (X \<union> Y)"
    "lecture_dfs (fold ?f (r # rs) st) = lecture_dfs st"
    by (simp_all add: X Y Un_assoc)
  then show ?case by blast
qed

lemma merge_into_lecture_grows:
  "\<exists>X. matched_students (merge_into_lecture to_whole ab assignment_df ic ec gc n st) = matched_students st \<union> X
     \<and> students_matched_this_assignment (merge_into_lecture to_whole ab assignment_df ic ec gc n st)
         = students_matched_this_assignment st \<union> X
     \<and> map fst (lecture_dfs (merge_into_lecture to_whole ab assignment_df ic ec gc n st))
         = map fst (lecture_dfs st)"
proof (cases "\<exists>df. map_of (lecture_dfs st) n = Some df \<and> usable_lecture df")
  case False
  then have "merge_into_lecture to_whole ab assignment_df ic ec gc n st = st"
    by (intro merge_into_lecture_skip) auto
  then show ?thesis by auto
next
  case True
  then obtain df where df: "map_of (lecture_dfs st) n = Some df" "usable_lecture df" by blast
  have "n \<in> fst ` set (lecture_dfs st)"
    using df(1) by (metis map_of_eq_None_iff option.distinct(1))
  then have k: "map fst (AList.update n x (lecture_dfs st)) = map fst (lecture_dfs st)" for x
    by (simp add: update_keys)
  define st0 where "st0 = st\<lparr>lecture_df := (if ab \<notin> set (columns df) then add_column ab df else df),
                         new_columns := (if ab \<notin> set (columns df) \<and> ab \<notin> set (new_columns st)
                                         then new_columns st @ [ab] else new_columns st),
                         grades_updated := 0, matched_by_id := 0, matched_by_email := 0,
                         failed_id_matches := []\<rparr>"
  let ?f = "merge_assign_row to_whole ab ic ec gc (find_student_id_column (columns df)) (lecture_maps to_whole df)"
  obtain X where X: "matched_students (fold ?f (rows assignment_df) st0) = matched_students st0 \<union> X"
    "students_matched_this_assignment (fold ?f (rows assignment_df) st0) = students_matched_this_assignment st0 \<union> X"
    "lecture_dfs (fold ?f (rows assignment_df) st0) = lecture_dfs st0"
    using fold_merge_assign_row_grows[of to_whole ab ic ec gc "find_student_id_column (columns df)"
        "lecture_maps to_whole df" "rows assignment_df" st0] by blast
  have "matched_students (merge_into_lecture to_whole ab assignment_df ic ec gc n st) = matched_students st \<union> X"
    "students_matched_this_assignment (merge_into_lecture to_whole ab assignment_df ic ec gc n st)
         = students_matched_this_assignment st \<union> X"
    "map fst (lecture_dfs (merge_into_lecture to_whole ab assignment_df ic ec gc n st))
         = map fst (lecture_dfs st)"
    using df X by (simp_all add: merge_into_lecture_def Let_def st0_def k)
  then show ?thesis by blast
qed

lemma usable_at_list_ex:
  assumes "distinct (map fst (lecture_dfs st))"
  shows "(\<exists>n \<in> set (map fst (lecture_dfs st)). \<exists>df. usable_at st n df \<and> P df)
           = list_ex (\<lambda>(n, df). usable_lecture df \<and> P df) (lecture_dfs st)"
  using assms by (force simp: usable_at_def list_ex_iff)

lemma merge_assignment_sets:
  assumes "accepted_file (ab, assignment_df)" "distinct (map fst (lecture_dfs st))"
  shows "all_assignment_students (merge_assignment to_whole (ab, assignment_df) st)
           = (if list_ex (\<lambda>(n, df). usable_lecture df) (lecture_dfs st)
              then assign_keys to_whole assignment_df else {})"
    and "students_matched_this_assignment (merge_assignment to_whole (ab, assignment_df) st)
           = assign_key to_whole assignment_df `
               {r \<in> set (rows assignment_df).
                  list_ex (\<lambda>(n, df). usable_lecture df
                                     \<and> assign_lookup to_whole assignment_df df r \<noteq> None)
                    (lecture_dfs st)}"
    and "orphaned_rows (merge_assignment to_whole (ab, assignment_df) st)
           = orphaned_rows st @
             filter (\<lambda>r. truthy (assign_key to_whole assignment_df r)
                          \<and> assign_key to_whole assignment_df r
                              \<in> orphaned_students (merge_assignment to_whole (ab, assignment_df) st))
               (rows assignment_df)"
    and "matched_students (merge_assignment to_whole (ab, assignment_df) st)
           = matched_students st
             \<union> students_matched_this_assignment (merge_assignment to_whole (ab, assignment_df) st)"
    and "map fst (lecture_dfs (merge_assignment to_whole (ab, assignment_df) st))
           = map fst (lecture_dfs st)"
proof -
  define st0 where "st0 = st\<lparr>all_assignment_students := {}, students_matched_this_assignment := {}\<rparr>"
  define step where "step = merge_into_lecture to_whole (the ab) assignment_df
                    (the (find_student_id_column (columns assignment_df)))
                    (find_email_column (columns assignment_df))
                    (the (find_grade_col (columns assignment_df)))"
  define st1 where "st1 = fold step (map fst (lecture_dfs st0)) st0"
  have run: "merge_assignment to_whole (ab, assignment_df) st
               = collect_orphans to_whole (the (find_student_id_column (columns assignment_df)))
                   (find_email_column (columns assignment_df)) assignment_df st1"
    using assms(1) by (simp add: merge_assignment_def accepted_file_def Let_def st0_def st1_def step_def)
  have d0: "distinct (map fst (lecture_dfs st0))" "lecture_dfs st0 = lecture_dfs st"
    using assms(2) by (simp_all add: st0_def)
  have ua: "usable_at st0 = usable_at st"
    by (simp add: usable_at_def st0_def fun_eq_iff)
  note f = fold_merge_into_lecture_sets[OF d0(1), of to_whole "the ab" assignment_df
      "the (find_grade_col (columns assignment_df))" st0, folded step_def st1_def]
  have t: "(\<exists>n \<in> set (map fst (lecture_dfs st)). \<exists>df. usable_at st n df)
           = list_ex (\<lambda>(n, df). usable_lecture df) (lecture_dfs st)"
    using usable_at_list_ex[OF assms(2), of "\<lambda>_. True"] by simp
  have f': "all_assignment_students st1
           = all_assignment_students st0
             \<union> (if \<exists>n \<in> set (map fst (lecture_dfs st)). \<exists>df. usable_at st n df
                then assign_keys to_whole assignment_df else {})"
    "students_matched_this_assignment st1
           = students_matched_this_assignment st0
             \<union> assign_key to_whole assignment_df `
                 {r \<in> set (rows assignment_df).
                    \<exists>n \<in> set (map fst (lecture_dfs st)). \<exists>df. usable_at st n df
                        \<and> assign_lookup to_whole assignment_df df r \<noteq> None}"
    using f unfolding ua d0(2) by blast+
  have e0: "all_assignment_students st0 = {}" "students_matched_this_assignment st0 = {}"
    by (simp_all add: st0_def)
  have a1: "all_assignment_students st1
           = (if list_ex (\<lambda>(n, df). usable_lecture df) (lecture_dfs st)
              then assign_keys to_whole assignment_df else {})"
    unfolding f'(1) t e0 by simp
  have m1: "students_matched_this_assignment st1
           = assign_key to_whole assignment_df `
               {r \<in> set (rows assignment_df).
                  list_ex (\<lambda>(n, df). usable_lecture df
                                     \<and> assign_lookup to_whole assignment_df df r \<noteq> None)
                    (lecture_dfs st)}"
    unfolding f'(2) usable_at_list_ex[OF assms(2)] e0 by simp
  have o1: "orphaned_rows st1 = orphaned_rows st"
    using f by (simp add: st0_def)
  obtain X where X: "matched_students st1 = matched_students st0 \<union> X"
    "students_matched_this_assignment st1 = students_matched_this_assignment st0 \<union> X"
    "map fst (lecture_dfs st1) = map fst (lecture_dfs st0)"
    unfolding st1_def step_def
    using fold_grows[of "merge_into_lecture to_whole (the ab) assignment_df
                    (the (find_student_id_column (columns assignment_df)))
                    (find_email_column (columns assignment_df))
                    (the (find_grade_col (columns assignment_df)))" "map fst (lecture_dfs st0)" st0,
          OF merge_into_lecture_grows] by blast
  show "all_assignment_students (merge_assignment to_whole (ab, assignment_df) st)
           = (if list_ex (\<lambda>(n, df). usable_lecture df) (lecture_dfs st)
              then assign_keys to_whole assignment_df else {})"
    by (simp add: run collect_orphans_def a1)
  show "students_matched_this_assignment (merge_assignment to_whole (ab, assignment_df) st)
           = assign_key to_whole assignment_df `
               {r \<in> set (rows assignment_df).
                  list_ex (\<lambda>(n, df). usable_lecture df
                                     \<and> assign_lookup to_whole assignment_df df r \<noteq> None)
                    (lecture_dfs st)}"
    by (simp add: run collect_orphans_def m1)
  show "orphaned_rows (merge_assignment to_whole (ab, assignment_df) st)
           = orphaned_rows st @
             filter (\<lambda>r. truthy (assign_key to_whole assignment_df r)
                          \<and> assign_key to_whole assignment_df r
                              \<in> orphaned_students (merge_assignment to_whole (ab, assignment_df) st))
               (rows assignment_df)"
    by (simp add: run collect_orphans_def o1 orphaned_students_def assign_key_def Let_def)
  show "matched_students (merge_assignment to_whole (ab, assignment_df) st)
           = matched_students st
             \<union> students_matched_this_assignment (merge_assignment to_whole (ab, assignment_df) st)"
    using X by (simp add: run collect_orphans_def st0_def)
  show "map fst (lecture_dfs (merge_assignment to_whole (ab, assignment_df) st))
           = map fst (lecture_dfs st)"
    using X by (simp add: run collect_orphans_def st0_def)
qed

lemma fold_update_distinct:
  "distinct (map fst acc)
     \<Longrightarrow> distinct (map fst (fold (\<lambda>(n, df). AList.update n df) (lf :: (string \<times> table) list) acc))"
proof (induction lf arbitrary: acc)
  case Nil
  then show ?case by simp
next
  case (Cons x lf)
  obtain n df where x: "x = (n, df)" by (cases x)
  show ?case
    using Cons.IH[of "AList.update n df acc"] Cons.prems
    by (simp add: x distinct_update)
qed

lemma lecture_data_distinct: "distinct (map fst (lecture_data lf))"
  by (simp add: lecture_data_def fold_update_distinct)

lemma merge_assignment_names:
  assumes "distinct (map fst (lecture_dfs st))"
  shows "map fst (lecture_dfs (merge_assignment to_whole af st)) = map fst (lecture_dfs st)"
proof (cases "accepted_file af")
  case True
  obtain ab df where af: "af = (ab, df)" by (cases af)
  show ?thesis
    using merge_assignment_sets(5)[OF True[unfolded af] assms] by (simp add: af)
next
  case False
  then have "merge_assignment to_whole af st = st"
    by (auto simp: merge_assignment_def accepted_file_def Let_def split: prod.splits)
  then show ?thesis by simp
qed

lemma fold_merge_assignment_names:
  "distinct (map fst (lecture_dfs st))
     \<Longrightarrow> map fst (lecture_dfs (fold (merge_assignment to_whole) afs st)) = map fst (lecture_dfs st)"
proof (induction afs arbitrary: st)
  case Nil
  show ?case by simp
next
  case (Cons af afs)
  have n: "map fst (lecture_dfs (merge_assignment to_whole af st)) = map fst (lecture_dfs st)"
    using merge_assignment_names[OF Cons.prems] .
  then have "distinct (map fst (lecture_dfs (merge_assignment to_whole af st)))"
    using Cons.prems by simp
  from Cons.IH[OF this] n show ?case by simp
qed

lemma reachable_distinct:
  "distinct (map fst (lecture_dfs (fold (merge_assignment to_whole) afs (initial_state lf))))"
proof -
  have "distinct (map fst (lecture_dfs (initial_state lf)))"
    by (simp add: initial_state_def lecture_data_distinct)
  from fold_merge_assignment_names[OF this] this show ?thesis by simp
qed

lemma merge_grades_from_assignments_last:
  "all_assignment_students (merge_grades_from_assignments to_whole lf (afs @ [af]))
     = all_assignment_students (merge_assignment to_whole af (fold (merge_assignment to_whole) afs (initial_state lf)))"
  "students_matched_this_assignment (merge_grades_from_assignments to_whole lf (afs @ [af]))
     = students_matched_this_assignment (merge_assignment to_whole af (fold (merge_assignment to_whole) afs (initial_state lf)))"
  "matched_students (merge_grades_from_assignments to_whole lf (afs @ [af]))
     = matched_students (merge_assignment to_whole af (fold (merge_assignment to_whole) afs (initial_state lf)))"
  "orphaned_rows (merge_grades_from_assignments to_whole lf (afs @ [af]))
     = orphaned_rows (merge_assignment to_whole af (fold (merge_assignment to_whole) afs (initial_state lf)))"
  "orphaned_students (merge_grades_from_assignments to_whole lf (afs @ [af]))
     = orphaned_students (merge_assignment to_whole af (fold (merge_assignment to_whole) afs (initial_state lf)))"
  by (simp_all add: merge_grades_from_assignments_def Let_def orphaned_students_def)

lemma image_key: "(f r \<in> f ` {x \<in> S. P x}) = (\<exists>x \<in> S. f x = f r \<and> P x)"
proof
  assume "f r \<in> f ` {x \<in> S. P x}"
  then obtain x where "x \<in> S" "P x" "f r = f x" by blast
  then show "\<exists>x \<in> S. f x = f r \<and> P x" by auto
next
  assume "\<exists>x \<in> S. f x = f r \<and> P x"
  then obtain x where x: "x \<in> S" "f x = f r" "P x" by blast
  then have "x \<in> {x \<in> S. P x}" by simp
  from imageI[OF this, of f] x(2) show "f r \<in> f ` {x \<in> S. P x}" by simp
qed

lemma partition_key:
  assumes "A = K" "M \<subseteq> K" "k \<in> K"
  shows "(k \<in> M) \<noteq> (k \<in> A - M)"
  using assms by blast


subsection \<open>The runs of the examples\<close>

text \<open>
  The state at the end of each run, by evaluation. \<open>decimal_whole\<close> reads the decimal
  texts as Python does.
\<close>

lemma run_assignment_id_wins:
  "merge_grades_from_assignments decimal_whole [(''A.csv'', lecture_ab)]
     [(Some ''W1 PA'', assignment_id_wins)] =
   \<lparr>lecture_dfs =
       [(''A.csv'',
         \<lparr>columns = [''Student ID'', ''Username'', ''W1 PA''],
            rows =
              [[(''Student ID'', CStr ''111''), (''Username'', CStr ''alice''),
                (''W1 PA'', CInt 95)],
               [(''Student ID'', CStr ''222''),
                (''Username'', CStr ''alice2''), (''W1 PA'', CStr [])]]\<rparr>)],
       stats =
         [(''A.csv'',
           \<lparr>st_grades_updated = 1, st_matched_by_id = 1,
              st_matched_by_email = 0, st_columns_added = 0\<rparr>)],
       matched_students = {Some ''111''}, students_not_found = {},
       new_columns = [''W1 PA''], by_id = 1, by_email = 0, orphaned_rows = [],
       failed_id_match_rows = [], all_assignment_students = {Some ''111''},
       students_matched_this_assignment = {Some ''111''},
       lecture_df =
         \<lparr>columns = [''Student ID'', ''Username'', ''W1 PA''],
            rows =
              [[(''Student ID'', CStr ''111''), (''Username'', CStr ''alice''),
                (''W1 PA'', CInt 95)],
               [(''Student ID'', CStr ''222''),
                (''Username'', CStr ''alice2''), (''W1 PA'', CStr [])]]\<rparr>,
       grades_updated = 1, matched_by_id = 1, matched_by_email = 0,
       failed_id_matches = []\<rparr>"
  by code_simp

lemma run_assignment_stale_id:
  "merge_grades_from_assignments decimal_whole [(''A.csv'', lecture_ab)]
     [(Some ''W1 PA'', assignment_stale_id)] =
   \<lparr>lecture_dfs =
       [(''A.csv'',
         \<lparr>columns = [''Student ID'', ''Username'', ''W1 PA''],
            rows =
              [[(''Student ID'', CStr ''111''), (''Username'', CStr ''alice''),
                (''W1 PA'', CInt 95)],
               [(''Student ID'', CStr ''222''),
                (''Username'', CStr ''alice2''), (''W1 PA'', CStr [])]]\<rparr>)],
       stats =
         [(''A.csv'',
           \<lparr>st_grades_updated = 1, st_matched_by_id = 0,
              st_matched_by_email = 1, st_columns_added = 0\<rparr>)],
       matched_students = {Some ''999''}, students_not_found = {},
       new_columns = [''W1 PA''], by_id = 0, by_email = 1, orphaned_rows = [],
       failed_id_match_rows =
         [[(''Student ID'', CStr ''999''),
           (''School email'', CStr ''alice@x.edu''),
           (''Percent score'', CInt 95)]],
       all_assignment_students = {Some ''999''},
       students_matched_this_assignment = {Some ''999''},
       lecture_df =
         \<lparr>columns = [''Student ID'', ''Username'', ''W1 PA''],
            rows =
              [[(''Student ID'', CStr ''111''), (''Username'', CStr ''alice''),
                (''W1 PA'', CInt 95)],
               [(''Student ID'', CStr ''222''),
                (''Username'', CStr ''alice2''), (''W1 PA'', CStr [])]]\<rparr>,
       grades_updated = 1, matched_by_id = 0, matched_by_email = 1,
       failed_id_matches =
         [[(''Student ID'', CStr ''999''),
           (''School email'', CStr ''alice@x.edu''),
           (''Percent score'', CInt 95)]]\<rparr>"
  by code_simp

lemma run_assignment_two:
  "merge_grades_from_assignments decimal_whole [(''A.csv'', lecture_ab)]
     [(Some ''W1 PA'', assignment_two)] =
   \<lparr>lecture_dfs =
       [(''A.csv'',
         \<lparr>columns = [''Student ID'', ''Username'', ''W1 PA''],
            rows =
              [[(''Student ID'', CStr ''111''), (''Username'', CStr ''alice''),
                (''W1 PA'', CInt 95)],
               [(''Student ID'', CStr ''222''),
                (''Username'', CStr ''alice2''), (''W1 PA'', CStr [])]]\<rparr>)],
       stats =
         [(''A.csv'',
           \<lparr>st_grades_updated = 1, st_matched_by_id = 1,
              st_matched_by_email = 0, st_columns_added = 0\<rparr>)],
       matched_students = {Some ''111''}, students_not_found = {},
       new_columns = [''W1 PA''], by_id = 1, by_email = 0,
       orphaned_rows =
         [[(''Student ID'', CStr ''333''),
           (''School email'', CStr ''bo@x.edu''),
           (''Percent score'', CInt 70)]],
       failed_id_match_rows = [],
       all_assignment_students = {Some ''333'', Some ''111''},
       students_matched_this_assignment = {Some ''111''},
       lecture_df =
         \<lparr>columns = [''Student ID'', ''Username'', ''W1 PA''],
            rows =
              [[(''Student ID'', CStr ''111''), (''Username'', CStr ''alice''),
                (''W1 PA'', CInt 95)],
               [(''Student ID'', CStr ''222''),
                (''Username'', CStr ''alice2''), (''W1 PA'', CStr [])]]\<rparr>,
       grades_updated = 1, matched_by_id = 1, matched_by_email = 0,
       failed_id_matches = []\<rparr>"
  by code_simp

lemma run_assignment_no_identity:
  "merge_grades_from_assignments decimal_whole [(''A.csv'', lecture_no_identity)]
     [(Some ''W1 PA'', assignment_two)] =
   \<lparr>lecture_dfs =
       [(''A.csv'',
         \<lparr>columns = [''Name''], rows = [[(''Name'', CStr ''Alice'')]]\<rparr>)],
       stats = [], matched_students = {}, students_not_found = {},
       new_columns = [], by_id = 0, by_email = 0, orphaned_rows = [],
       failed_id_match_rows = [], all_assignment_students = {},
       students_matched_this_assignment = {},
       lecture_df = \<lparr>columns = [], rows = []\<rparr>, grades_updated = 0,
       matched_by_id = 0, matched_by_email = 0, failed_id_matches = []\<rparr>"
  by code_simp

lemma run_master_id_wins:
  "master_run decimal_whole [(''A.csv'', lecture_ab)] master_id_wins =
   \<lparr>m_updated_dataframes =
       [(''A.csv'',
         \<lparr>columns = [''Student ID'', ''Username'', ''W1 PA''],
            rows =
              [[(''Student ID'', CStr ''111''), (''Username'', CStr ''alice''),
                (''W1 PA'', CInt 9)],
               [(''Student ID'', CStr ''222''),
                (''Username'', CStr ''alice2''), (''W1 PA'', CStr [])]]\<rparr>)],
       m_stats =
         [(''A.csv'',
           \<lparr>st_grades_updated = 1, st_matched_by_id = 1,
              st_matched_by_email = 0, st_columns_added = 1\<rparr>)],
       m_students_not_found = [], m_orphaned_rows = [],
       m_failed_id_match_rows = [], m_new_columns = [''W1 PA''],
       m_matched_students = {''111''}, m_by_id = 1, m_by_email = 0,
       all_master_students = {''111''}, matched_master_indices = {0},
       failed_id_match_details = [],
       m_lecture_df =
         \<lparr>columns = [''Student ID'', ''Username'', ''W1 PA''],
            rows =
              [[(''Student ID'', CStr ''111''), (''Username'', CStr ''alice''),
                (''W1 PA'', CInt 9)],
               [(''Student ID'', CStr ''222''),
                (''Username'', CStr ''alice2''), (''W1 PA'', CStr [])]]\<rparr>,
       m_grades_updated = 1, m_columns_added = 1, m_matched_by_id = 1,
       m_matched_by_email = 0\<rparr>"
  by code_simp

lemma run_master_stale_id:
  "master_run decimal_whole [(''A.csv'', lecture_ab)] master_stale_id =
   \<lparr>m_updated_dataframes =
       [(''A.csv'',
         \<lparr>columns = [''Student ID'', ''Username'', ''W1 PA''],
            rows =
              [[(''Student ID'', CStr ''111''), (''Username'', CStr ''alice''),
                (''W1 PA'', CInt 9)],
               [(''Student ID'', CStr ''222''),
                (''Username'', CStr ''alice2''), (''W1 PA'', CStr [])]]\<rparr>)],
       m_stats =
         [(''A.csv'',
           \<lparr>st_grades_updated = 1, st_matched_by_id = 0,
              st_matched_by_email = 1, st_columns_added = 1\<rparr>)],
       m_students_not_found = [], m_orphaned_rows = [],
       m_failed_id_match_rows =
         [[(''Student Name'', CStr ''Doe, Al''),
           (''Email'', CStr ''alice@x.edu''),
           (''Apparent ID (Master)'', CStr ''999''),
           (''Matched ID (Lecture)'', CStr ''111'')]],
       m_new_columns = [''W1 PA''], m_matched_students = {''999''},
       m_by_id = 0, m_by_email = 1, all_master_students = {''999''},
       matched_master_indices = {0},
       failed_id_match_details =
         [(0, [(''Student Name'', CStr ''Doe, Al''),
               (''Email'', CStr ''alice@x.edu''),
               (''Apparent ID (Master)'', CStr ''999''),
               (''Matched ID (Lecture)'', CStr ''111'')])],
       m_lecture_df =
         \<lparr>columns = [''Student ID'', ''Username'', ''W1 PA''],
            rows =
              [[(''Student ID'', CStr ''111''), (''Username'', CStr ''alice''),
                (''W1 PA'', CInt 9)],
               [(''Student ID'', CStr ''222''),
                (''Username'', CStr ''alice2''), (''W1 PA'', CStr [])]]\<rparr>,
       m_grades_updated = 1, m_columns_added = 1, m_matched_by_id = 0,
       m_matched_by_email = 1\<rparr>"
  by code_simp

lemma run_master_two:
  "master_run decimal_whole [(''A.csv'', lecture_ab)] master_two =
   \<lparr>m_updated_dataframes =
       [(''A.csv'',
         \<lparr>columns = [''Student ID'', ''Username'', ''W1 PA''],
            rows =
              [[(''Student ID'', CStr ''111''), (''Username'', CStr ''alice''),
                (''W1 PA'', CInt 9)],
               [(''Student ID'', CStr ''222''),
                (''Username'', CStr ''alice2''), (''W1 PA'', CStr [])]]\<rparr>)],
       m_stats =
         [(''A.csv'',
           \<lparr>st_grades_updated = 1, st_matched_by_id = 1,
              st_matched_by_email = 0, st_columns_added = 1\<rparr>)],
       m_students_not_found = [''333''],
       m_orphaned_rows =
         [[(''Last name'', CStr ''Roe''), (''First name'', CStr ''Bo''),
           (''Student ID'', CStr ''333''),
           (''School email'', CStr ''bo@x.edu''),
           (''Week 1 Participation Activities (10)'', CInt 7)]],
       m_failed_id_match_rows = [], m_new_columns = [''W1 PA''],
       m_matched_students = {''111''}, m_by_id = 1, m_by_email = 0,
       all_master_students = {''333'', ''111''}, matched_master_indices = {0},
       failed_id_match_details = [],
       m_lecture_df =
         \<lparr>columns = [''Student ID'', ''Username'', ''W1 PA''],
            rows =
              [[(''Student ID'', CStr ''111''), (''Username'', CStr ''alice''),
                (''W1 PA'', CInt 9)],
               [(''Student ID'', CStr ''222''),
                (''Username'', CStr ''alice2''), (''W1 PA'', CStr [])]]\<rparr>,
       m_grades_updated = 1, m_columns_added = 1, m_matched_by_id = 1,
       m_matched_by_email = 0\<rparr>"
  by code_simp

lemma run_master_no_identity:
  "master_run decimal_whole [(''A.csv'', lecture_no_identity)] master_two =
   \<lparr>m_updated_dataframes = [], m_stats = [], m_students_not_found = [],
       m_orphaned_rows =
         [[(''Last name'', CStr ''Doe''), (''First name'', CStr ''Al''),
           (''Student ID'', CStr ''111''),
           (''School email'', CStr ''alice2@x.edu''),
           (''Week 1 Participation Activities (10)'', CInt 9)],
          [(''Last name'', CStr ''Roe''), (''First name'', CStr ''Bo''),
           (''Student ID'', CStr ''333''),
           (''School email'', CStr ''bo@x.edu''),
           (''Week 1 Participation Activities (10)'', CInt 7)]],
       m_failed_id_match_rows = [], m_new_columns = [],
       m_matched_students = {}, m_by_id = 0, m_by_email = 0,
       all_master_students = {}, matched_master_indices = {},
       failed_id_match_details = [], m_lecture_df = \<lparr>columns = [], rows = []\<rparr>,
       m_grades_updated = 0, m_columns_added = 0, m_matched_by_id = 0,
       m_matched_by_email = 0\<rparr>"
  by code_simp

lemma merge_grades_from_master_run:
  "truthy (find_student_id_column (columns master_df)) \<or> truthy (find_email_column (columns master_df))
     \<Longrightarrow> merge_grades_from_master to_whole lecture_files master_df
           = Inr (master_run to_whole lecture_files master_df)"
  by (auto simp: merge_grades_from_master_def)

lemma master_cols_id: "find_student_id_column master_cols = Some ''Student ID''"
  by code_simp

lemma master_cols_email: "find_email_column master_cols = Some ''School email''"
  by code_simp

lemma assignment_cols_id: "find_student_id_column assignment_cols = Some ''Student ID''"
  by code_simp

lemma assignment_cols_email: "find_email_column assignment_cols = Some ''School email''"
  by code_simp

lemma assignment_cols_grade: "find_grade_col assignment_cols = Some ''Percent score''"
  by code_simp

lemma lecture_ab_usable: "usable_lecture lecture_ab" "usable_master_lecture lecture_ab"
  by code_simp+

lemma lecture_data_single: "lecture_data [(n, df)] = [(n, df)]"
  by (simp add: lecture_data_def)

subsection \<open>Matched or orphaned\<close>

text \<open>
  The bookkeeping when a lecture section is not skipped.

  Master merge: when the run returns and one lecture section has an id or a user name
  column, the key of every row of the master gradebook is in exactly one of
  \<open>matched_students\<close> and \<open>students_not_found\<close>, and it is matched exactly when a row with
  this key is found in one of the lecture sections that are not skipped.

  Assignment merge: for the last assignment file of a batch, when the file is not skipped
  and one lecture section has an id, email or user name column, every key of the file that
  is not empty is in exactly one of the two sets of that file,
  \<open>students_matched_this_assignment\<close> and \<open>orphaned_students\<close>; it is matched exactly when
  a row with this key is found in one of the lecture sections that are not skipped; the
  matched keys are in \<open>matched_students\<close>; and the rows of the orphaned keys, whole, are
  what the file adds to \<open>orphaned_rows\<close>.
\<close>

lemma matched_or_orphaned:
  "(merge_grades_from_master to_whole lecture_files master_df = Inr res
     \<and> list_ex (\<lambda>(n, df). usable_master_lecture df) (lecture_data lecture_files)
     \<and> r \<in> set (rows master_df)
    \<longrightarrow> (master_key to_whole master_df r \<in> m_matched_students res)
          \<noteq> (master_key to_whole master_df r \<in> set (m_students_not_found res))
       \<and> (master_key to_whole master_df r \<in> m_matched_students res \<longleftrightarrow>
            (\<exists>r' \<in> set (rows master_df).
               master_key to_whole master_df r' = master_key to_whole master_df r
               \<and> list_ex (\<lambda>(n, df). usable_master_lecture df
                                     \<and> master_lookup to_whole master_df df r' \<noteq> None)
                    (lecture_data lecture_files))))
   \<and> (accepted_file (ab, assignment_df)
      \<and> st = fold (merge_assignment to_whole) afs (initial_state lecture_files)
      \<and> out = merge_grades_from_assignments to_whole lecture_files (afs @ [(ab, assignment_df)])
      \<and> list_ex (\<lambda>(n, df). usable_lecture df) (lecture_dfs st)
      \<and> a \<in> set (rows assignment_df) \<and> truthy (assign_key to_whole assignment_df a)
     \<longrightarrow> (assign_key to_whole assignment_df a \<in> students_matched_this_assignment out)
           \<noteq> (assign_key to_whole assignment_df a \<in> orphaned_students out)
        \<and> (assign_key to_whole assignment_df a \<in> students_matched_this_assignment out \<longleftrightarrow>
             (\<exists>a' \<in> set (rows assignment_df).
                assign_key to_whole assignment_df a' = assign_key to_whole assignment_df a
                \<and> list_ex (\<lambda>(n, df). usable_lecture df
                                      \<and> assign_lookup to_whole assignment_df df a' \<noteq> None)
                     (lecture_dfs st)))
        \<and> students_matched_this_assignment out \<subseteq> matched_students out
        \<and> orphaned_rows out
            = orphaned_rows st @
              filter (\<lambda>a'. truthy (assign_key to_whole assignment_df a')
                            \<and> assign_key to_whole assignment_df a' \<in> orphaned_students out)
                (rows assignment_df))"
proof (intro conjI impI; (elim conjE)?)
  assume run: "merge_grades_from_master to_whole lecture_files master_df = Inr res"
    and us: "list_ex (\<lambda>(n, df). usable_master_lecture df) (lecture_data lecture_files)"
    and r: "r \<in> set (rows master_df)"
  have res: "res = master_run to_whole lecture_files master_df"
    using run by (simp add: merge_grades_from_master_def split: if_splits)
  note s = master_run_sets[of to_whole lecture_files master_df, folded res]
  have nf: "set (m_students_not_found res)
              = master_key to_whole master_df ` set (rows master_df) - m_matched_students res"
    using s(2) us by simp
  have sub: "m_matched_students res \<subseteq> master_key to_whole master_df ` set (rows master_df)"
    unfolding s(1) by blast
  show "(master_key to_whole master_df r \<in> m_matched_students res)
          \<noteq> (master_key to_whole master_df r \<in> set (m_students_not_found res))"
    unfolding nf using sub r by blast
  show "master_key to_whole master_df r \<in> m_matched_students res \<longleftrightarrow>
            (\<exists>r' \<in> set (rows master_df).
               master_key to_whole master_df r' = master_key to_whole master_df r
               \<and> list_ex (\<lambda>(n, df). usable_master_lecture df
                                     \<and> master_lookup to_whole master_df df r' \<noteq> None)
                    (lecture_data lecture_files))"
    unfolding s(1) by (rule image_key)
next
  assume acc: "accepted_file (ab, assignment_df)"
    and st: "st = fold (merge_assignment to_whole) afs (initial_state lecture_files)"
    and out: "out = merge_grades_from_assignments to_whole lecture_files (afs @ [(ab, assignment_df)])"
    and us: "list_ex (\<lambda>(n, df). usable_lecture df) (lecture_dfs st)"
    and a: "a \<in> set (rows assignment_df)" "truthy (assign_key to_whole assignment_df a)"
  have d: "distinct (map fst (lecture_dfs st))"
    unfolding st by (rule reachable_distinct)
  define st' where "st' = merge_assignment to_whole (ab, assignment_df) st"
  note s = merge_assignment_sets[OF acc d, of to_whole, folded st'_def]
  have f: "all_assignment_students out = all_assignment_students st'"
    "students_matched_this_assignment out = students_matched_this_assignment st'"
    "matched_students out = matched_students st'"
    "orphaned_rows out = orphaned_rows st'"
    "orphaned_students out = orphaned_students st'"
    unfolding out st'_def st by (rule merge_grades_from_assignments_last)+
  have al: "all_assignment_students st' = assign_keys to_whole assignment_df"
    using s(1) us by simp
  have k: "assign_key to_whole assignment_df a \<in> assign_keys to_whole assignment_df"
    using a by (simp add: assign_keys_def)
  have tr: "truthy (assign_key to_whole assignment_df x)"
    if "assign_lookup to_whole assignment_df df x \<noteq> None" for df x
  proof -
    obtain sid un where ids:
      "assign_ids to_whole (the (find_student_id_column (columns assignment_df)))
         (find_email_column (columns assignment_df)) x = (sid, un)"
      by (cases "assign_ids to_whole (the (find_student_id_column (columns assignment_df)))
         (find_email_column (columns assignment_df)) x")
    have "find_lecture_row (fst (lecture_maps to_whole df)) (snd (lecture_maps to_whole df)) sid un \<noteq> None"
      using that ids by (simp add: assign_lookup_def)
    from find_lecture_row_truthy[OF this] show ?thesis
      using ids by (simp add: assign_key_def student_key_of_def)
  qed
  have sub: "students_matched_this_assignment st' \<subseteq> assign_keys to_whole assignment_df"
    unfolding s(2) assign_keys_def using tr by (auto simp: list_ex_iff)
  show "(assign_key to_whole assignment_df a \<in> students_matched_this_assignment out)
           \<noteq> (assign_key to_whole assignment_df a \<in> orphaned_students out)"
    unfolding f orphaned_students_def
    by (rule partition_key[OF al sub k])
  show "assign_key to_whole assignment_df a \<in> students_matched_this_assignment out \<longleftrightarrow>
             (\<exists>a' \<in> set (rows assignment_df).
                assign_key to_whole assignment_df a' = assign_key to_whole assignment_df a
                \<and> list_ex (\<lambda>(n, df). usable_lecture df
                                      \<and> assign_lookup to_whole assignment_df df a' \<noteq> None)
                     (lecture_dfs st))"
    unfolding f s(2) by (rule image_key)
  show "students_matched_this_assignment out \<subseteq> matched_students out"
    unfolding f using s(4) by blast
  show "orphaned_rows out
            = orphaned_rows st @
              filter (\<lambda>a'. truthy (assign_key to_whole assignment_df a')
                            \<and> assign_key to_whole assignment_df a' \<in> orphaned_students out)
                (rows assignment_df)"
    unfolding f by (rule s(3))
qed

text \<open>
  At the lecture section with rows A and B: the row of the student 333, whom the lecture
  section does not have, is orphaned in both merges.
\<close>

lemma matched_or_orphaned_at_sample:
  "merge_grades_from_master decimal_whole [(''A.csv'', lecture_ab)] master_two
     = Inr (master_run decimal_whole [(''A.csv'', lecture_ab)] master_two)
   \<and> list_ex (\<lambda>(n, df). usable_master_lecture df) (lecture_data [(''A.csv'', lecture_ab)])
   \<and> master_row_stranger \<in> set (rows master_two)
   \<and> master_key decimal_whole master_two master_row_stranger = ''333''
   \<and> ''333'' \<notin> m_matched_students (master_run decimal_whole [(''A.csv'', lecture_ab)] master_two)
   \<and> ''333'' \<in> set (m_students_not_found (master_run decimal_whole [(''A.csv'', lecture_ab)] master_two))
   \<and> accepted_file (Some ''W1 PA'', assignment_two)
   \<and> list_ex (\<lambda>(n, df). usable_lecture df) (lecture_dfs (initial_state [(''A.csv'', lecture_ab)]))
   \<and> row_stranger \<in> set (rows assignment_two)
   \<and> assign_key decimal_whole assignment_two row_stranger = Some ''333''
   \<and> Some ''333'' \<notin> students_matched_this_assignment
        (merge_grades_from_assignments decimal_whole [(''A.csv'', lecture_ab)]
           [(Some ''W1 PA'', assignment_two)])
   \<and> Some ''333'' \<in> orphaned_students
        (merge_grades_from_assignments decimal_whole [(''A.csv'', lecture_ab)]
           [(Some ''W1 PA'', assignment_two)])
   \<and> orphaned_rows
        (merge_grades_from_assignments decimal_whole [(''A.csv'', lecture_ab)]
           [(Some ''W1 PA'', assignment_two)]) = [row_stranger]"
proof -
  have m1: "merge_grades_from_master decimal_whole [(''A.csv'', lecture_ab)] master_two
     = Inr (master_run decimal_whole [(''A.csv'', lecture_ab)] master_two)"
    by (rule merge_grades_from_master_run) (simp add: master_two_def master_cols_id)
  have m2: "list_ex (\<lambda>(n, df). usable_master_lecture df) (lecture_data [(''A.csv'', lecture_ab)])"
    by (simp add: lecture_data_single lecture_ab_usable)
  have m3: "master_row_stranger \<in> set (rows master_two)"
    by (simp add: master_two_def)
  have m4: "master_key decimal_whole master_two master_row_stranger = ''333''"
    by code_simp
  have m5: "''333'' \<notin> m_matched_students (master_run decimal_whole [(''A.csv'', lecture_ab)] master_two)"
    by (simp add: run_master_two)
  have a1: "accepted_file (Some ''W1 PA'', assignment_two)"
    by (simp add: accepted_file_def assignment_two_def assignment_cols_id assignment_cols_grade)
  have a2: "list_ex (\<lambda>(n, df). usable_lecture df) (lecture_dfs (initial_state [(''A.csv'', lecture_ab)]))"
    by (simp add: initial_state_def lecture_data_single lecture_ab_usable)
  have a3: "row_stranger \<in> set (rows assignment_two)"
    by (simp add: assignment_two_def)
  have a4: "assign_key decimal_whole assignment_two row_stranger = Some ''333''"
    by code_simp
  have a5: "Some ''333'' \<notin> students_matched_this_assignment
        (merge_grades_from_assignments decimal_whole [(''A.csv'', lecture_ab)]
           [(Some ''W1 PA'', assignment_two)])"
    by (simp add: run_assignment_two)
  have a6: "orphaned_rows
        (merge_grades_from_assignments decimal_whole [(''A.csv'', lecture_ab)]
           [(Some ''W1 PA'', assignment_two)]) = [row_stranger]"
    by (simp add: run_assignment_two row_stranger_def)
  note t = matched_or_orphaned[where to_whole = decimal_whole
      and lecture_files = "[(''A.csv'', lecture_ab)]" and master_df = master_two
      and res = "master_run decimal_whole [(''A.csv'', lecture_ab)] master_two"
      and r = master_row_stranger and ab = "Some ''W1 PA''" and assignment_df = assignment_two
      and afs = "[]" and st = "initial_state [(''A.csv'', lecture_ab)]"
      and out = "merge_grades_from_assignments decimal_whole [(''A.csv'', lecture_ab)]
           [(Some ''W1 PA'', assignment_two)]"
      and a = row_stranger]
  have m6: "''333'' \<in> set (m_students_not_found (master_run decimal_whole [(''A.csv'', lecture_ab)] master_two))"
    using t m1 m2 m3 m5 by (simp add: m4)
  have a7: "Some ''333'' \<in> orphaned_students
        (merge_grades_from_assignments decimal_whole [(''A.csv'', lecture_ab)]
           [(Some ''W1 PA'', assignment_two)])"
    using t a1 a2 a3 a5 by (simp add: a4)
  from m1 m2 m3 m4 m5 m6 a1 a2 a3 a4 a5 a6 a7 show ?thesis by blast
qed

text \<open>
  Claim C3, at the input where the code departs from it. The only lecture section has the
  single column \<open>Name\<close>, so it has no id, email or user name column, and the assignment
  file has the rows of the students 111 and 333. The assignment merge skips the lecture
  section before it records a key: after the run the key 111 is in neither set, no key is
  matched and no row is reported as orphaned. The master merge on the same lecture section
  reports every row of the master gradebook as orphaned.
\<close>

theorem no_usable_lecture_neither_matched_nor_orphaned:
  "accepted_file (Some ''W1 PA'', assignment_two)
   \<and> row_id_wins \<in> set (rows assignment_two)
   \<and> assign_key decimal_whole assignment_two row_id_wins = Some ''111''
   \<and> matched_students
        (merge_grades_from_assignments decimal_whole [(''A.csv'', lecture_no_identity)]
           [(Some ''W1 PA'', assignment_two)]) = {}
   \<and> students_not_found
        (merge_grades_from_assignments decimal_whole [(''A.csv'', lecture_no_identity)]
           [(Some ''W1 PA'', assignment_two)]) = {}
   \<and> all_assignment_students
        (merge_grades_from_assignments decimal_whole [(''A.csv'', lecture_no_identity)]
           [(Some ''W1 PA'', assignment_two)]) = {}
   \<and> orphaned_students
        (merge_grades_from_assignments decimal_whole [(''A.csv'', lecture_no_identity)]
           [(Some ''W1 PA'', assignment_two)]) = {}
   \<and> orphaned_rows
        (merge_grades_from_assignments decimal_whole [(''A.csv'', lecture_no_identity)]
           [(Some ''W1 PA'', assignment_two)]) = []
   \<and> m_matched_students (master_run decimal_whole [(''A.csv'', lecture_no_identity)] master_two) = {}
   \<and> m_orphaned_rows (master_run decimal_whole [(''A.csv'', lecture_no_identity)] master_two)
       = [master_row_id_wins, master_row_stranger]"
proof -
  have 1: "accepted_file (Some ''W1 PA'', assignment_two)"
    by (simp add: accepted_file_def assignment_two_def assignment_cols_id assignment_cols_grade)
  have 2: "row_id_wins \<in> set (rows assignment_two)"
    by (simp add: assignment_two_def)
  have 3: "assign_key decimal_whole assignment_two row_id_wins = Some ''111''"
    by code_simp
  show ?thesis
    using 1 2 3
    by (simp add: run_assignment_no_identity run_master_no_identity orphaned_students_def
          master_row_id_wins_def master_row_stranger_def)
qed

subsection \<open>The record of an id mismatch\<close>

lemma merge_master_row_ByEmail:
  assumes "master_ids to_whole ic ec r = (sid, email, un)"
    "find_lecture_row (fst maps) (snd maps) sid un = Some (j, ByEmail)"
  shows "failed_id_match_details (merge_master_row to_whole cols ic ec lic maps (idx, r) st)
           = (if truthy sid
              then AList.update idx (id_mismatch_details to_whole cols lic (m_lecture_df st) j r sid email)
                     (failed_id_match_details st)
              else failed_id_match_details st)"
    and "m_by_email (merge_master_row to_whole cols ic ec lic maps (idx, r) st) = m_by_email st + 1"
    and "m_by_id (merge_master_row to_whole cols ic ec lic maps (idx, r) st) = m_by_id st"
  using assms by (simp_all add: merge_master_row_def Let_def fold_transfer_col_keeps)

lemma id_mismatch_details_ids:
  "map_of (id_mismatch_details to_whole cols lic df j r sid email) ''Apparent ID (Master)''
     = Some (opt_cell sid)"
  "map_of (id_mismatch_details to_whole cols lic df j r sid email) ''Matched ID (Lecture)''
     = Some (opt_cell (matched_lecture_id to_whole lic df j))"
  by (cases "name_fields cols r"; simp add: id_mismatch_details_def)+


text \<open>
  A source row whose id is not in the index and whose user name is found at row \<open>j\<close> is
  matched through the user name in both merges: its key joins the matched set and the count
  of matches by email goes up by one.

  Master merge: when the master row has an id, the record kept under the index of the master
  row carries the id of the master row as \<open>Apparent ID (Master)\<close> and the id of the
  matched lecture row as \<open>Matched ID (Lecture)\<close>. The records are a dictionary over the
  indices of the master rows, so a master row has one record.

  Assignment merge: when the source row has an id, the lecture section has an id column and
  the id of the matched row is not empty and differs, the record appended to
  \<open>failed_id_matches\<close> is the source row itself, as it is, and nothing else.

  The master merge on a master row with the id 999 and the email of row A: one record, with
  999 and 111, the student is matched and not orphaned, and the grade goes to row A.
\<close>

lemma id_mismatch_record:
  "(master_ids to_whole master_id_col master_email_col master_row = (sid, email, un)
     \<and> find_lecture_row (fst maps) (snd maps) sid un = Some (j, ByEmail)
     \<and> truthy sid
     \<and> distinct (map fst (failed_id_match_details mst))
     \<and> mst' = merge_master_row to_whole cols master_id_col master_email_col lecture_id_col maps
                (master_idx, master_row) mst
     \<and> d = id_mismatch_details to_whole cols lecture_id_col (m_lecture_df mst) j master_row sid email
    \<longrightarrow> failed_id_match_details mst' = AList.update master_idx d (failed_id_match_details mst)
        \<and> distinct (map fst (failed_id_match_details mst'))
        \<and> map_of (failed_id_match_details mst') master_idx = Some d
        \<and> map_of d ''Apparent ID (Master)'' = Some (opt_cell sid)
        \<and> map_of d ''Matched ID (Lecture)''
            = Some (opt_cell (matched_lecture_id to_whole lecture_id_col (m_lecture_df mst) j))
        \<and> master_idx \<in> matched_master_indices mst'
        \<and> identifier_of sid un \<in> m_matched_students mst'
        \<and> m_by_email mst' = m_by_email mst + 1)
   \<and> (assign_ids to_whole assign_id_col assign_email_col assign_row = (aid, aun)
      \<and> find_lecture_row (fst maps) (snd maps) aid aun = Some (j, ByEmail)
      \<and> st' = merge_assign_row to_whole abbrev_name assign_id_col assign_email_col grade_col
                 lec_id_col maps assign_row st
      \<and> lec_student_id = normalize_student_id to_whole (table_at (lecture_df st) j (the lec_id_col))
     \<longrightarrow> failed_id_matches st'
           = (if truthy aid \<and> truthy lec_id_col \<and> truthy lec_student_id \<and> aid \<noteq> lec_student_id
              then failed_id_matches st @ [assign_row] else failed_id_matches st)
         \<and> py_or aid aun \<in> students_matched_this_assignment st'
         \<and> py_or aid aun \<in> matched_students st'
         \<and> by_email st' = by_email st + 1)
   \<and> m_failed_id_match_rows (master_run decimal_whole [(''A.csv'', lecture_ab)] master_stale_id)
       = [[(''Student Name'', CStr ''Doe, Al''), (''Email'', CStr ''alice@x.edu''),
           (''Apparent ID (Master)'', CStr ''999''), (''Matched ID (Lecture)'', CStr ''111'')]]
   \<and> m_matched_students (master_run decimal_whole [(''A.csv'', lecture_ab)] master_stale_id) = {''999''}
   \<and> m_students_not_found (master_run decimal_whole [(''A.csv'', lecture_ab)] master_stale_id) = []
   \<and> m_orphaned_rows (master_run decimal_whole [(''A.csv'', lecture_ab)] master_stale_id) = []
   \<and> m_updated_dataframes (master_run decimal_whole [(''A.csv'', lecture_ab)] master_stale_id)
       = [(''A.csv'',
           \<lparr>columns = [''Student ID'', ''Username'', ''W1 PA''],
            rows = [[(''Student ID'', CStr ''111''), (''Username'', CStr ''alice''), (''W1 PA'', CInt 9)],
                    [(''Student ID'', CStr ''222''), (''Username'', CStr ''alice2''),
                     (''W1 PA'', CStr [])]]\<rparr>)]"
proof (intro conjI impI; (elim conjE)?)
  assume ids: "master_ids to_whole master_id_col master_email_col master_row = (sid, email, un)"
    and f: "find_lecture_row (fst maps) (snd maps) sid un = Some (j, ByEmail)"
    and t: "truthy sid"
    and dist: "distinct (map fst (failed_id_match_details mst))"
    and mst': "mst' = merge_master_row to_whole cols master_id_col master_email_col lecture_id_col maps
                (master_idx, master_row) mst"
    and d: "d = id_mismatch_details to_whole cols lecture_id_col (m_lecture_df mst) j master_row sid email"
  note e = merge_master_row_ByEmail[OF ids f, of cols lecture_id_col master_idx mst, folded mst']
  note s = merge_master_row_sets[OF ids, of cols lecture_id_col maps master_idx mst, folded mst']
  show 1: "failed_id_match_details mst' = AList.update master_idx d (failed_id_match_details mst)"
    using e(1) t by (simp add: d)
  show "distinct (map fst (failed_id_match_details mst'))"
    unfolding 1 using dist by (rule distinct_update)
  show "map_of (failed_id_match_details mst') master_idx = Some d"
    unfolding 1 by (simp add: update_conv')
  show "map_of d ''Apparent ID (Master)'' = Some (opt_cell sid)"
    unfolding d by (rule id_mismatch_details_ids)
  show "map_of d ''Matched ID (Lecture)''
            = Some (opt_cell (matched_lecture_id to_whole lecture_id_col (m_lecture_df mst) j))"
    unfolding d by (rule id_mismatch_details_ids)
  show "master_idx \<in> matched_master_indices mst'"
    using s(3) f by simp
  show "identifier_of sid un \<in> m_matched_students mst'"
    using s(2) f by simp
  show "m_by_email mst' = m_by_email mst + 1"
    by (rule e(2))
next
  assume ids: "assign_ids to_whole assign_id_col assign_email_col assign_row = (aid, aun)"
    and f: "find_lecture_row (fst maps) (snd maps) aid aun = Some (j, ByEmail)"
    and st': "st' = merge_assign_row to_whole abbrev_name assign_id_col assign_email_col grade_col
                 lec_id_col maps assign_row st"
    and l: "lec_student_id = normalize_student_id to_whole (table_at (lecture_df st) j (the lec_id_col))"
  note e = merge_assign_row_ByEmail[OF ids f, of abbrev_name grade_col lec_id_col st, folded st']
  show "failed_id_matches st'
           = (if truthy aid \<and> truthy lec_id_col \<and> truthy lec_student_id \<and> aid \<noteq> lec_student_id
              then failed_id_matches st @ [assign_row] else failed_id_matches st)"
    unfolding e l by (simp add: Let_def)
  show "py_or aid aun \<in> students_matched_this_assignment st'"
    unfolding e by (simp add: Let_def)
  show "py_or aid aun \<in> matched_students st'"
    unfolding e by (simp add: Let_def)
  show "by_email st' = by_email st + 1"
    unfolding e by (simp add: Let_def)
next
  show "m_failed_id_match_rows (master_run decimal_whole [(''A.csv'', lecture_ab)] master_stale_id)
       = [[(''Student Name'', CStr ''Doe, Al''), (''Email'', CStr ''alice@x.edu''),
           (''Apparent ID (Master)'', CStr ''999''), (''Matched ID (Lecture)'', CStr ''111'')]]"
    by (simp add: run_master_stale_id)
  show "m_matched_students (master_run decimal_whole [(''A.csv'', lecture_ab)] master_stale_id) = {''999''}"
    by (simp add: run_master_stale_id)
  show "m_students_not_found (master_run decimal_whole [(''A.csv'', lecture_ab)] master_stale_id) = []"
    by (simp add: run_master_stale_id)
  show "m_orphaned_rows (master_run decimal_whole [(''A.csv'', lecture_ab)] master_stale_id) = []"
    by (simp add: run_master_stale_id)
  show "m_updated_dataframes (master_run decimal_whole [(''A.csv'', lecture_ab)] master_stale_id)
       = [(''A.csv'',
           \<lparr>columns = [''Student ID'', ''Username'', ''W1 PA''],
            rows = [[(''Student ID'', CStr ''111''), (''Username'', CStr ''alice''), (''W1 PA'', CInt 9)],
                    [(''Student ID'', CStr ''222''), (''Username'', CStr ''alice2''),
                     (''W1 PA'', CStr [])]]\<rparr>)]"
    by (simp add: run_master_stale_id)
qed


text \<open>
  For one row of the master merge and one row of the assignment merge, each at the start
  of the loop over the lecture section with rows A and B.
\<close>

lemma id_mismatch_record_at_sample:
  "master_ids decimal_whole (Some ''Student ID'') (Some ''School email'') master_row_stale_id
     = (Some ''999'', Some (CStr ''alice@x.edu''), Some ''alice'')
   \<and> find_lecture_row (fst (master_lecture_maps decimal_whole lecture_ab))
        (snd (master_lecture_maps decimal_whole lecture_ab)) (Some ''999'') (Some ''alice'')
       = Some (0, ByEmail)
   \<and> truthy (Some ''999'')
   \<and> distinct (map fst (failed_id_match_details (initial_master_state\<lparr>m_lecture_df := lecture_ab\<rparr>)))
   \<and> failed_id_match_details
        (merge_master_row decimal_whole master_cols (Some ''Student ID'') (Some ''School email'')
           (Some ''Student ID'') (master_lecture_maps decimal_whole lecture_ab)
           (0, master_row_stale_id) (initial_master_state\<lparr>m_lecture_df := lecture_ab\<rparr>))
       = [(0, [(''Student Name'', CStr ''Doe, Al''), (''Email'', CStr ''alice@x.edu''),
               (''Apparent ID (Master)'', CStr ''999''), (''Matched ID (Lecture)'', CStr ''111'')])]
   \<and> assign_ids decimal_whole ''Student ID'' (Some ''School email'') row_stale_id
       = (Some ''999'', Some ''alice'')
   \<and> find_lecture_row (fst (lecture_maps decimal_whole lecture_ab))
        (snd (lecture_maps decimal_whole lecture_ab)) (Some ''999'') (Some ''alice'')
       = Some (0, ByEmail)
   \<and> normalize_student_id decimal_whole (table_at lecture_ab 0 ''Student ID'') = Some ''111''
   \<and> failed_id_matches
        (merge_assign_row decimal_whole ''W1 PA'' ''Student ID'' (Some ''School email'')
           ''Percent score'' (Some ''Student ID'') (lecture_maps decimal_whole lecture_ab)
           row_stale_id (initial_state [(''A.csv'', lecture_ab)]\<lparr>lecture_df := lecture_ab\<rparr>))
       = [row_stale_id]"
proof -
  have m1: "master_ids decimal_whole (Some ''Student ID'') (Some ''School email'') master_row_stale_id
     = (Some ''999'', Some (CStr ''alice@x.edu''), Some ''alice'')"
    by code_simp
  have m2: "find_lecture_row (fst (master_lecture_maps decimal_whole lecture_ab))
        (snd (master_lecture_maps decimal_whole lecture_ab)) (Some ''999'') (Some ''alice'')
       = Some (0, ByEmail)"
    by code_simp
  have m3: "truthy (Some ''999'')"
    by simp
  have m4: "distinct (map fst (failed_id_match_details (initial_master_state\<lparr>m_lecture_df := lecture_ab\<rparr>)))"
    by (simp add: initial_master_state_def)
  have m5: "id_mismatch_details decimal_whole master_cols (Some ''Student ID'') lecture_ab 0
              master_row_stale_id (Some ''999'') (Some (CStr ''alice@x.edu''))
            = [(''Student Name'', CStr ''Doe, Al''), (''Email'', CStr ''alice@x.edu''),
               (''Apparent ID (Master)'', CStr ''999''), (''Matched ID (Lecture)'', CStr ''111'')]"
    by code_simp
  have a1: "assign_ids decimal_whole ''Student ID'' (Some ''School email'') row_stale_id
       = (Some ''999'', Some ''alice'')"
    by code_simp
  have a2: "find_lecture_row (fst (lecture_maps decimal_whole lecture_ab))
        (snd (lecture_maps decimal_whole lecture_ab)) (Some ''999'') (Some ''alice'')
       = Some (0, ByEmail)"
    by code_simp
  have a3: "normalize_student_id decimal_whole (table_at lecture_ab 0 ''Student ID'') = Some ''111''"
    by code_simp
  note t = id_mismatch_record[where to_whole = decimal_whole
      and master_id_col = "Some ''Student ID''" and master_email_col = "Some ''School email''"
      and master_row = master_row_stale_id and sid = "Some ''999''"
      and email = "Some (CStr ''alice@x.edu'')" and un = "Some ''alice''"
      and maps = "master_lecture_maps decimal_whole lecture_ab" and j = 0
      and mst = "initial_master_state\<lparr>m_lecture_df := lecture_ab\<rparr>"
      and cols = master_cols and lecture_id_col = "Some ''Student ID''" and master_idx = 0
      and mst' = "merge_master_row decimal_whole master_cols (Some ''Student ID'')
           (Some ''School email'') (Some ''Student ID'') (master_lecture_maps decimal_whole lecture_ab)
           (0, master_row_stale_id) (initial_master_state\<lparr>m_lecture_df := lecture_ab\<rparr>)"
      and d = "id_mismatch_details decimal_whole master_cols (Some ''Student ID'') lecture_ab 0
              master_row_stale_id (Some ''999'') (Some (CStr ''alice@x.edu''))"]
  have m6: "failed_id_match_details
        (merge_master_row decimal_whole master_cols (Some ''Student ID'') (Some ''School email'')
           (Some ''Student ID'') (master_lecture_maps decimal_whole lecture_ab)
           (0, master_row_stale_id) (initial_master_state\<lparr>m_lecture_df := lecture_ab\<rparr>))
       = [(0, [(''Student Name'', CStr ''Doe, Al''), (''Email'', CStr ''alice@x.edu''),
               (''Apparent ID (Master)'', CStr ''999''), (''Matched ID (Lecture)'', CStr ''111'')])]"
    using t m1 m2 m4 by (simp add: m5 initial_master_state_def)
  note u = id_mismatch_record[where to_whole = decimal_whole
      and assign_id_col = "''Student ID''" and assign_email_col = "Some ''School email''"
      and assign_row = row_stale_id and aid = "Some ''999''" and aun = "Some ''alice''"
      and maps = "lecture_maps decimal_whole lecture_ab" and j = 0
      and abbrev_name = "''W1 PA''" and grade_col = "''Percent score''"
      and lec_id_col = "Some ''Student ID''"
      and st = "initial_state [(''A.csv'', lecture_ab)]\<lparr>lecture_df := lecture_ab\<rparr>"
      and st' = "merge_assign_row decimal_whole ''W1 PA'' ''Student ID'' (Some ''School email'')
           ''Percent score'' (Some ''Student ID'') (lecture_maps decimal_whole lecture_ab)
           row_stale_id (initial_state [(''A.csv'', lecture_ab)]\<lparr>lecture_df := lecture_ab\<rparr>)"
      and lec_student_id = "Some ''111''"]
  have a4: "failed_id_matches
        (merge_assign_row decimal_whole ''W1 PA'' ''Student ID'' (Some ''School email'')
           ''Percent score'' (Some ''Student ID'') (lecture_maps decimal_whole lecture_ab)
           row_stale_id (initial_state [(''A.csv'', lecture_ab)]\<lparr>lecture_df := lecture_ab\<rparr>))
       = [row_stale_id]"
    using u a1 a2 by (simp add: a3 initial_state_def)
  from m1 m2 m3 m4 m6 a1 a2 a3 a4 show ?thesis by blast
qed


text \<open>
  Claim C4, at the input where the code departs from it. The lecture section has row A
  (id 111, user name alice) and row B (id 222, user name alice2); the source row has the id
  999, which no row has, and the email of row A. The assignment merge matches row A through
  the user name, writes the grade to it and reports one record, and the record is the source
  row as it is: it has the id 999 of the source and no field with the id 111 of row A, which
  the code reads from the lecture section for the comparison. The master merge on the same
  sample reports one record with both ids.
\<close>

theorem id_mismatch_row_without_lecture_id:
  "failed_id_match_rows
     (merge_grades_from_assignments decimal_whole [(''A.csv'', lecture_ab)]
        [(Some ''W1 PA'', assignment_stale_id)])
     = [[(''Student ID'', CStr ''999''), (''School email'', CStr ''alice@x.edu''),
         (''Percent score'', CInt 95)]]
   \<and> matched_students
       (merge_grades_from_assignments decimal_whole [(''A.csv'', lecture_ab)]
          [(Some ''W1 PA'', assignment_stale_id)]) = {Some ''999''}
   \<and> by_email
       (merge_grades_from_assignments decimal_whole [(''A.csv'', lecture_ab)]
          [(Some ''W1 PA'', assignment_stale_id)]) = 1
   \<and> lecture_dfs
       (merge_grades_from_assignments decimal_whole [(''A.csv'', lecture_ab)]
          [(Some ''W1 PA'', assignment_stale_id)])
     = [(''A.csv'',
         \<lparr>columns = [''Student ID'', ''Username'', ''W1 PA''],
          rows = [[(''Student ID'', CStr ''111''), (''Username'', CStr ''alice''), (''W1 PA'', CInt 95)],
                  [(''Student ID'', CStr ''222''), (''Username'', CStr ''alice2''),
                   (''W1 PA'', CStr [])]]\<rparr>)]
   \<and> CStr ''111'' \<notin> snd ` set [(''Student ID'', CStr ''999''), (''School email'', CStr ''alice@x.edu''),
                                (''Percent score'', CInt 95)]
   \<and> normalize_student_id decimal_whole (table_at lecture_ab 0 ''Student ID'') = Some ''111''
   \<and> m_failed_id_match_rows (master_run decimal_whole [(''A.csv'', lecture_ab)] master_stale_id)
       = [[(''Student Name'', CStr ''Doe, Al''), (''Email'', CStr ''alice@x.edu''),
           (''Apparent ID (Master)'', CStr ''999''), (''Matched ID (Lecture)'', CStr ''111'')]]"
proof -
  have 1: "normalize_student_id decimal_whole (table_at lecture_ab 0 ''Student ID'') = Some ''111''"
    by code_simp
  show ?thesis
    using 1 by (simp add: run_assignment_stale_id run_master_stale_id)
qed

subsection \<open>The id before the user name\<close>

lemma merge_assign_row_lecture_df:
  assumes "assign_ids to_whole assign_id_col assign_email_col assign_row = (sid, un)"
    "find_lecture_row (fst maps) (snd maps) sid un = Some (i, k)"
    "\<not> pd_isna (row_get assign_row grade_col)" "row_get assign_row grade_col \<noteq> CStr []"
  shows "lecture_df (merge_assign_row to_whole abbrev_name assign_id_col assign_email_col grade_col
                       lec_id_col maps assign_row st)
         = table_set_at (lecture_df st) i abbrev_name (row_get assign_row grade_col)"
proof (cases k)
  case ById
  show ?thesis
    using assms(3,4)
    by (simp add: merge_assign_row_ById[OF assms(1) assms(2)[unfolded ById]] Let_def)
next
  case ByEmail
  show ?thesis
    using assms(3,4)
    by (simp add: merge_assign_row_ByEmail[OF assms(1) assms(2)[unfolded ByEmail]] Let_def)
qed


text \<open>
  Claim C1. The lookup both merges use, \<open>find_lecture_row\<close>, answers with the row the id
  index has for the id of the source row whenever the id is not empty and the index has it,
  whatever the user name; it answers with a row of the user name index exactly when the id
  lookup fails and the user name is not empty and in that index. In the assignment merge the
  grade of the source row is written to the row the lookup answers with.

  On the sample of the claim (row A with id 111 and user name alice, row B with id 222 and
  user name alice2, a source row with id 111 and email alice2@x.edu), both merges write the
  grade to row A and leave row B empty, and count one match by id and none by email.
\<close>

theorem id_match_before_username_match:
  "(truthy sid \<and> student_map (the sid) = Some i
      \<longrightarrow> find_lecture_row student_map username_map sid uname = Some (i, ById))
   \<and> (find_lecture_row student_map username_map sid uname = Some (j, ByEmail) \<longleftrightarrow>
        \<not> (truthy sid \<and> student_map (the sid) \<noteq> None)
        \<and> truthy uname \<and> username_map (the uname) = Some j)
   \<and> (assign_ids to_whole assign_id_col assign_email_col assign_row = (aid, aun)
      \<and> find_lecture_row (fst maps) (snd maps) aid aun = Some (n, k)
      \<and> \<not> pd_isna (row_get assign_row grade_col) \<and> row_get assign_row grade_col \<noteq> CStr []
      \<longrightarrow> lecture_df (merge_assign_row to_whole abbrev_name assign_id_col assign_email_col
                          grade_col lec_id_col maps assign_row st)
           = table_set_at (lecture_df st) n abbrev_name (row_get assign_row grade_col))
   \<and> lecture_dfs
       (merge_grades_from_assignments decimal_whole [(''A.csv'', lecture_ab)]
          [(Some ''W1 PA'', assignment_id_wins)])
     = [(''A.csv'',
         \<lparr>columns = [''Student ID'', ''Username'', ''W1 PA''],
          rows = [[(''Student ID'', CStr ''111''), (''Username'', CStr ''alice''), (''W1 PA'', CInt 95)],
                  [(''Student ID'', CStr ''222''), (''Username'', CStr ''alice2''),
                   (''W1 PA'', CStr [])]]\<rparr>)]
   \<and> by_id
       (merge_grades_from_assignments decimal_whole [(''A.csv'', lecture_ab)]
          [(Some ''W1 PA'', assignment_id_wins)]) = 1
   \<and> by_email
       (merge_grades_from_assignments decimal_whole [(''A.csv'', lecture_ab)]
          [(Some ''W1 PA'', assignment_id_wins)]) = 0
   \<and> merge_grades_from_master decimal_whole [(''A.csv'', lecture_ab)] master_id_wins
     = Inr (master_run decimal_whole [(''A.csv'', lecture_ab)] master_id_wins)
   \<and> m_updated_dataframes (master_run decimal_whole [(''A.csv'', lecture_ab)] master_id_wins)
     = [(''A.csv'',
         \<lparr>columns = [''Student ID'', ''Username'', ''W1 PA''],
          rows = [[(''Student ID'', CStr ''111''), (''Username'', CStr ''alice''), (''W1 PA'', CInt 9)],
                  [(''Student ID'', CStr ''222''), (''Username'', CStr ''alice2''),
                   (''W1 PA'', CStr [])]]\<rparr>)]
   \<and> m_by_id (master_run decimal_whole [(''A.csv'', lecture_ab)] master_id_wins) = 1
   \<and> m_by_email (master_run decimal_whole [(''A.csv'', lecture_ab)] master_id_wins) = 0"
proof (intro conjI impI; (elim conjE)?)
  assume "truthy sid" "student_map (the sid) = Some i"
  then show "find_lecture_row student_map username_map sid uname = Some (i, ById)"
    by (rule find_lecture_row_ById)
next
  show "find_lecture_row student_map username_map sid uname = Some (j, ByEmail) \<longleftrightarrow>
        \<not> (truthy sid \<and> student_map (the sid) \<noteq> None)
        \<and> truthy uname \<and> username_map (the uname) = Some j"
    by (rule find_lecture_row_ByEmail_iff)
next
  assume "assign_ids to_whole assign_id_col assign_email_col assign_row = (aid, aun)"
    "find_lecture_row (fst maps) (snd maps) aid aun = Some (n, k)"
    "\<not> pd_isna (row_get assign_row grade_col)" "row_get assign_row grade_col \<noteq> CStr []"
  then show "lecture_df (merge_assign_row to_whole abbrev_name assign_id_col assign_email_col
                          grade_col lec_id_col maps assign_row st)
           = table_set_at (lecture_df st) n abbrev_name (row_get assign_row grade_col)"
    by (rule merge_assign_row_lecture_df)
next
  show "merge_grades_from_master decimal_whole [(''A.csv'', lecture_ab)] master_id_wins
     = Inr (master_run decimal_whole [(''A.csv'', lecture_ab)] master_id_wins)"
    by (rule merge_grades_from_master_run) (simp add: master_id_wins_def master_cols_id)
qed (simp_all add: run_assignment_id_wins run_master_id_wins)


text \<open>
  The theorem at the sample of the claim: the id index of the lecture section has 111 at
  row 0 (row A), the user name index has alice2 at row 1 (row B), the lookup answers row 0
  by id, and the row step of the assignment merge writes 95 to row A.
\<close>

theorem id_match_before_username_match_witness:
  "truthy (Some ''111'')
   \<and> fst (lecture_maps decimal_whole lecture_ab) (the (Some ''111'')) = Some 0
   \<and> snd (lecture_maps decimal_whole lecture_ab) (the (Some ''alice2'')) = Some 1
   \<and> find_lecture_row (fst (lecture_maps decimal_whole lecture_ab))
        (snd (lecture_maps decimal_whole lecture_ab)) (Some ''111'') (Some ''alice2'')
       = Some (0, ById)
   \<and> assign_ids decimal_whole ''Student ID'' (Some ''School email'') row_id_wins
       = (Some ''111'', Some ''alice2'')
   \<and> \<not> pd_isna (row_get row_id_wins ''Percent score'')
   \<and> row_get row_id_wins ''Percent score'' \<noteq> CStr []
   \<and> lecture_df
        (merge_assign_row decimal_whole ''W1 PA'' ''Student ID'' (Some ''School email'')
           ''Percent score'' (Some ''Student ID'') (lecture_maps decimal_whole lecture_ab)
           row_id_wins
           (initial_state [(''A.csv'', lecture_ab)]\<lparr>lecture_df := add_column ''W1 PA'' lecture_ab\<rparr>))
       = \<lparr>columns = [''Student ID'', ''Username'', ''W1 PA''],
          rows = [[(''Student ID'', CStr ''111''), (''Username'', CStr ''alice''), (''W1 PA'', CInt 95)],
                  [(''Student ID'', CStr ''222''), (''Username'', CStr ''alice2''),
                   (''W1 PA'', CStr [])]]\<rparr>"
proof -
  have h1: "truthy (Some ''111'')"
    by simp
  have h2: "fst (lecture_maps decimal_whole lecture_ab) (the (Some ''111'')) = Some 0"
    by code_simp
  have h3: "snd (lecture_maps decimal_whole lecture_ab) (the (Some ''alice2'')) = Some 1"
    by code_simp
  have h4: "assign_ids decimal_whole ''Student ID'' (Some ''School email'') row_id_wins
       = (Some ''111'', Some ''alice2'')"
    by code_simp
  have h5: "\<not> pd_isna (row_get row_id_wins ''Percent score'')"
    "row_get row_id_wins ''Percent score'' \<noteq> CStr []"
    "row_get row_id_wins ''Percent score'' = CInt 95"
    by code_simp+
  have h6: "table_set_at (add_column ''W1 PA'' lecture_ab) 0 ''W1 PA'' (CInt 95)
       = \<lparr>columns = [''Student ID'', ''Username'', ''W1 PA''],
          rows = [[(''Student ID'', CStr ''111''), (''Username'', CStr ''alice''), (''W1 PA'', CInt 95)],
                  [(''Student ID'', CStr ''222''), (''Username'', CStr ''alice2''),
                   (''W1 PA'', CStr [])]]\<rparr>"
    by code_simp
  note t = id_match_before_username_match[where sid = "Some ''111''" and uname = "Some ''alice2''"
      and student_map = "fst (lecture_maps decimal_whole lecture_ab)"
      and username_map = "snd (lecture_maps decimal_whole lecture_ab)" and i = 0
      and to_whole = decimal_whole and assign_id_col = "''Student ID''"
      and assign_email_col = "Some ''School email''" and assign_row = row_id_wins
      and aid = "Some ''111''" and aun = "Some ''alice2''"
      and maps = "lecture_maps decimal_whole lecture_ab" and n = 0 and k = ById
      and grade_col = "''Percent score''" and abbrev_name = "''W1 PA''"
      and lec_id_col = "Some ''Student ID''"
      and st = "initial_state [(''A.csv'', lecture_ab)]\<lparr>lecture_df := add_column ''W1 PA'' lecture_ab\<rparr>"]
  have c1: "find_lecture_row (fst (lecture_maps decimal_whole lecture_ab))
        (snd (lecture_maps decimal_whole lecture_ab)) (Some ''111'') (Some ''alice2'')
       = Some (0, ById)"
    using t h1 h2 by blast
  have c2: "lecture_df
        (merge_assign_row decimal_whole ''W1 PA'' ''Student ID'' (Some ''School email'')
           ''Percent score'' (Some ''Student ID'') (lecture_maps decimal_whole lecture_ab)
           row_id_wins
           (initial_state [(''A.csv'', lecture_ab)]\<lparr>lecture_df := add_column ''W1 PA'' lecture_ab\<rparr>))
       = table_set_at
           (lecture_df (initial_state [(''A.csv'', lecture_ab)]\<lparr>lecture_df := add_column ''W1 PA'' lecture_ab\<rparr>))
           0 ''W1 PA'' (row_get row_id_wins ''Percent score'')"
    using t h4 c1 h5(1,2) by blast
  have c3: "lecture_df
        (merge_assign_row decimal_whole ''W1 PA'' ''Student ID'' (Some ''School email'')
           ''Percent score'' (Some ''Student ID'') (lecture_maps decimal_whole lecture_ab)
           row_id_wins
           (initial_state [(''A.csv'', lecture_ab)]\<lparr>lecture_df := add_column ''W1 PA'' lecture_ab\<rparr>))
       = \<lparr>columns = [''Student ID'', ''Username'', ''W1 PA''],
          rows = [[(''Student ID'', CStr ''111''), (''Username'', CStr ''alice''), (''W1 PA'', CInt 95)],
                  [(''Student ID'', CStr ''222''), (''Username'', CStr ''alice2''),
                   (''W1 PA'', CStr [])]]\<rparr>"
    unfolding c2 by (simp add: h5(3) h6)
  from h1 h2 h3 h4 h5(1,2) c1 c3 show ?thesis by blast
qed

end
